theory Spec2Isabelle
  imports Complex_Main "HOL-Library.Word"
begin

unbundle bit_operations_syntax

section \<open>The JIT controller of Jit/pyjit.cpp\<close>

text \<open>
  The controller is a set of C++ globals and the functions that read and write them.
  The globals become one record, \<open>jit_state\<close>, that every operation takes and returns.
  Code that lives outside \<open>Jit/pyjit.cpp\<close> (the X-option and environment readers, the
  JIT-list parser, the compiler back-end, the Python C API) is collected in the record
  \<open>host\<close>, a parameter of every operation. A leading underscore of a C name is dropped
  (\<open>_PyJIT_Initialize\<close> is \<open>PyJIT_Initialize\<close> here).
\<close>

subsection \<open>Data\<close>

datatype InitState = JIT_NOT_INITIALIZED | JIT_INITIALIZED | JIT_FINALIZED

datatype FrameMode = PY_FRAME | TINY_FRAME | NO_FRAME

text \<open>\<open>struct JitConfig\<close>, lines 34-44. The \<open>int\<close> flags only ever hold 0 or 1.\<close>

record JitConfig =
  init_state :: InitState
  is_enabled :: int
  frame_mode :: FrameMode
  are_type_slots_enabled :: int
  allow_jit_list_wildcards :: int
  compile_all_static_functions :: int
  batch_compile_workers :: "64 word"
  test_multithreaded_compile :: int

definition JitConfig_default :: JitConfig where
  "JitConfig_default =
     \<lparr> init_state = JIT_NOT_INITIALIZED, is_enabled = 0, frame_mode = PY_FRAME,
       are_type_slots_enabled = 0, allow_jit_list_wildcards = 0,
       compile_all_static_functions = 0, batch_compile_workers = 0,
       test_multithreaded_compile = 0 \<rparr>"

datatype PyJIT_Result =
    PYJIT_RESULT_OK
  | PYJIT_RESULT_CANNOT_SPECIALIZE
  | PYJIT_RESULT_RETRY
  | PYJIT_RESULT_UNKNOWN_ERROR
  | PYJIT_NOT_INITIALIZED

text \<open>
  Host objects. A pointer is the address it holds; a function handle carries its address and
  its code object, a code object its address and flags. Pointer equality of the source is
  equality of these values (one address never stands for two live objects).
\<close>

record PyCodeObject =
  code_addr :: nat
  co_flags :: "32 word"

record PyFunctionObject =
  func_addr :: nat
  func_code :: PyCodeObject

datatype PyObject =
    Py_None
  | Py_True
  | Py_False
  | PyLong int
  | PyUnicode string
  | PyFunction PyFunctionObject
  | PyOther nat

datatype PyErr = PyExc_TypeError string | PyExc_NotImplementedError string

fun PyFunction_Check :: "PyObject \<Rightarrow> bool" where
  "PyFunction_Check (PyFunction f) = True"
| "PyFunction_Check other = False"

fun PyBool_Check :: "PyObject \<Rightarrow> bool" where
  "PyBool_Check Py_True = True"
| "PyBool_Check Py_False = True"
| "PyBool_Check other = False"

text \<open>
  \<open>class JITList\<close> (Jit/jit_list.h, not part of this file): an object with a virtual
  \<open>lookup\<close> and a \<open>getList\<close>; it is represented by these two methods.
\<close>

record JITList =
  jl_lookup :: "PyFunctionObject \<Rightarrow> int"
  jl_getList :: PyObject

record CompilationRecord =
  code_size :: int
  stack_size :: int
  spill_stack_size :: int

text \<open>
  Modelled from the spec: \<open>_PyJITContext\<close> (Jit/jit_context.h) is missing. Spec 4.2: the
  CompileContext "owns the back-end Compiler and a mapping function -> CompilationRecord".
\<close>

record PyJITContext =
  compiled_records :: "PyFunctionObject \<rightharpoonup> CompilationRecord"

text \<open>
  Modelled from the spec: \<open>g_threaded_compile_context\<close> (Jit/threaded_compile.h) is missing.
  Spec 4.3: an internal queue of function handles, a separate retry list, and the mark
  "batch mode active".
\<close>

record ThreadedCompileContext =
  work_queue :: "PyFunctionObject list"
  retry_list :: "PyFunctionObject list"
  compile_running :: bool

text \<open>The logging globals of Jit/log.h that \<open>_PyJIT_Initialize\<close> writes.\<close>

record LogGlobals =
  g_log_file :: "nat option"
  g_debug :: int
  g_debug_verbose :: int
  g_debug_refcount :: int
  g_dump_hir :: int
  g_dump_hir_passes :: int
  g_dump_final_hir :: int
  g_dump_lir :: int
  g_dump_lir_no_origin :: int
  g_disas_funcs :: int
  g_gdb_support :: int
  g_gdb_stubs_support :: int
  g_gdb_write_elf_objects :: int

definition LogGlobals_default :: LogGlobals where
  "LogGlobals_default =
     \<lparr> g_log_file = None, g_debug = 0, g_debug_verbose = 0, g_debug_refcount = 0,
       g_dump_hir = 0, g_dump_hir_passes = 0, g_dump_final_hir = 0, g_dump_lir = 0,
       g_dump_lir_no_origin = 0, g_disas_funcs = 0, g_gdb_support = 0,
       g_gdb_stubs_support = 0, g_gdb_write_elf_objects = 0 \<rparr>"

text \<open>
  One entry of the history of back-end invocations: the function compiled, the active-compile
  stack when the back-end was entered, and the results the back-end received from its
  re-entrant calls of \<open>_PyJIT_CompileFunction\<close>. The history is not a variable of the source;
  it is kept so that "without invoking the back-end" and "the stack never ..." can be stated.
\<close>

record BackendCall =
  bc_func :: PyFunctionObject
  bc_stack :: "PyCodeObject list"
  bc_received :: "PyJIT_Result list"

text \<open>
  The globals of the file (lines 45-54, 74-75), the function-local static
  \<open>active_compiles\<close> of \<open>_PyJIT_CompileFunction\<close> (line 773), the globals of other files
  that the file writes, and the monotonic clock read by \<open>CompilationTimer\<close> (in
  seconds). A duration is a \<open>double\<close> in the source and the real number it stands for
  here; every operation on doubles rounds its result with the host's \<open>round_to_double\<close>.
\<close>

record jit_state =
  jit_config :: JitConfig
  jit_ctx :: "PyJITContext option"
  g_jit_list :: "JITList option"
  jit_reg_functions :: "PyFunctionObject set"
  test_multithreaded_funcs :: "PyFunctionObject list"
  jit_time_functions :: "PyFunctionObject \<rightharpoonup> real"
  total_compliation_time :: real
  g_compile_workers_attempted :: int
  g_compile_workers_retries :: int
  active_compiles :: "PyCodeObject list"
  g_threaded_compile_context :: ThreadedCompileContext
  log_globals :: LogGlobals
  PyGILState_check_enabled :: int
  steady_clock :: real
  backend_calls :: "BackendCall list"

definition jit_state_at_start :: jit_state where
  "jit_state_at_start =
     \<lparr> jit_config = JitConfig_default, jit_ctx = None, g_jit_list = None,
       jit_reg_functions = {}, test_multithreaded_funcs = [],
       jit_time_functions = Map.empty, total_compliation_time = 0,
       g_compile_workers_attempted = 0, g_compile_workers_retries = 0,
       active_compiles = [],
       g_threaded_compile_context = \<lparr> work_queue = [], retry_list = [], compile_running = False \<rparr>,
       log_globals = LogGlobals_default, PyGILState_check_enabled = 1,
       steady_clock = 0, backend_calls = [] \<rparr>"

text \<open>
  Everything the file calls but does not define. The fields are named after the C functions
  they stand for; a function that can fail returns \<open>None\<close> where the C function returns
  \<open>NULL\<close>, \<open>false\<close> or throws.
  \<^item> \<open>PyJIT_IsXOptionSet\<close>, \<open>PyJIT_GetXOption\<close> (Jit/jit_x_options.h), \<open>Py_GETENV\<close>;
  \<^item> \<open>PyLong_FromUnicodeObject\<close> in base 10 and \<open>std::stol\<close>, both on the text of a number;
  \<open>format_getpid\<close> is \<open>fmt::format("{}", getpid())\<close>; \<open>fopen_w\<close> is \<open>fopen(name, "w")\<close>;
  \<^item> \<open>JITList_create\<close> (its argument: the wildcard variant?) and \<open>parseFile\<close>;
  \<^item> \<open>_PyJITContext_Init\<close>, \<open>_PyJITContext_New\<close>, \<open>PyModule_Create\<close>,
    \<open>PyUnicode_InternFromString\<close>, \<open>_PyImport_FixupExtensionObject\<close>: only whether they
    succeed matters to the controller;
  \<^item> \<open>CO_STATICALLY_COMPILED\<close>, a constant of the host's code.h;
  \<^item> the queries \<open>_PyJITContext_GetCodeSize\<close>, \<open>GetStackSize\<close>, \<open>GetSpillStackSize\<close>,
    \<open>GetCompiledFunctions\<close>;
  \<^item> the back-end: which functions it asks \<open>_PyJIT_CompileFunction\<close> to compile while it
    compiles a function (the re-entrant calls the comment at line 756 speaks of), the result
    it returns given the results of those calls, the record it emits on success, and the
    time it takes;
  \<^item> \<open>iteration_order\<close>: the order in which a \<open>std::unordered_set\<close> is traversed;
  \<^item> \<open>round_to_double\<close>: the rounding of a real number to the \<open>double\<close> that the
    machine stores for it. A conversion to \<open>double\<close>, a sum and a product of doubles are
    the rounded exact results.
\<close>

record host =
  PyJIT_IsXOptionSet :: "string \<Rightarrow> bool"
  PyJIT_GetXOption :: "string \<Rightarrow> int \<times> PyObject option"
  Py_GETENV :: "string \<Rightarrow> string option"
  PyLong_FromUnicodeObject :: "string \<Rightarrow> int option"
  std_stol :: "string \<Rightarrow> int option"
  format_getpid :: string
  fopen_w :: "string \<Rightarrow> nat option"
  JITList_create :: "bool \<Rightarrow> JITList option"
  parseFile :: "JITList \<Rightarrow> string \<Rightarrow> JITList option"
  PyJITContext_Init :: int
  PyJITContext_New_ok :: bool
  PyModule_Create_ok :: bool
  PyUnicode_InternFromString_ok :: bool
  PyImport_FixupExtensionObject :: int
  CO_STATICALLY_COMPILED :: "32 word"
  PyJITContext_GetCodeSize :: "PyJITContext \<Rightarrow> PyObject \<Rightarrow> int"
  PyJITContext_GetStackSize :: "PyJITContext \<Rightarrow> PyObject \<Rightarrow> int"
  PyJITContext_GetSpillStackSize :: "PyJITContext \<Rightarrow> PyObject \<Rightarrow> int"
  PyJITContext_GetCompiledFunctions :: "PyJITContext option \<Rightarrow> PyObject"
  backend_reenters :: "PyFunctionObject \<Rightarrow> PyFunctionObject list"
  backend_result :: "PyFunctionObject \<Rightarrow> PyJIT_Result list \<Rightarrow> PyJIT_Result"
  backend_record :: "PyFunctionObject \<Rightarrow> CompilationRecord"
  backend_seconds :: "PyFunctionObject \<Rightarrow> real"
  iteration_order :: "PyFunctionObject set \<Rightarrow> PyFunctionObject list"
  round_to_double :: "real \<Rightarrow> real"

text \<open>A failed \<open>JIT_CHECK\<close> aborts the process: there is no state afterwards.\<close>

datatype JitAbort = JIT_CHECK_failed string

subsection \<open>Options (lines 486-541)\<close>

definition is_env_truthy :: "host \<Rightarrow> string \<Rightarrow> int" where
  "is_env_truthy h name =
     (case Py_GETENV h name of
        None \<Rightarrow> 0
      | Some val \<Rightarrow> if val = [] \<or> take 1 val = ''0'' then 0 else 1)"

definition is_flag_set :: "host \<Rightarrow> string \<Rightarrow> string \<Rightarrow> int" where
  "is_flag_set h xoption envname =
     (if PyJIT_IsXOptionSet h xoption \<or> is_env_truthy h envname \<noteq> 0 then 1 else 0)"

definition getenv_nonempty :: "host \<Rightarrow> string \<Rightarrow> string option" where
  "getenv_nonempty h envname =
     (case Py_GETENV h envname of
        None \<Rightarrow> None
      | Some envval \<Rightarrow> if envval \<noteq> [] then Some envval else None)"

definition flag_string :: "host \<Rightarrow> string \<Rightarrow> string \<Rightarrow> string option" where
  "flag_string h xoption envname =
     (case PyJIT_GetXOption h xoption of
        (rc, Some (PyUnicode u)) \<Rightarrow> if rc = 0 then Some u else getenv_nonempty h envname
      | (rc, other) \<Rightarrow> getenv_nonempty h envname)"

text \<open>\<open>PyLong_AsLong\<close>: the value when it fits a 64-bit \<open>long\<close>, otherwise -1.\<close>

definition PyLong_AsLong :: "int \<Rightarrow> int" where
  "PyLong_AsLong v = (if - (2 ^ 63) \<le> v \<and> v < 2 ^ 63 then v else - 1)"

definition flag_long_env :: "host \<Rightarrow> string \<Rightarrow> int \<Rightarrow> int" where
  "flag_long_env h envname dflt =
     (case getenv_nonempty h envname of
        None \<Rightarrow> dflt
      | Some envval \<Rightarrow> (case std_stol h envval of Some n \<Rightarrow> n | None \<Rightarrow> dflt))"

definition flag_long :: "host \<Rightarrow> string \<Rightarrow> string \<Rightarrow> int \<Rightarrow> int" where
  "flag_long h xoption envname dflt =
     (case PyJIT_GetXOption h xoption of
        (rc, Some (PyUnicode u)) \<Rightarrow>
          if rc = 0 then
            (case PyLong_FromUnicodeObject h u of
               Some val \<Rightarrow> PyLong_AsLong val
             | None \<Rightarrow> flag_long_env h envname dflt)
          else flag_long_env h envname dflt
      | (rc, other) \<Rightarrow> flag_long_env h envname dflt)"

subsection \<open>Initialization (lines 543-713)\<close>

text \<open>\<open>std::string::find\<close>: the first position where the pattern occurs.\<close>

fun string_find :: "string \<Rightarrow> string \<Rightarrow> nat option" where
  "string_find [] pat = (if pat = [] then Some 0 else None)"
| "string_find (c # cs) pat =
     (if take (length pat) (c # cs) = pat then Some 0
      else map_option Suc (string_find cs pat))"

text \<open>Lines 555-573: the log file, with the first \<open>{pid}\<close> replaced by the process id.\<close>

definition Initialize_log_file :: "host \<Rightarrow> LogGlobals \<Rightarrow> LogGlobals" where
  "Initialize_log_file h lg =
     (case flag_string h ''jit-log-file'' ''PYTHONJITLOGFILE'' of
        None \<Rightarrow> lg
      | Some log_filename \<Rightarrow>
          let kPidMarker = ''{pid}'';
              pid_filename =
                (case string_find log_filename kPidMarker of
                   None \<Rightarrow> log_filename
                 | Some marker_pos \<Rightarrow>
                     take marker_pos log_filename @ format_getpid h @
                     drop (marker_pos + length kPidMarker) log_filename)
          in (case fopen_w h pid_filename of
                None \<Rightarrow> lg
              | Some file \<Rightarrow> lg\<lparr>g_log_file := Some file\<rparr>))"

text \<open>Lines 575-623: the debugging flags, in the order of the source.\<close>

definition Initialize_debug_flags :: "host \<Rightarrow> LogGlobals \<Rightarrow> LogGlobals" where
  "Initialize_debug_flags h lg0 =
     (let lg = (if is_flag_set h ''jit-debug'' ''PYTHONJITDEBUG'' \<noteq> 0
                then lg0\<lparr>g_debug := 1, g_debug_verbose := 1\<rparr> else lg0);
          lg = (if is_flag_set h ''jit-debug-refcount'' ''PYTHONJITDEBUGREFCOUNT'' \<noteq> 0
                then lg\<lparr>g_debug_refcount := 1\<rparr> else lg);
          lg = (if is_flag_set h ''jit-dump-hir'' ''PYTHONJITDUMPHIR'' \<noteq> 0
                then lg\<lparr>g_dump_hir := 1\<rparr> else lg);
          lg = (if is_flag_set h ''jit-dump-hir-passes'' ''PYTHONJITDUMPHIRPASSES'' \<noteq> 0
                then lg\<lparr>g_dump_hir_passes := 1\<rparr> else lg);
          lg = (if is_flag_set h ''jit-dump-final-hir'' ''PYTHONJITDUMPFINALHIR'' \<noteq> 0
                then lg\<lparr>g_dump_final_hir := 1\<rparr> else lg);
          lg = (if is_flag_set h ''jit-dump-lir'' ''PYTHONJITDUMPLIR'' \<noteq> 0
                then lg\<lparr>g_dump_lir := 1\<rparr> else lg);
          lg = (if is_flag_set h ''jit-dump-lir-no-origin'' ''PYTHONJITDUMPLIRNOORIGIN'' \<noteq> 0
                then lg\<lparr>g_dump_lir := 1, g_dump_lir_no_origin := 1\<rparr> else lg);
          lg = (if is_flag_set h ''jit-disas-funcs'' ''PYTHONJITDISASFUNCS'' \<noteq> 0
                then lg\<lparr>g_disas_funcs := 1\<rparr> else lg);
          lg = (if is_flag_set h ''jit-gdb-support'' ''PYTHONJITGDBSUPPORT'' \<noteq> 0
                then lg\<lparr>g_debug := 1, g_gdb_support := 1\<rparr> else lg);
          lg = (if is_flag_set h ''jit-gdb-stubs-support'' ''PYTHONJITGDBSUPPORT'' \<noteq> 0
                then lg\<lparr>g_gdb_stubs_support := 1\<rparr> else lg);
          lg = (if is_flag_set h ''jit-gdb-write-elf'' ''PYTHONJITGDBWRITEELF'' \<noteq> 0
                then lg\<lparr>g_debug := 1, g_gdb_support := 1, g_gdb_write_elf_objects := 1\<rparr>
                else lg)
      in lg)"

text \<open>Lines 625-633: the two configuration flags read before the JIT list is loaded.\<close>

definition Initialize_list_flags :: "host \<Rightarrow> JitConfig \<Rightarrow> JitConfig" where
  "Initialize_list_flags h cfg0 =
     (let cfg = (if is_flag_set h ''jit-enable-jit-list-wildcards''
                      ''PYTHONJITENABLEJITLISTWILDCARDS'' \<noteq> 0
                 then cfg0\<lparr>allow_jit_list_wildcards := 1\<rparr> else cfg0);
          cfg = (if is_flag_set h ''jit-all-static-functions'' ''PYTHONJITALLSTATICFUNCTIONS'' \<noteq> 0
                 then cfg\<lparr>compile_all_static_functions := 1\<rparr> else cfg)
      in cfg)"

text \<open>
  Lines 635-653: the JIT list is built in a local \<open>unique_ptr\<close>. \<open>Inl rc\<close> is an early
  \<open>return rc\<close>; \<open>Inr (use_jit, jit_list)\<close> are the two locals when the code goes on.
\<close>

definition Initialize_jit_list ::
  "host \<Rightarrow> JitConfig \<Rightarrow> int \<Rightarrow> int + (int \<times> JITList option)" where
  "Initialize_jit_list h cfg use_jit =
     (case flag_string h ''jit-list-file'' ''PYTHONJITLISTFILE'' of
        None \<Rightarrow> Inr (use_jit, None)
      | Some jl_fn \<Rightarrow>
          (case JITList_create h (allow_jit_list_wildcards cfg \<noteq> 0) of
             None \<Rightarrow> Inl (- 1)
           | Some jit_list \<Rightarrow>
               (case parseFile h jit_list jl_fn of
                  None \<Rightarrow> Inl 0
                | Some parsed \<Rightarrow> Inr (1, Some parsed))))"

text \<open>
  Lines 689-712: reached only when every earlier step succeeded. The \<open>JIT_CHECK\<close> of line 696
  tests the frame mode as it stands, whether set two lines earlier or by an earlier
  initialization.
\<close>

definition Initialize_commit ::
  "host \<Rightarrow> JITList option \<Rightarrow> jit_state \<Rightarrow> JitAbort + (int \<times> jit_state)" where
  "Initialize_commit h jit_list s0 =
     (let s = s0\<lparr>jit_config := (jit_config s0)\<lparr>init_state := JIT_INITIALIZED, is_enabled := 1\<rparr>,
                 g_jit_list := jit_list\<rparr>;
          s = (if is_flag_set h ''jit-tiny-frame'' ''PYTHONJITTINYFRAME'' \<noteq> 0
               then s\<lparr>jit_config := (jit_config s)\<lparr>frame_mode := TINY_FRAME\<rparr>\<rparr> else s)
      in if is_flag_set h ''jit-no-frame'' ''PYTHONJITNOFRAME'' \<noteq> 0 \<and>
            frame_mode (jit_config s) \<noteq> PY_FRAME
         then Inl (JIT_CHECK_failed
                ''-X jit-tiny-frame and -X jit-no-frame are mutually exclusive.'')
         else
           let s = (if is_flag_set h ''jit-no-frame'' ''PYTHONJITNOFRAME'' \<noteq> 0
                    then s\<lparr>jit_config := (jit_config s)\<lparr>frame_mode := NO_FRAME\<rparr>\<rparr> else s);
               s = s\<lparr>jit_config := (jit_config s)
                      \<lparr>are_type_slots_enabled :=
                         (if PyJIT_IsXOptionSet h ''jit-no-type-slots'' then 0 else 1)\<rparr>\<rparr>;
               s = s\<lparr>jit_config := (jit_config s)
                      \<lparr>batch_compile_workers :=
                         word_of_int (flag_long h ''jit-batch-compile-workers''
                                        ''PYTHONJITBATCHCOMPILEWORKERS'' 0)\<rparr>\<rparr>;
               s = (if is_flag_set h ''jit-test-multithreaded-compile''
                         ''PYTHONJITTESTMULTITHREADEDCOMPILE'' \<noteq> 0
                    then s\<lparr>jit_config := (jit_config s)\<lparr>test_multithreaded_compile := 1\<rparr>\<rparr>
                    else s)
           in Inr (0, s\<lparr>total_compliation_time := 0\<rparr>))"

text \<open>
  Lines 661-687: the context is stored in the global \<open>jit_ctx\<close> at once (line 666); the
  module is created and registered afterwards.
\<close>

definition Initialize_context ::
  "host \<Rightarrow> JITList option \<Rightarrow> jit_state \<Rightarrow> JitAbort + (int \<times> jit_state)" where
  "Initialize_context h jit_list s0 =
     (if PyJITContext_Init h = - 1 then Inr (- 1, s0)
      else
        let s = s0\<lparr>jit_ctx := (if PyJITContext_New_ok h
                                then Some \<lparr>compiled_records = Map.empty\<rparr> else None)\<rparr>
        in if jit_ctx s = None then Inr (- 1, s)
           else if \<not> PyModule_Create_ok h then Inr (- 1, s)
           else if \<not> PyUnicode_InternFromString_ok h then Inr (- 1, s)
           else if PyImport_FixupExtensionObject h = - 1 then Inr (- 1, s)
           else Initialize_commit h jit_list s)"

definition PyJIT_Initialize :: "host \<Rightarrow> jit_state \<Rightarrow> JitAbort + (int \<times> jit_state)" where
  "PyJIT_Initialize h s0 =
     (if init_state (jit_config s0) = JIT_INITIALIZED then Inr (0, s0)
      else
        let use_jit = (if is_flag_set h ''jit'' ''PYTHONJIT'' \<noteq> 0 then 1 else 0);
            s = s0\<lparr>log_globals := Initialize_debug_flags h (Initialize_log_file h (log_globals s0))\<rparr>;
            s = s\<lparr>jit_config := Initialize_list_flags h (jit_config s)\<rparr>
        in (case Initialize_jit_list h (jit_config s) use_jit of
              Inl rc \<Rightarrow> Inr (rc, s)
            | Inr (use_jit, jit_list) \<Rightarrow>
                if use_jit \<noteq> 0 then Initialize_context h jit_list s else Inr (0, s)))"

subsection \<open>Switches and queries (lines 715-747, 827-833, 225-234, 475-484)\<close>

definition PyJIT_IsEnabled :: "jit_state \<Rightarrow> int" where
  "PyJIT_IsEnabled s =
     (if init_state (jit_config s) = JIT_INITIALIZED \<and> is_enabled (jit_config s) \<noteq> 0
      then 1 else 0)"

definition PyJIT_AreTypeSlotsEnabled :: "jit_state \<Rightarrow> int" where
  "PyJIT_AreTypeSlotsEnabled s =
     (if init_state (jit_config s) = JIT_INITIALIZED \<and>
         are_type_slots_enabled (jit_config s) \<noteq> 0
      then 1 else 0)"

definition PyJIT_Enable :: "jit_state \<Rightarrow> int \<times> jit_state" where
  "PyJIT_Enable s =
     (if init_state (jit_config s) \<noteq> JIT_INITIALIZED then (0, s)
      else (0, s\<lparr>jit_config := (jit_config s)\<lparr>is_enabled := 1\<rparr>\<rparr>))"

definition PyJIT_EnableTypeSlots :: "jit_state \<Rightarrow> int \<times> jit_state" where
  "PyJIT_EnableTypeSlots s =
     (if PyJIT_IsEnabled s = 0 then (0, s)
      else (1, s\<lparr>jit_config := (jit_config s)\<lparr>are_type_slots_enabled := 1\<rparr>\<rparr>))"

definition PyJIT_Disable :: "jit_state \<Rightarrow> jit_state" where
  "PyJIT_Disable s =
     s\<lparr>jit_config := (jit_config s)\<lparr>is_enabled := 0, are_type_slots_enabled := 0\<rparr>\<rparr>"

definition PyJIT_TinyFrame :: "jit_state \<Rightarrow> int" where
  "PyJIT_TinyFrame s = (if frame_mode (jit_config s) = TINY_FRAME then 1 else 0)"

definition PyJIT_NoFrame :: "jit_state \<Rightarrow> int" where
  "PyJIT_NoFrame s = (if frame_mode (jit_config s) = NO_FRAME then 1 else 0)"

text \<open>
  Modelled from the spec: \<open>_PyJITContext_DidCompile\<close> (Jit/jit_context.cpp) is missing. Spec
  4.2: "A compilation record exists for a function" exactly when it was compiled; the query
  answers yes (1) or no (0) from the record map. The spec names a third answer, error,
  without saying when it is given; it is not modelled.
\<close>

definition PyJITContext_DidCompile :: "PyJITContext \<Rightarrow> PyFunctionObject \<Rightarrow> int" where
  "PyJITContext_DidCompile ctx func = (if compiled_records ctx func \<noteq> None then 1 else 0)"

definition PyJIT_IsCompiled :: "jit_state \<Rightarrow> PyObject \<Rightarrow> int" where
  "PyJIT_IsCompiled s func =
     (case jit_ctx s of
        None \<Rightarrow> 0
      | Some ctx \<Rightarrow>
          (case func of
             PyFunction f \<Rightarrow> PyJITContext_DidCompile ctx f
           | other \<Rightarrow> 0))"

definition PyJIT_OnJitList :: "host \<Rightarrow> jit_state \<Rightarrow> PyFunctionObject \<Rightarrow> int" where
  "PyJIT_OnJitList h s func =
     (let code = func_code func;
          is_static = (co_flags code AND CO_STATICALLY_COMPILED h \<noteq> 0)
      in case g_jit_list s of
           None \<Rightarrow> 1
         | Some jit_list \<Rightarrow>
             if is_static \<and> compile_all_static_functions (jit_config s) \<noteq> 0 then 1
             else jl_lookup jit_list func)"

subsection \<open>The single-function compile path (lines 56-72, 755-788)\<close>

text \<open>
  \<open>CompilationTimer\<close>: the constructor reads the clock, the destructor adds the elapsed time
  to the total and records it for the function; \<open>emplace\<close> keeps an entry that exists.
\<close>

definition CompilationTimer_destroy ::
  "host \<Rightarrow> PyFunctionObject \<Rightarrow> real \<Rightarrow> jit_state \<Rightarrow> jit_state" where
  "CompilationTimer_destroy h func start s =
     (let time_span = round_to_double h (steady_clock s - start)
      in s\<lparr>total_compliation_time := round_to_double h (total_compliation_time s + time_span),
           jit_time_functions :=
             (if jit_time_functions s func \<noteq> None then jit_time_functions s
              else (jit_time_functions s)(func \<mapsto> time_span))\<rparr>)"

text \<open>The back-end's re-entrant calls, one after the other; \<open>None\<close> when one runs out of fuel.\<close>

fun reenter_each ::
  "(PyFunctionObject \<Rightarrow> jit_state \<Rightarrow> (PyJIT_Result \<times> jit_state) option) \<Rightarrow>
   PyFunctionObject list \<Rightarrow> jit_state \<Rightarrow> (PyJIT_Result list \<times> jit_state) option" where
  "reenter_each compile [] s = Some ([], s)"
| "reenter_each compile (g # gs) s =
     (case compile g s of
        None \<Rightarrow> None
      | Some (r, s1) \<Rightarrow>
          (case reenter_each compile gs s1 of
             None \<Rightarrow> None
           | Some (rs, s2) \<Rightarrow> Some (r # rs, s2)))"

text \<open>
  Modelled from the spec: \<open>_PyJITContext_CompileFunction\<close> (Jit/jit_context.cpp) is missing.
  Spec 4.2: "attempt compilation; on success, atomically install native dispatch and record
  metadata". The back-end may call \<open>_PyJIT_CompileFunction\<close> back (its first argument here)
  before it returns; the call is appended to the history.
\<close>

definition PyJITContext_CompileFunction ::
  "(PyFunctionObject \<Rightarrow> jit_state \<Rightarrow> (PyJIT_Result \<times> jit_state) option) \<Rightarrow>
   host \<Rightarrow> PyFunctionObject \<Rightarrow> jit_state \<Rightarrow> (PyJIT_Result \<times> jit_state) option" where
  "PyJITContext_CompileFunction compile h func s =
     (case reenter_each compile (backend_reenters h func) s of
        None \<Rightarrow> None
      | Some (rs, s1) \<Rightarrow>
          let result = backend_result h func rs;
              s2 = s1\<lparr>steady_clock := steady_clock s1 + backend_seconds h func,
                      backend_calls := backend_calls s1 @
                        [\<lparr>bc_func = func, bc_stack = active_compiles s, bc_received = rs\<rparr>]\<rparr>
          in Some (result,
                   if result = PYJIT_RESULT_OK
                   then s2\<lparr>jit_ctx :=
                             map_option
                               (\<lambda>ctx. ctx\<lparr>compiled_records :=
                                             (compiled_records ctx)(func \<mapsto> backend_record h func)\<rparr>)
                               (jit_ctx s2)\<rparr>
                   else s2))"

text \<open>
  Lines 764-769: the two conditions of \<open>_PyJIT_CompileFunction\<close> that line 763 asks to keep
  matched with the worker's; \<open>Some r\<close> is the early \<open>return r\<close>.
\<close>

definition CompileFunction_skips ::
  "host \<Rightarrow> jit_state \<Rightarrow> PyFunctionObject \<Rightarrow> PyJIT_Result option" where
  "CompileFunction_skips h s func =
     (if PyJIT_IsCompiled s (PyFunction func) \<noteq> 0 then Some PYJIT_RESULT_OK
      else if PyJIT_OnJitList h s func = 0 then Some PYJIT_RESULT_CANNOT_SPECIALIZE
      else None)"

definition kMaxCompileDepth :: nat where
  "kMaxCompileDepth = 10"

text \<open>
  \<open>_PyJIT_CompileFunction\<close>. The back-end can call it back, so the recursion is not
  structural; the first argument bounds the nesting of calls, and \<open>None\<close> means the bound was
  too small. \<open>ThreadedCompileSerialize\<close> is a lock and has no effect on one thread.
\<close>

fun CompileFunction_fuel ::
  "nat \<Rightarrow> host \<Rightarrow> PyFunctionObject \<Rightarrow> jit_state \<Rightarrow> (PyJIT_Result \<times> jit_state) option" where
  "CompileFunction_fuel 0 h func s = None"
| "CompileFunction_fuel (Suc n) h func s =
     (if jit_ctx s = None then Some (PYJIT_NOT_INITIALIZED, s)
      else
        (case CompileFunction_skips h s func of
           Some early \<Rightarrow> Some (early, s)
         | None \<Rightarrow>
             let timer = steady_clock s
             in if length (active_compiles s) = kMaxCompileDepth \<or>
                   func_code func \<in> set (active_compiles s)
                then Some (PYJIT_RESULT_UNKNOWN_ERROR, CompilationTimer_destroy h func timer s)
                else
                  (case PyJITContext_CompileFunction (CompileFunction_fuel n h) h func
                          (s\<lparr>jit_reg_functions := jit_reg_functions s - {func},
                             active_compiles := active_compiles s @ [func_code func]\<rparr>) of
                     None \<Rightarrow> None
                   | Some (result, s1) \<Rightarrow>
                       Some (result,
                             CompilationTimer_destroy h func timer
                               (s1\<lparr>active_compiles := butlast (active_compiles s1)\<rparr>)))))"

text \<open>
  A call nests at most \<open>kMaxCompileDepth\<close> back-end invocations, so \<open>kMaxCompileDepth + 1\<close>
  levels of calls are always enough, and more change nothing (\<open>PyJIT_CompileFunction_returns\<close>
  and \<open>CompileFunction_fuel_mono\<close> below).
\<close>

definition PyJIT_CompileFunction ::
  "host \<Rightarrow> PyFunctionObject \<Rightarrow> jit_state \<Rightarrow> (PyJIT_Result \<times> jit_state) option" where
  "PyJIT_CompileFunction h func s = CompileFunction_fuel (Suc kMaxCompileDepth) h func s"

subsection \<open>Registration and finalization (lines 790-825)\<close>

definition PyJIT_RegisterFunction ::
  "host \<Rightarrow> PyFunctionObject \<Rightarrow> jit_state \<Rightarrow> int \<times> jit_state" where
  "PyJIT_RegisterFunction h func s =
     (if PyJIT_IsEnabled s \<noteq> 0 \<and> PyJIT_OnJitList h s func \<noteq> 0 then
        let s1 = (if test_multithreaded_compile (jit_config s) \<noteq> 0
                  then s\<lparr>test_multithreaded_funcs := test_multithreaded_funcs s @ [func]\<rparr>
                  else s)
        in (1, s1\<lparr>jit_reg_functions := insert func (jit_reg_functions s1)\<rparr>)
      else (0, s))"

definition PyJIT_UnregisterFunction :: "PyFunctionObject \<Rightarrow> jit_state \<Rightarrow> jit_state" where
  "PyJIT_UnregisterFunction func s =
     (if PyJIT_IsEnabled s \<noteq> 0 then s\<lparr>jit_reg_functions := jit_reg_functions s - {func}\<rparr>
      else s)"

text \<open>
  \<open>_PyJIT_Finalize\<close>. The release of the runtime's references (line 810) touches no global
  of this file. The \<open>JIT_CHECK\<close> of line 821 comes after the list is dropped and the state
  is set.
\<close>

definition PyJIT_Finalize :: "jit_state \<Rightarrow> JitAbort + (int \<times> jit_state)" where
  "PyJIT_Finalize s =
     (if init_state (jit_config s) \<noteq> JIT_INITIALIZED then Inr (0, s)
      else
        let s1 = s\<lparr>g_jit_list := None\<rparr>;
            s2 = s1\<lparr>jit_config := (jit_config s1)\<lparr>init_state := JIT_FINALIZED\<rparr>\<rparr>
        in if jit_ctx s2 = None then Inl (JIT_CHECK_failed ''jit_ctx not initialized'')
           else Inr (0, s2\<lparr>jit_ctx := None\<rparr>))"

subsection \<open>Batch compilation (lines 77-140)\<close>

text \<open>
  Modelled from the spec: the operations of \<open>g_threaded_compile_context\<close> are missing. Spec
  4.3: \<open>startCompile\<close> moves a batch into the queue and marks batch mode active;
  \<open>nextFunction\<close> pops the next item or answers nil; \<open>retryFunction\<close> pushes onto the
  retry list; \<open>endCompile\<close> terminates batch mode and returns the retry list.
\<close>

definition startCompile ::
  "PyFunctionObject list \<Rightarrow> ThreadedCompileContext \<Rightarrow> ThreadedCompileContext" where
  "startCompile work tcc = tcc\<lparr>work_queue := work, compile_running := True\<rparr>"

definition nextFunction ::
  "ThreadedCompileContext \<Rightarrow> PyFunctionObject option \<times> ThreadedCompileContext" where
  "nextFunction tcc =
     (case work_queue tcc of
        [] \<Rightarrow> (None, tcc)
      | func # rest \<Rightarrow> (Some func, tcc\<lparr>work_queue := rest\<rparr>))"

definition retryFunction ::
  "PyFunctionObject \<Rightarrow> ThreadedCompileContext \<Rightarrow> ThreadedCompileContext" where
  "retryFunction func tcc = tcc\<lparr>retry_list := retry_list tcc @ [func]\<rparr>"

definition endCompile ::
  "ThreadedCompileContext \<Rightarrow> PyFunctionObject list \<times> ThreadedCompileContext" where
  "endCompile tcc = (retry_list tcc, tcc\<lparr>retry_list := [], compile_running := False\<rparr>)"

text \<open>Lines 85-87: the condition under which a worker skips the function it popped.\<close>

definition worker_skips :: "host \<Rightarrow> jit_state \<Rightarrow> PyFunctionObject \<Rightarrow> bool" where
  "worker_skips h s func \<longleftrightarrow>
     (test_multithreaded_compile (jit_config s) = 0 \<and>
      PyJIT_IsCompiled s (PyFunction func) \<noteq> 0) \<or>
     PyJIT_OnJitList h s func = 0"

text \<open>
  One pass of the loop of \<open>compile_worker_thread\<close> (lines 80-98) for the function just popped.
  The timer is destroyed at the end of the pass, also on \<open>continue\<close>.
\<close>

definition compile_worker_step ::
  "host \<Rightarrow> PyFunctionObject \<Rightarrow> jit_state \<Rightarrow> jit_state option" where
  "compile_worker_step h func s =
     (let t = steady_clock s
      in if worker_skips h s func then Some (CompilationTimer_destroy h func t s)
         else
           let s1 = s\<lparr>g_compile_workers_attempted := g_compile_workers_attempted s + 1\<rparr>
           in (case PyJITContext_CompileFunction (PyJIT_CompileFunction h) h func s1 of
                 None \<Rightarrow> None
               | Some (result, s2) \<Rightarrow>
                   let s3 = (if result = PYJIT_RESULT_RETRY
                             then s2\<lparr>g_compile_workers_retries := g_compile_workers_retries s2 + 1,
                                     g_threaded_compile_context :=
                                       retryFunction func (g_threaded_compile_context s2)\<rparr>
                             else s2)
                   in Some (CompilationTimer_destroy h func t s3)))"

text \<open>
  \<open>compile_worker_thread\<close>: pop until the queue is empty. Nothing pushes onto the queue
  while the workers run (a retry goes to the retry list), so the loop runs over the queue as
  it stands when the worker starts; each pass begins with the pop.
\<close>

fun compile_worker_loop ::
  "host \<Rightarrow> PyFunctionObject list \<Rightarrow> jit_state \<Rightarrow> jit_state option" where
  "compile_worker_loop h [] s = Some s"
| "compile_worker_loop h (func # rest) s =
     (case compile_worker_step h func
             (s\<lparr>g_threaded_compile_context :=
                  snd (nextFunction (g_threaded_compile_context s))\<rparr>) of
        None \<Rightarrow> None
      | Some s1 \<Rightarrow> compile_worker_loop h rest s1)"

definition compile_worker_thread :: "host \<Rightarrow> jit_state \<Rightarrow> jit_state option" where
  "compile_worker_thread h s =
     compile_worker_loop h (work_queue (g_threaded_compile_context s)) s"

text \<open>
  The worker threads run in parallel in the source. Here they run one after the other: the
  first empties the queue and the others find it empty. This is one of the schedules of the
  source, not all of them.
\<close>

fun run_workers :: "nat \<Rightarrow> host \<Rightarrow> jit_state \<Rightarrow> jit_state option" where
  "run_workers 0 h s = Some s"
| "run_workers (Suc i) h s =
     (case compile_worker_thread h s of
        None \<Rightarrow> None
      | Some s1 \<Rightarrow> run_workers i h s1)"

text \<open>A loop that calls \<open>_PyJIT_CompileFunction\<close> on each function of a list.\<close>

fun compile_each :: "host \<Rightarrow> PyFunctionObject list \<Rightarrow> jit_state \<Rightarrow> jit_state option" where
  "compile_each h [] s = Some s"
| "compile_each h (func # rest) s =
     (case PyJIT_CompileFunction h func s of
        None \<Rightarrow> None
      | Some (result, s1) \<Rightarrow> compile_each h rest s1)"

definition multithread_compile_all :: "host \<Rightarrow> jit_state \<Rightarrow> (JitAbort + jit_state) option" where
  "multithread_compile_all h s =
     (if jit_ctx s = None then Some (Inl (JIT_CHECK_failed ''JIT not initialized''))
      else
        let old_gil_check_enabled = PyGILState_check_enabled s;
            s1 = s\<lparr>PyGILState_check_enabled := 0\<rparr>;
            s2 = s1\<lparr>g_threaded_compile_context :=
                      startCompile (iteration_order h (jit_reg_functions s1))
                        (g_threaded_compile_context s1)\<rparr>;
            s3 = s2\<lparr>jit_reg_functions := {}\<rparr>
        in if batch_compile_workers (jit_config s3) = 0
           then Some (Inl (JIT_CHECK_failed ''Zero workers for compile''))
           else
             (case run_workers (unat (batch_compile_workers (jit_config s3))) h s3 of
                None \<Rightarrow> None
              | Some s4 \<Rightarrow>
                  let (retry_list, tcc) = endCompile (g_threaded_compile_context s4)
                  in (case compile_each h retry_list (s4\<lparr>g_threaded_compile_context := tcc\<rparr>) of
                        None \<Rightarrow> None
                      | Some s5 \<Rightarrow>
                          Some (Inr (s5\<lparr>PyGILState_check_enabled := old_gil_check_enabled\<rparr>)))))"

subsection \<open>The introspection module (lines 142-363)\<close>

text \<open>
  A method of the module returns an object, or \<open>NULL\<close> with an exception set (\<open>Inl\<close>).
  The conversion of a \<open>double\<close> to \<open>long\<close> truncates towards zero (a value outside
  the range of \<open>long\<close> is undefined in the source and not excluded here).
\<close>

definition double_to_long :: "real \<Rightarrow> int" where
  "double_to_long x = (if 0 \<le> x then \<lfloor>x\<rfloor> else \<lceil>x\<rceil>)"

definition test_multithreaded_compile_method ::
  "host \<Rightarrow> jit_state \<Rightarrow> (JitAbort + ((PyErr + PyObject) \<times> jit_state)) option" where
  "test_multithreaded_compile_method h s =
     (if test_multithreaded_compile (jit_config s) = 0
      then Some (Inr (Inl (PyExc_NotImplementedError ''test_multithreaded_compile not enabled''), s))
      else
        let jit_reg_funcs_copy = jit_reg_functions s;
            s1 = s\<lparr>jit_reg_functions := set (test_multithreaded_funcs s)\<rparr>;
            s2 = s1\<lparr>g_compile_workers_attempted := 0, g_compile_workers_retries := 0\<rparr>
        in (case multithread_compile_all h s2 of
              None \<Rightarrow> None
            | Some (Inl abort) \<Rightarrow> Some (Inl abort)
            | Some (Inr s3) \<Rightarrow>
                let s4 = s3\<lparr>jit_reg_functions := jit_reg_functions s3 - jit_reg_functions s3\<rparr>;
                    s5 = s4\<lparr>jit_reg_functions := jit_reg_funcs_copy\<rparr>
                in Some (Inr (Inr Py_None, s5\<lparr>test_multithreaded_funcs := []\<rparr>))))"

definition is_test_multithreaded_compile_enabled :: "jit_state \<Rightarrow> PyObject" where
  "is_test_multithreaded_compile_enabled s =
     (if test_multithreaded_compile (jit_config s) \<noteq> 0 then Py_True else Py_False)"

definition disable_jit ::
  "host \<Rightarrow> PyObject list \<Rightarrow> jit_state \<Rightarrow> (JitAbort + ((PyErr + PyObject) \<times> jit_state)) option" where
  "disable_jit h args s =
     (if length args > 1
      then Some (Inr (Inl (PyExc_TypeError ''disable expects 0 or 1 arg''), s))
      else if length args = 1 \<and> \<not> PyBool_Check (hd args)
      then Some (Inr (Inl (PyExc_TypeError
                  ''disable expects bool indicating to compile pending functions''), s))
      else if length args = 0 \<or> hd args = Py_True then
        (if batch_compile_workers (jit_config s) > 0 then
           (case multithread_compile_all h s of
              None \<Rightarrow> None
            | Some (Inl abort) \<Rightarrow> Some (Inl abort)
            | Some (Inr s1) \<Rightarrow> Some (Inr (Inr Py_None, PyJIT_Disable s1)))
         else
           (case compile_each h (iteration_order h (jit_reg_functions s)) s of
              None \<Rightarrow> None
            | Some s1 \<Rightarrow> Some (Inr (Inr Py_None, PyJIT_Disable s1))))
      else Some (Inr (Inr Py_None, PyJIT_Disable s)))"

definition force_compile ::
  "host \<Rightarrow> PyObject \<Rightarrow> jit_state \<Rightarrow> ((PyErr + PyObject) \<times> jit_state) option" where
  "force_compile h func s =
     (case func of
        PyFunction f \<Rightarrow>
          if f \<in> jit_reg_functions s then
            (case PyJIT_CompileFunction h f s of
               None \<Rightarrow> None
             | Some (result, s1) \<Rightarrow> Some (Inr Py_True, s1))
          else Some (Inr Py_False, s)
      | other \<Rightarrow> Some (Inl (PyExc_TypeError ''force_compile expected a function''), s))"

definition is_jit_compiled :: "jit_state \<Rightarrow> PyObject \<Rightarrow> PyObject option" where
  "is_jit_compiled s func =
     (let st = PyJIT_IsCompiled s func
      in if st = 1 then Some Py_True else if st = 0 then Some Py_False else None)"

definition get_jit_list :: "jit_state \<Rightarrow> PyObject" where
  "get_jit_list s =
     (case g_jit_list s of None \<Rightarrow> Py_None | Some jit_list \<Rightarrow> jl_getList jit_list)"

definition get_compiled_functions :: "host \<Rightarrow> jit_state \<Rightarrow> PyObject" where
  "get_compiled_functions h s = PyJITContext_GetCompiledFunctions h (jit_ctx s)"

definition get_compilation_time :: "host \<Rightarrow> jit_state \<Rightarrow> PyObject" where
  "get_compilation_time h s =
     PyLong (double_to_long (round_to_double h (total_compliation_time s * 1000)))"

definition get_function_compilation_time ::
  "host \<Rightarrow> jit_state \<Rightarrow> PyFunctionObject \<Rightarrow> PyObject" where
  "get_function_compilation_time h s func =
     (case jit_time_functions s func of
        None \<Rightarrow> Py_None
      | Some time_span \<Rightarrow> PyLong (double_to_long (round_to_double h (time_span * 1000))))"

definition get_compiled_size :: "host \<Rightarrow> jit_state \<Rightarrow> PyObject \<Rightarrow> PyObject" where
  "get_compiled_size h s func =
     (case jit_ctx s of
        None \<Rightarrow> PyLong 0
      | Some ctx \<Rightarrow> PyLong (PyJITContext_GetCodeSize h ctx func))"

definition get_compiled_stack_size :: "host \<Rightarrow> jit_state \<Rightarrow> PyObject \<Rightarrow> PyObject" where
  "get_compiled_stack_size h s func =
     (case jit_ctx s of
        None \<Rightarrow> PyLong 0
      | Some ctx \<Rightarrow> PyLong (PyJITContext_GetStackSize h ctx func))"

definition get_compiled_spill_stack_size :: "host \<Rightarrow> jit_state \<Rightarrow> PyObject \<Rightarrow> PyObject" where
  "get_compiled_spill_stack_size h s func =
     (case jit_ctx s of
        None \<Rightarrow> PyLong 0
      | Some ctx \<Rightarrow> PyLong (PyJITContext_GetSpillStackSize h ctx func))"

definition jit_frame_mode :: "jit_state \<Rightarrow> PyObject" where
  "jit_frame_mode s =
     PyLong (if PyJIT_TinyFrame s \<noteq> 0 then 1 else if PyJIT_NoFrame s \<noteq> 0 then 2 else 0)"

subsection \<open>The public surface as a datatype\<close>

text \<open>
  The operations of the host-embedder surface and of the introspection module that are
  defined in this file, and a function that runs one of them on the controller. Operations
  that only forward to code outside the file (\<open>_PyJIT_SpecializeType\<close>, \<open>print_hir\<close>,
  \<open>disassemble\<close>, \<open>get_supported_opcodes\<close>, \<open>_PyJIT_AfterFork_Child\<close>), the decorator
  \<open>jit_force_normal_frame\<close> (it writes a code object, not the controller) and the generator
  bridge (it works on a generator, see below) are not among them.
\<close>

datatype jit_op =
    Op_Initialize
  | Op_Finalize
  | Op_Enable
  | Op_Disable
  | Op_IsEnabled
  | Op_AreTypeSlotsEnabled
  | Op_EnableTypeSlots
  | Op_RegisterFunction PyFunctionObject
  | Op_UnregisterFunction PyFunctionObject
  | Op_IsCompiled PyObject
  | Op_CompileFunction PyFunctionObject
  | Op_OnJitList PyFunctionObject
  | Op_TinyFrame
  | Op_NoFrame
  | Op_disable "PyObject list"
  | Op_force_compile PyObject
  | Op_test_multithreaded_compile
  | Op_is_test_multithreaded_compile_enabled
  | Op_is_jit_compiled PyObject
  | Op_jit_frame_mode
  | Op_get_jit_list
  | Op_get_compiled_functions
  | Op_get_compilation_time
  | Op_get_function_compilation_time PyFunctionObject
  | Op_get_compiled_size PyObject
  | Op_get_compiled_stack_size PyObject
  | Op_get_compiled_spill_stack_size PyObject

text \<open>
  The state an operation leaves: \<open>Some (Inr s')\<close> when it returns, \<open>Some (Inl a)\<close> when a
  \<open>JIT_CHECK\<close> aborts the process, \<open>None\<close> when the bound on nested compiles was too small.
\<close>

fun run_op :: "host \<Rightarrow> jit_op \<Rightarrow> jit_state \<Rightarrow> (JitAbort + jit_state) option" where
  "run_op h Op_Initialize s = Some (map_sum id snd (PyJIT_Initialize h s))"
| "run_op h Op_Finalize s = Some (map_sum id snd (PyJIT_Finalize s))"
| "run_op h Op_Enable s = Some (Inr (snd (PyJIT_Enable s)))"
| "run_op h Op_Disable s = Some (Inr (PyJIT_Disable s))"
| "run_op h Op_EnableTypeSlots s = Some (Inr (snd (PyJIT_EnableTypeSlots s)))"
| "run_op h (Op_RegisterFunction func) s = Some (Inr (snd (PyJIT_RegisterFunction h func s)))"
| "run_op h (Op_UnregisterFunction func) s = Some (Inr (PyJIT_UnregisterFunction func s))"
| "run_op h (Op_CompileFunction func) s =
     map_option (\<lambda>(result, s1). Inr s1) (PyJIT_CompileFunction h func s)"
| "run_op h (Op_disable args) s = map_option (map_sum id snd) (disable_jit h args s)"
| "run_op h (Op_force_compile func) s = map_option (\<lambda>(res, s1). Inr s1) (force_compile h func s)"
| "run_op h Op_test_multithreaded_compile s =
     map_option (map_sum id snd) (test_multithreaded_compile_method h s)"
| "run_op h query s = Some (Inr s)"

fun run_ops :: "host \<Rightarrow> jit_op list \<Rightarrow> jit_state \<Rightarrow> (JitAbort + jit_state) option" where
  "run_ops h [] s = Some (Inr s)"
| "run_ops h (op # ops) s =
     (case run_op h op s of
        Some (Inr s1) \<Rightarrow> run_ops h ops s1
      | other \<Rightarrow> other)"

text \<open>The operations that the source lets write the type-slot flag.\<close>

fun writes_type_slots :: "jit_op \<Rightarrow> bool" where
  "writes_type_slots Op_Initialize = True"
| "writes_type_slots Op_Disable = True"
| "writes_type_slots (Op_disable args) = True"
| "writes_type_slots Op_EnableTypeSlots = True"
| "writes_type_slots other = False"

subsection \<open>The generator bridge: \<open>_PyJIT_GenSend\<close> (lines 835-890)\<close>

datatype PyJitGenState =
  PyJitGenState_JustStarted | PyJitGenState_Running | PyJitGenState_Completed

text \<open>
  \<open>GenDataFooter\<close> (Jit/runtime.h) is missing; the file reads and writes its \<open>state\<close> and
  reads its \<open>yieldPoint\<close> and \<open>resumeEntry\<close>. The resume entry is generated code that is
  handed the generator and the thread state, so it is a function on everything it can
  reach, and an argument of \<open>PyJIT_GenSend\<close>.
\<close>

record GenDataFooter =
  state :: PyJitGenState
  yieldPoint :: "nat option"

record PyFrameObject =
  f_executing :: int
  f_lasti :: int
  f_refcnt :: int

record gen_world =
  gen_footer :: GenDataFooter
  tstate_frame :: "PyFrameObject option"
  ob_refcnt :: "PyObject \<Rightarrow> int"

datatype gen_fault = JIT_DCHECK_failed string | Null_dereference

definition INT_MAX :: int where
  "INT_MAX = 2 ^ 31 - 1"

text \<open>
  Lines 850-876, what \<open>_PyJIT_GenSend\<close> does before it enters the generated code: the state
  becomes Running, the argument is replaced (\<open>NULL\<close> stands for an exception, None for no
  value), and the frame, when there is one, is installed on the thread state. The result is
  the argument and the world that the resume entry is given.
\<close>

definition GenSend_prepare ::
  "gen_world \<Rightarrow> PyObject option \<Rightarrow> int \<Rightarrow> PyFrameObject option \<Rightarrow> PyObject option \<times> gen_world" where
  "GenSend_prepare w arg exc f =
     (let w1 = w\<lparr>gen_footer := (gen_footer w)\<lparr>state := PyJitGenState_Running\<rparr>\<rparr>;
          (arg1, w2) =
            (if exc \<noteq> 0
             then (None, w1\<lparr>ob_refcnt := (ob_refcnt w1)(the arg := ob_refcnt w1 (the arg) - 1)\<rparr>)
             else if arg = None
             then (Some Py_None,
                   w1\<lparr>ob_refcnt := (ob_refcnt w1)(Py_None := ob_refcnt w1 Py_None + 1)\<rparr>)
             else (arg, w1));
          w3 = (case f of
                  None \<Rightarrow> w2
                | Some frame \<Rightarrow>
                    w2\<lparr>tstate_frame :=
                         Some (frame\<lparr>f_executing := 1, f_refcnt := f_refcnt frame + 1,
                                      f_lasti := INT_MAX\<rparr>)\<rparr>)
      in (arg1, w3))"

text \<open>
  \<open>JIT_DCHECK\<close> (Jit/log.h) is missing: whether it is compiled in is the parameter
  \<open>dchecks\<close>. \<open>Py_DECREF\<close> only counts here; \<open>Py_DECREF(NULL)\<close> is a fault.
\<close>

definition PyJIT_GenSend ::
  "bool \<Rightarrow> (gen_world \<Rightarrow> PyObject option \<Rightarrow> int \<Rightarrow> PyObject option \<times> gen_world) \<Rightarrow>
   gen_world \<Rightarrow> PyObject option \<Rightarrow> int \<Rightarrow> PyFrameObject option \<Rightarrow> int \<Rightarrow>
   gen_fault + (PyObject option \<times> gen_world)" where
  "PyJIT_GenSend dchecks resumeEntry w arg exc f finish_yield_from =
     (if dchecks \<and> \<not> (state (gen_footer w) = PyJitGenState_JustStarted \<or>
                        state (gen_footer w) = PyJitGenState_Running)
      then Inl (JIT_DCHECK_failed ''Invalid JIT generator state'')
      else if exc \<noteq> 0 \<and> dchecks \<and> arg \<noteq> Some Py_None
      then Inl (JIT_DCHECK_failed ''Arg should be None when injecting an exception'')
      else if exc \<noteq> 0 \<and> arg = None then Inl Null_dereference
      else
        let (arg1, w3) = GenSend_prepare w arg exc f
        in if dchecks \<and> yieldPoint (gen_footer w3) = None
           then Inl (JIT_DCHECK_failed ''Attempting to resume a generator with no yield point'')
           else
             let (result, w4) = resumeEntry w3 arg1 finish_yield_from
             in Inr (result,
                     if result = None
                     then w4\<lparr>gen_footer := (gen_footer w4)\<lparr>state := PyJitGenState_Completed\<rparr>\<rparr>
                     else w4))"

subsection \<open>Predicates used in the statements\<close>

text \<open>The two properties of the active-compile stack that the guard of line 776 maintains.\<close>

definition stack_ok :: "PyCodeObject list \<Rightarrow> bool" where
  "stack_ok st \<longleftrightarrow> distinct st \<and> length st \<le> kMaxCompileDepth"

text \<open>
  The stack is \<open>st\<close> now, and it satisfied \<open>Q\<close> each time the back-end was entered. The stack
  changes only by the push before the back-end is entered and by the pop after it
  returned, so these are all the values it ever had, apart from the one at the outset.
\<close>

definition compile_inv ::
  "(PyCodeObject list \<Rightarrow> bool) \<Rightarrow> PyCodeObject list \<Rightarrow> jit_state \<Rightarrow> bool" where
  "compile_inv Q st s \<longleftrightarrow>
     active_compiles s = st \<and> list_all (\<lambda>c. Q (bc_stack c)) (backend_calls s)"

subsection \<open>Concrete hosts, functions and states\<close>

definition example_func :: "nat \<Rightarrow> PyFunctionObject" where
  "example_func i = \<lparr> func_addr = i, func_code = \<lparr> code_addr = 1000 + i, co_flags = 0 \<rparr> \<rparr>"

definition example_list :: JITList where
  "example_list =
     \<lparr> jl_lookup = (\<lambda>func. if func_addr func = 1 then 1 else 0), jl_getList = PyOther 7 \<rparr>"

text \<open>
  A host started with \<open>-X jit\<close> and nothing else, where every step of the initialization
  succeeds; its back-end compiles every function in two seconds and never calls back. The
  only durations that occur with it are 0 and 2 seconds and the products 0 and 2000, which
  are doubles, so that rounding leaves them as they are.
\<close>

definition example_host :: host where
  "example_host =
     \<lparr> PyJIT_IsXOptionSet = (\<lambda>name. name = ''jit''),
       PyJIT_GetXOption = (\<lambda>name. (0, None)),
       Py_GETENV = (\<lambda>name. None),
       PyLong_FromUnicodeObject = (\<lambda>text. None),
       std_stol = (\<lambda>text. None),
       format_getpid = ''4242'',
       fopen_w = (\<lambda>name. Some 3),
       JITList_create = (\<lambda>wildcards. Some \<lparr> jl_lookup = (\<lambda>func. 0), jl_getList = PyOther 7 \<rparr>),
       parseFile = (\<lambda>jit_list name. Some example_list),
       PyJITContext_Init = 0,
       PyJITContext_New_ok = True,
       PyModule_Create_ok = True,
       PyUnicode_InternFromString_ok = True,
       PyImport_FixupExtensionObject = 0,
       CO_STATICALLY_COMPILED = 0x4000000,
       PyJITContext_GetCodeSize = (\<lambda>ctx func. 64),
       PyJITContext_GetStackSize = (\<lambda>ctx func. 16),
       PyJITContext_GetSpillStackSize = (\<lambda>ctx func. 8),
       PyJITContext_GetCompiledFunctions = (\<lambda>ctx. PyOther 9),
       backend_reenters = (\<lambda>func. []),
       backend_result = (\<lambda>func received. PYJIT_RESULT_OK),
       backend_record = (\<lambda>func. \<lparr> code_size = 64, stack_size = 16, spill_stack_size = 8 \<rparr>),
       backend_seconds = (\<lambda>func. 2),
       iteration_order = (\<lambda>funcs. filter (\<lambda>func. func \<in> funcs) (map example_func [0..<4])),
       round_to_double = (\<lambda>x. x) \<rparr>"

text \<open>The same host with \<open>-X jit-no-type-slots\<close> as well.\<close>

definition example_host_no_type_slots :: host where
  "example_host_no_type_slots =
     example_host\<lparr>PyJIT_IsXOptionSet := (\<lambda>name. name = ''jit'' \<or> name = ''jit-no-type-slots'')\<rparr>"

text \<open>\<open>-X jit -X jit-all-static-functions\<close>, and \<open>PyModule_Create\<close> fails.\<close>

definition example_host_module_fails :: host where
  "example_host_module_fails =
     example_host\<lparr>PyJIT_IsXOptionSet :=
                    (\<lambda>name. name = ''jit'' \<or> name = ''jit-all-static-functions''),
                  PyModule_Create_ok := False\<rparr>"

text \<open>
  \<open>-X jit-list-file=jitlist.txt -X jit-debug\<close>, wildcards not enabled. The file has a
  wildcard entry: the plain list, the one line 643 creates, fails to parse it; the wildcard
  list would parse it.
\<close>

definition example_plain_list :: JITList where
  "example_plain_list = \<lparr> jl_lookup = (\<lambda>func. 0), jl_getList = PyOther 7 \<rparr>"

definition example_wildcard_list :: JITList where
  "example_wildcard_list = \<lparr> jl_lookup = (\<lambda>func. 0), jl_getList = PyOther 8 \<rparr>"

definition example_host_bad_list :: host where
  "example_host_bad_list =
     example_host\<lparr>PyJIT_IsXOptionSet := (\<lambda>name. name = ''jit-list-file'' \<or> name = ''jit-debug''),
                  PyJIT_GetXOption :=
                    (\<lambda>name. if name = ''jit-list-file'' then (0, Some (PyUnicode ''jitlist.txt''))
                             else (0, None)),
                  JITList_create :=
                    (\<lambda>wildcards. Some (if wildcards then example_wildcard_list
                                        else example_plain_list)),
                  parseFile :=
                    (\<lambda>jit_list name. if jl_getList jit_list = PyOther 8 then Some example_list
                                      else None)\<rparr>"

text \<open>\<open>-X jit -X jit-test-multithreaded-compile\<close>.\<close>

definition example_host_test_mode :: host where
  "example_host_test_mode =
     example_host\<lparr>PyJIT_IsXOptionSet :=
                    (\<lambda>name. name = ''jit'' \<or> name = ''jit-test-multithreaded-compile'')\<rparr>"

text \<open>A back-end that, compiling a function, asks for the compilation of the same function.\<close>

definition example_host_self :: host where
  "example_host_self = example_host\<lparr>backend_reenters := (\<lambda>func. [func])\<rparr>"

text \<open>A back-end that, compiling the function at address i, asks for the one at i + 1.\<close>

definition example_host_chain :: host where
  "example_host_chain =
     example_host\<lparr>backend_reenters := (\<lambda>func. [example_func (Suc (func_addr func))])\<rparr>"

text \<open>The functions at addresses 1 to 10: what follows the function at address 0 in that chain.\<close>

definition example_chain :: "PyFunctionObject list" where
  "example_chain = map example_func [1, 2, 3, 4, 5, 6, 7, 8, 9, 10]"

text \<open>The controller after \<open>_PyJIT_Initialize\<close> succeeded on \<open>example_host\<close>.\<close>

definition example_ready :: jit_state where
  "example_ready =
     jit_state_at_start
       \<lparr>jit_config := JitConfig_default\<lparr>init_state := JIT_INITIALIZED, is_enabled := 1,
                                       are_type_slots_enabled := 1\<rparr>,
        jit_ctx := Some \<lparr>compiled_records = Map.empty\<rparr>\<rparr>"

text \<open>A resume entry that yields a value, and one that returns a value and marks completion.\<close>

definition example_resume_yield ::
  "gen_world \<Rightarrow> PyObject option \<Rightarrow> int \<Rightarrow> PyObject option \<times> gen_world" where
  "example_resume_yield w arg finish_yield_from = (Some (PyLong 5), w)"

definition example_resume_return ::
  "gen_world \<Rightarrow> PyObject option \<Rightarrow> int \<Rightarrow> PyObject option \<times> gen_world" where
  "example_resume_return w arg finish_yield_from =
     (Some (PyLong 5), w\<lparr>gen_footer := (gen_footer w)\<lparr>state := PyJitGenState_Completed\<rparr>\<rparr>)"

definition example_gen :: gen_world where
  "example_gen =
     \<lparr> gen_footer = \<lparr> state = PyJitGenState_JustStarted, yieldPoint = Some 1 \<rparr>,
       tstate_frame = None, ob_refcnt = (\<lambda>obj. 1) \<rparr>"

text \<open>The controller after the function at address 1 was compiled on \<open>example_host\<close>.\<close>

definition example_compiled :: jit_state where
  "example_compiled =
     example_ready
       \<lparr>jit_ctx := Some \<lparr>compiled_records =
                           [example_func 1 \<mapsto> \<lparr> code_size = 64, stack_size = 16, spill_stack_size = 8 \<rparr>]\<rparr>,
        jit_time_functions := [example_func 1 \<mapsto> 2],
        total_compliation_time := 2,
        steady_clock := 2,
        backend_calls := [\<lparr>bc_func = example_func 1, bc_stack = [func_code (example_func 1)],
                           bc_received = []\<rparr>]\<rparr>"

text \<open>
  The controller of \<open>example_host_test_mode\<close> after \<open>_PyJIT_Initialize\<close>, and after the
  function at address 1 was then compiled.
\<close>

definition example_ready_test_mode :: jit_state where
  "example_ready_test_mode =
     example_ready\<lparr>jit_config := (jit_config example_ready)\<lparr>test_multithreaded_compile := 1\<rparr>\<rparr>"

definition example_compiled_test_mode :: jit_state where
  "example_compiled_test_mode =
     example_compiled\<lparr>jit_config := (jit_config example_compiled)\<lparr>test_multithreaded_compile := 1\<rparr>\<rparr>"

text \<open>The controller while the back-end compiles the function at address 0 (line 785).\<close>

definition example_compiling :: jit_state where
  "example_compiling = example_ready\<lparr>active_compiles := [func_code (example_func 0)]\<rparr>"

text \<open>The controller after the function at address 0 was compiled on \<open>example_host_self\<close>.\<close>

definition example_self_compiled :: jit_state where
  "example_self_compiled =
     example_ready
       \<lparr>jit_ctx := Some \<lparr>compiled_records =
                           [example_func 0 \<mapsto> \<lparr> code_size = 64, stack_size = 16, spill_stack_size = 8 \<rparr>]\<rparr>,
        jit_time_functions := [example_func 0 \<mapsto> 0],
        total_compliation_time := 2,
        steady_clock := 2,
        backend_calls := [\<lparr>bc_func = example_func 0, bc_stack = [func_code (example_func 0)],
                           bc_received = [PYJIT_RESULT_UNKNOWN_ERROR]\<rparr>]\<rparr>"

text \<open>The controller with the function at address 1 registered.\<close>

definition example_registered :: jit_state where
  "example_registered = example_ready\<lparr>jit_reg_functions := {example_func 1}\<rparr>"

text \<open>The controller after \<open>_PyJIT_Finalize\<close> on \<open>example_compiled\<close>.\<close>

definition example_finalized :: jit_state where
  "example_finalized =
     example_compiled
       \<lparr>jit_config := (jit_config example_compiled)\<lparr>init_state := JIT_FINALIZED\<rparr>,
        jit_ctx := None\<rparr>"

text \<open>
  The controller after \<open>_PyJIT_Initialize\<close> returned -1 on \<open>example_host_module_fails\<close>,
  and after the function at address 1 was then compiled.
\<close>

definition example_half_initialized :: jit_state where
  "example_half_initialized =
     jit_state_at_start
       \<lparr>jit_config := JitConfig_default\<lparr>compile_all_static_functions := 1\<rparr>,
        jit_ctx := Some \<lparr>compiled_records = Map.empty\<rparr>\<rparr>"

definition example_half_initialized_compiled :: jit_state where
  "example_half_initialized_compiled =
     example_half_initialized
       \<lparr>jit_ctx := Some \<lparr>compiled_records =
                           [example_func 1 \<mapsto> \<lparr> code_size = 64, stack_size = 16, spill_stack_size = 8 \<rparr>]\<rparr>,
        jit_time_functions := [example_func 1 \<mapsto> 2],
        total_compliation_time := 2,
        steady_clock := 2,
        backend_calls := [\<lparr>bc_func = example_func 1, bc_stack = [func_code (example_func 1)],
                           bc_received = []\<rparr>]\<rparr>"

text \<open>The controller of \<open>example_host_no_type_slots\<close> after \<open>_PyJIT_Initialize\<close>.\<close>

definition example_no_type_slots :: jit_state where
  "example_no_type_slots =
     example_ready\<lparr>jit_config := (jit_config example_ready)\<lparr>are_type_slots_enabled := 0\<rparr>\<rparr>"

text \<open>The controller of \<open>example_host_bad_list\<close> after \<open>_PyJIT_Initialize\<close>.\<close>

definition example_parse_failed :: jit_state where
  "example_parse_failed =
     jit_state_at_start\<lparr>log_globals := LogGlobals_default\<lparr>g_debug := 1, g_debug_verbose := 1\<rparr>\<rparr>"

definition depths_and_results ::
  "(PyJIT_Result \<times> jit_state) option \<Rightarrow> (nat \<times> PyJIT_Result list) list" where
  "depths_and_results run =
     (case run of
        None \<Rightarrow> []
      | Some (r, s) \<Rightarrow> map (\<lambda>c. (length (bc_stack c), bc_received c)) (backend_calls s))"

section \<open>Properties\<close>

subsection \<open>Unfolding for concrete inputs\<close>

lemmas example_defs =
  example_host_def example_ready_def example_func_def jit_state_at_start_def
  JitConfig_default_def LogGlobals_default_def

lemmas Initialize_defs =
  PyJIT_Initialize_def is_flag_set_def is_env_truthy_def Initialize_debug_flags_def
  Initialize_log_file_def Initialize_list_flags_def Initialize_jit_list_def flag_string_def
  getenv_nonempty_def Initialize_context_def Initialize_commit_def flag_long_def
  flag_long_env_def

lemma CompileFunction_fuel_numeral:
  "CompileFunction_fuel (numeral k) h func s =
     (if jit_ctx s = None then Some (PYJIT_NOT_INITIALIZED, s)
      else
        (case CompileFunction_skips h s func of
           Some early \<Rightarrow> Some (early, s)
         | None \<Rightarrow>
             if length (active_compiles s) = kMaxCompileDepth \<or>
                func_code func \<in> set (active_compiles s)
             then Some (PYJIT_RESULT_UNKNOWN_ERROR,
                        CompilationTimer_destroy h func (steady_clock s) s)
             else
               (case PyJITContext_CompileFunction (CompileFunction_fuel (pred_numeral k) h) h func
                       (s\<lparr>jit_reg_functions := jit_reg_functions s - {func},
                          active_compiles := active_compiles s @ [func_code func]\<rparr>) of
                  None \<Rightarrow> None
                | Some (result, s1) \<Rightarrow>
                    Some (result,
                          CompilationTimer_destroy h func (steady_clock s)
                            (s1\<lparr>active_compiles := butlast (active_compiles s1)\<rparr>)))))"
  by (simp only: numeral_eq_Suc CompileFunction_fuel.simps Let_def)

lemmas CompileFunction_defs =
  PyJIT_CompileFunction_def CompileFunction_fuel_numeral kMaxCompileDepth_def CompileFunction_skips_def PyJIT_IsCompiled_def
  PyJITContext_DidCompile_def PyJIT_OnJitList_def PyJITContext_CompileFunction_def
  CompilationTimer_destroy_def

subsection \<open>Nested compiles: invariants, frame conditions, termination\<close>


lemma reenter_each_invariant:
  assumes "\<And>g s r s'. compile g s = Some (r, s') \<Longrightarrow> P s \<Longrightarrow> P s'"
  shows "reenter_each compile gs s = Some (rs, s') \<Longrightarrow> P s \<Longrightarrow> P s'"
proof (induction gs arbitrary: s rs s')
  case Nil
  then show ?case by simp
next
  case (Cons g gs)
  from Cons.prems(1) obtain r s1 rs' where
    c: "compile g s = Some (r, s1)" and
    rest: "reenter_each compile gs s1 = Some (rs', s')"
    by (auto split: option.splits)
  from assms [OF c Cons.prems(2)] have "P s1" .
  from Cons.IH [OF rest this] show ?case .
qed

lemma reenter_each_returns:
  assumes "\<And>g s. P s \<Longrightarrow> \<exists>r s'. compile g s = Some (r, s') \<and> P s'"
  shows "P s \<Longrightarrow> \<exists>rs s'. reenter_each compile gs s = Some (rs, s') \<and> P s'"
proof (induction gs arbitrary: s)
  case Nil
  then show ?case by simp
next
  case (Cons g gs)
  from assms [OF Cons.prems] obtain r s1 where
    c: "compile g s = Some (r, s1)" and p1: "P s1" by blast
  from Cons.IH [OF p1] obtain rs s2 where
    "reenter_each compile gs s1 = Some (rs, s2)" and "P s2" by blast
  with c show ?case by simp
qed

lemma CompilationTimer_destroy_simps [simp]:
  "active_compiles (CompilationTimer_destroy h f t s) = active_compiles s"
  "backend_calls (CompilationTimer_destroy h f t s) = backend_calls s"
  "jit_ctx (CompilationTimer_destroy h f t s) = jit_ctx s"
  "jit_config (CompilationTimer_destroy h f t s) = jit_config s"
  "g_jit_list (CompilationTimer_destroy h f t s) = g_jit_list s"
  "jit_reg_functions (CompilationTimer_destroy h f t s) = jit_reg_functions s"
  by (simp_all add: CompilationTimer_destroy_def Let_def)

lemma backend_inv:
  assumes nested: "\<And>g s r s'. compile g s = Some (r, s') \<Longrightarrow> compile_inv Q st s \<Longrightarrow> compile_inv Q st s'"
    and run: "PyJITContext_CompileFunction compile h f s = Some (r, s')"
    and inv: "compile_inv Q st s" and ok: "Q st"
  shows "compile_inv Q st s'"
proof -
  from run obtain rs s1 where
    re: "reenter_each compile (backend_reenters h f) s = Some (rs, s1)"
    by (auto simp: PyJITContext_CompileFunction_def split: option.splits)
  have i1: "compile_inv Q st s1"
    using reenter_each_invariant [where P = "compile_inv Q st", OF nested re inv] .
  from run re have
    "active_compiles s' = active_compiles s1"
    "backend_calls s' = backend_calls s1 @
        [\<lparr>bc_func = f, bc_stack = active_compiles s, bc_received = rs\<rparr>]"
    by (auto simp: PyJITContext_CompileFunction_def Let_def split: if_splits)
  with i1 inv ok show ?thesis
    by (auto simp: compile_inv_def)
qed

lemma CompileFunction_fuel_cases:
  assumes "CompileFunction_fuel (Suc n) h f s = Some (r, s')"
  obtains
    (not_initialized) "jit_ctx s = None" "r = PYJIT_NOT_INITIALIZED" "s' = s"
  | (skipped) "jit_ctx s \<noteq> None" "CompileFunction_skips h s f = Some r" "s' = s"
  | (refused) "jit_ctx s \<noteq> None" "CompileFunction_skips h s f = None"
      "length (active_compiles s) = kMaxCompileDepth \<or> func_code f \<in> set (active_compiles s)"
      "r = PYJIT_RESULT_UNKNOWN_ERROR" "s' = CompilationTimer_destroy h f (steady_clock s) s"
  | (compiled) s1 where "jit_ctx s \<noteq> None" "CompileFunction_skips h s f = None"
      "length (active_compiles s) \<noteq> kMaxCompileDepth" "func_code f \<notin> set (active_compiles s)"
      "PyJITContext_CompileFunction (CompileFunction_fuel n h) h f
         (s\<lparr>jit_reg_functions := jit_reg_functions s - {f},
            active_compiles := active_compiles s @ [func_code f]\<rparr>) = Some (r, s1)"
      "s' = CompilationTimer_destroy h f (steady_clock s)
              (s1\<lparr>active_compiles := butlast (active_compiles s1)\<rparr>)"
proof (cases "jit_ctx s = None")
  case True
  with assms have "r = PYJIT_NOT_INITIALIZED" "s' = s" by simp_all
  with True show ?thesis by (rule not_initialized)
next
  case ctx: False
  show ?thesis
  proof (cases "CompileFunction_skips h s f")
    case (Some early)
    with assms ctx have "early = r" "s' = s" by simp_all
    with ctx Some show ?thesis by (intro skipped) simp_all
  next
    case None
    show ?thesis
    proof (cases "length (active_compiles s) = kMaxCompileDepth \<or>
                  func_code f \<in> set (active_compiles s)")
      case True
      with assms ctx None have
        "r = PYJIT_RESULT_UNKNOWN_ERROR \<and> s' = CompilationTimer_destroy h f (steady_clock s) s"
        by (simp add: Let_def)
      with ctx None True show ?thesis by (intro refused) simp_all
    next
      case False
      let ?s0 = "s\<lparr>jit_reg_functions := jit_reg_functions s - {f},
                   active_compiles := active_compiles s @ [func_code f]\<rparr>"
      from assms ctx None False have
        "(case PyJITContext_CompileFunction (CompileFunction_fuel n h) h f ?s0 of
            None \<Rightarrow> None
          | Some (result, s1) \<Rightarrow>
              Some (result, CompilationTimer_destroy h f (steady_clock s)
                      (s1\<lparr>active_compiles := butlast (active_compiles s1)\<rparr>))) = Some (r, s')"
        by (simp add: Let_def)
      then obtain s1 where
        "PyJITContext_CompileFunction (CompileFunction_fuel n h) h f ?s0 = Some (r, s1)"
        "s' = CompilationTimer_destroy h f (steady_clock s)
                (s1\<lparr>active_compiles := butlast (active_compiles s1)\<rparr>)"
        by (cases "PyJITContext_CompileFunction (CompileFunction_fuel n h) h f ?s0") auto
      with ctx None False show ?thesis by (intro compiled [of s1]) simp_all
    qed
  qed
qed

lemma CompileFunction_fuel_inv:
  assumes push: "\<And>st c. Q st \<Longrightarrow> length st \<noteq> kMaxCompileDepth \<Longrightarrow> c \<notin> set st \<Longrightarrow> Q (st @ [c])"
  shows "CompileFunction_fuel n h f s = Some (r, s') \<Longrightarrow> Q st \<Longrightarrow>
         compile_inv Q st s \<Longrightarrow> compile_inv Q st s'"
proof (induction n arbitrary: f s r s' st)
  case 0
  then show ?case by simp
next
  case (Suc n)
  from Suc.prems(1) show ?case
  proof (cases rule: CompileFunction_fuel_cases)
    case not_initialized
    with Suc.prems show ?thesis by simp
  next
    case skipped
    with Suc.prems show ?thesis by simp
  next
    case refused
    with Suc.prems show ?thesis by (simp add: compile_inv_def)
  next
    case (compiled s1)
    let ?s0 = "s\<lparr>jit_reg_functions := jit_reg_functions s - {f},
                 active_compiles := active_compiles s @ [func_code f]\<rparr>"
    let ?st = "st @ [func_code f]"
    from Suc.prems(3) have st: "active_compiles s = st" by (simp add: compile_inv_def)
    from compiled(3,4) st Suc.prems(2) have ok': "Q ?st"
      by (intro push) simp_all
    from Suc.prems(3) have inv0: "compile_inv Q ?st ?s0"
      by (simp add: compile_inv_def)
    have "compile_inv Q ?st s1"
      by (rule backend_inv [OF _ compiled(5) inv0 ok']) (rule Suc.IH [OF _ ok'])
    with compiled(6) show ?thesis
      by (simp add: compile_inv_def)
  qed
qed

lemma stack_ok_push:
  "stack_ok st \<Longrightarrow> length st \<noteq> kMaxCompileDepth \<Longrightarrow> c \<notin> set st \<Longrightarrow> stack_ok (st @ [c])"
  by (auto simp: stack_ok_def)

lemma CompileFunction_fuel_stack:
  assumes "CompileFunction_fuel n h f s = Some (r, s')"
  shows "active_compiles s' = active_compiles s"
proof -
  have "compile_inv (\<lambda>st. True) (active_compiles s) (s\<lparr>backend_calls := []\<rparr>)"
    by (simp add: compile_inv_def)
  have "compile_inv (\<lambda>st. True) (active_compiles s) s"
    by (simp add: compile_inv_def list_all_iff)
  from CompileFunction_fuel_inv [where Q = "\<lambda>st. True", OF _ assms _ this]
  show ?thesis by (simp add: compile_inv_def)
qed

lemma backend_returns:
  assumes "\<And>g s. active_compiles s = st \<Longrightarrow>
             \<exists>r s'. compile g s = Some (r, s') \<and> active_compiles s' = st"
    and "active_compiles s = st"
  shows "\<exists>r s'. PyJITContext_CompileFunction compile h f s = Some (r, s')"
proof -
  from reenter_each_returns [where P = "\<lambda>s. active_compiles s = st" and compile = compile,
      OF assms(1) assms(2)]
  obtain rs s1 where "reenter_each compile (backend_reenters h f) s = Some (rs, s1)"
    by blast
  then show ?thesis
    by (simp add: PyJITContext_CompileFunction_def Let_def)
qed

lemma CompileFunction_fuel_returns:
  "length (active_compiles s) \<le> kMaxCompileDepth \<Longrightarrow>
   kMaxCompileDepth < length (active_compiles s) + n \<Longrightarrow>
   \<exists>r s'. CompileFunction_fuel n h f s = Some (r, s')"
proof (induction n arbitrary: f s)
  case 0
  then show ?case by simp
next
  case (Suc n)
  let ?s0 = "s\<lparr>jit_reg_functions := jit_reg_functions s - {f},
               active_compiles := active_compiles s @ [func_code f]\<rparr>"
  show ?case
  proof (cases "jit_ctx s = None \<or> CompileFunction_skips h s f \<noteq> None \<or>
                length (active_compiles s) = kMaxCompileDepth \<or>
                func_code f \<in> set (active_compiles s)")
    case True
    then show ?thesis by (auto simp: Let_def split: option.splits)
  next
    case False
    have nested: "\<exists>r s'. CompileFunction_fuel n h g t = Some (r, s') \<and>
                    active_compiles s' = active_compiles ?s0"
      if "active_compiles t = active_compiles ?s0" for g t
    proof -
      from that False Suc.prems have
        "length (active_compiles t) \<le> kMaxCompileDepth"
        "kMaxCompileDepth < length (active_compiles t) + n"
        by simp_all
      from Suc.IH [OF this] obtain r s' where
        run: "CompileFunction_fuel n h g t = Some (r, s')" by blast
      from CompileFunction_fuel_stack [OF run] that run show ?thesis by simp
    qed
    from backend_returns [of "active_compiles ?s0" "CompileFunction_fuel n h" ?s0 h f, OF nested]
    obtain r s1 where
      "PyJITContext_CompileFunction (CompileFunction_fuel n h) h f ?s0 = Some (r, s1)"
      by auto
    with False show ?thesis by (simp add: Let_def)
  qed
qed

lemma PyJIT_CompileFunction_returns:
  "length (active_compiles s) \<le> kMaxCompileDepth \<Longrightarrow>
   \<exists>r s'. PyJIT_CompileFunction h f s = Some (r, s')"
  unfolding PyJIT_CompileFunction_def
  by (rule CompileFunction_fuel_returns) simp_all


lemma backend_frame:
  assumes nested: "\<And>g s r s'. compile g s = Some (r, s') \<Longrightarrow> P s \<Longrightarrow> P s'"
    and clock: "\<And>s x y. P (s\<lparr>steady_clock := x, backend_calls := y\<rparr>) = P s"
    and ctx: "\<And>s F. P (s\<lparr>jit_ctx := map_option F (jit_ctx s)\<rparr>) = P s"
    and run: "PyJITContext_CompileFunction compile h f s = Some (r, s')"
    and p: "P s"
  shows "P s'"
proof -
  from run obtain rs s1 where
    re: "reenter_each compile (backend_reenters h f) s = Some (rs, s1)"
    by (auto simp: PyJITContext_CompileFunction_def split: option.splits)
  have p1: "P s1"
    using reenter_each_invariant [where P = P, OF nested re p] .
  let ?s2 = "s1\<lparr>steady_clock := steady_clock s1 + backend_seconds h f,
                backend_calls := backend_calls s1 @
                  [\<lparr>bc_func = f, bc_stack = active_compiles s, bc_received = rs\<rparr>]\<rparr>"
  from p1 have p2: "P ?s2" by (simp only: clock)
  from run re have
    "s' = ?s2 \<or> (\<exists>F. s' = ?s2\<lparr>jit_ctx := map_option F (jit_ctx ?s2)\<rparr>)"
    by (auto simp: PyJITContext_CompileFunction_def Let_def split: if_splits)
  with p2 show ?thesis by (auto simp only: ctx)
qed

lemma CompileFunction_fuel_frame:
  assumes reg: "\<And>s x. P (s\<lparr>jit_reg_functions := x\<rparr>) = P s"
    and stack: "\<And>s x. P (s\<lparr>active_compiles := x\<rparr>) = P s"
    and timer: "\<And>s f t. P (CompilationTimer_destroy h f t s) = P s"
    and clock: "\<And>s x y. P (s\<lparr>steady_clock := x, backend_calls := y\<rparr>) = P s"
    and ctx: "\<And>s F. P (s\<lparr>jit_ctx := map_option F (jit_ctx s)\<rparr>) = P s"
  shows "CompileFunction_fuel n h f s = Some (r, s') \<Longrightarrow> P s \<Longrightarrow> P s'"
proof (induction n arbitrary: f s r s')
  case 0
  then show ?case by simp
next
  case (Suc n)
  from Suc.prems(1) show ?case
  proof (cases rule: CompileFunction_fuel_cases)
    case not_initialized
    with Suc.prems show ?thesis by simp
  next
    case skipped
    with Suc.prems show ?thesis by simp
  next
    case refused
    with Suc.prems show ?thesis by (simp only: timer)
  next
    case (compiled s1)
    let ?s0 = "s\<lparr>jit_reg_functions := jit_reg_functions s - {f},
                 active_compiles := active_compiles s @ [func_code f]\<rparr>"
    from Suc.prems(2) have "P ?s0" by (simp only: reg stack)
    from backend_frame [where P = P, OF Suc.IH clock ctx compiled(5) this]
    have "P s1" .
    with compiled(6) show ?thesis by (simp only: timer stack)
  qed
qed

lemma CompilationTimer_destroy_more [simp]:
  "test_multithreaded_funcs (CompilationTimer_destroy h f t s) = test_multithreaded_funcs s"
  "g_threaded_compile_context (CompilationTimer_destroy h f t s) = g_threaded_compile_context s"
  "log_globals (CompilationTimer_destroy h f t s) = log_globals s"
  "steady_clock (CompilationTimer_destroy h f t s) = steady_clock s"
  by (simp_all add: CompilationTimer_destroy_def Let_def)

lemma CompileFunction_fuel_ctx:
  "CompileFunction_fuel n h f s = Some (r, s') \<Longrightarrow> jit_ctx s \<noteq> None \<Longrightarrow> jit_ctx s' \<noteq> None"
  by (rule CompileFunction_fuel_frame [where P = "\<lambda>s. jit_ctx s \<noteq> None"]) simp_all

lemma CompileFunction_fuel_config:
  assumes "CompileFunction_fuel n h f s = Some (r, s')"
  shows "jit_config s' = jit_config s"
  by (rule CompileFunction_fuel_frame [where P = "\<lambda>t. jit_config t = jit_config s", OF _ _ _ _ _ assms])
    simp_all

lemma CompileFunction_fuel_jit_list:
  assumes "CompileFunction_fuel n h f s = Some (r, s')"
  shows "g_jit_list s' = g_jit_list s"
  by (rule CompileFunction_fuel_frame [where P = "\<lambda>t. g_jit_list t = g_jit_list s", OF _ _ _ _ _ assms])
    simp_all

lemma backend_records:
  assumes nested: "\<And>g s r s'. compile g s = Some (r, s') \<Longrightarrow> jit_ctx s \<noteq> None \<Longrightarrow> jit_ctx s' \<noteq> None"
    and run: "PyJITContext_CompileFunction compile h f s = Some (PYJIT_RESULT_OK, s')"
    and ctx: "jit_ctx s \<noteq> None"
  shows "\<exists>c. jit_ctx s' = Some c \<and> compiled_records c f \<noteq> None"
proof -
  from run obtain rs s1 where
    re: "reenter_each compile (backend_reenters h f) s = Some (rs, s1)"
    by (auto simp: PyJITContext_CompileFunction_def split: option.splits)
  have "jit_ctx s1 \<noteq> None"
    using reenter_each_invariant [where P = "\<lambda>s. jit_ctx s \<noteq> None", OF nested re ctx] .
  then obtain c1 where "jit_ctx s1 = Some c1" by blast
  with run re show ?thesis
    by (auto simp: PyJITContext_CompileFunction_def Let_def split: if_splits)
qed

text \<open>More fuel gives the same result: the bound is a device of the model, not of the source.\<close>

lemma reenter_each_mono:
  assumes "\<And>g s x. compile1 g s = Some x \<Longrightarrow> compile2 g s = Some x"
  shows "reenter_each compile1 gs s = Some y \<Longrightarrow> reenter_each compile2 gs s = Some y"
proof (induction gs arbitrary: s y)
  case Nil
  then show ?case by simp
next
  case (Cons g gs)
  from Cons.prems obtain r s1 rs s2 where
    c: "compile1 g s = Some (r, s1)" and
    rest: "reenter_each compile1 gs s1 = Some (rs, s2)" and y: "y = (r # rs, s2)"
    by (auto split: option.splits)
  from assms [OF c] Cons.IH [OF rest] y show ?case by simp
qed

lemma backend_mono:
  assumes "\<And>g s x. compile1 g s = Some x \<Longrightarrow> compile2 g s = Some x"
    and "PyJITContext_CompileFunction compile1 h f s = Some y"
  shows "PyJITContext_CompileFunction compile2 h f s = Some y"
proof -
  from assms(2) obtain z where
    re: "reenter_each compile1 (backend_reenters h f) s = Some z"
    by (auto simp: PyJITContext_CompileFunction_def split: option.splits)
  from reenter_each_mono [of compile1 compile2, OF assms(1) re]
  have "reenter_each compile2 (backend_reenters h f) s = Some z" .
  with assms(2) re show ?thesis
    by (simp add: PyJITContext_CompileFunction_def)
qed

lemma CompileFunction_fuel_mono:
  "CompileFunction_fuel n h f s = Some x \<Longrightarrow> n \<le> m \<Longrightarrow> CompileFunction_fuel m h f s = Some x"
proof (induction n arbitrary: m f s x)
  case 0
  then show ?case by simp
next
  case (Suc n)
  from Suc.prems(2) obtain m' where m: "m = Suc m'" and le: "n \<le> m'"
    by (cases m) simp_all
  obtain r s' where x: "x = (r, s')" by (cases x)
  from Suc.prems(1) [unfolded x] show ?case unfolding m x
  proof (cases rule: CompileFunction_fuel_cases)
    case not_initialized
    then show "CompileFunction_fuel (Suc m') h f s = Some (r, s')" by simp
  next
    case skipped
    then show "CompileFunction_fuel (Suc m') h f s = Some (r, s')" by auto
  next
    case refused
    then show "CompileFunction_fuel (Suc m') h f s = Some (r, s')" by (auto simp: Let_def)
  next
    case (compiled s1)
    have "PyJITContext_CompileFunction (CompileFunction_fuel m' h) h f
            (s\<lparr>jit_reg_functions := jit_reg_functions s - {f},
               active_compiles := active_compiles s @ [func_code f]\<rparr>) = Some (r, s1)"
      by (rule backend_mono [OF _ compiled(5)]) (rule Suc.IH [OF _ le])
    with compiled show "CompileFunction_fuel (Suc m') h f s = Some (r, s')"
      by (auto simp: Let_def)
  qed
qed

subsection \<open>Idempotence of the single-function path\<close>

text \<open>
  Claim C4. If a call of \<open>_PyJIT_CompileFunction\<close> on a function returned
  \<open>PYJIT_RESULT_OK\<close>, a second call on the same function returns \<open>PYJIT_RESULT_OK\<close> and
  leaves the controller as it was; in particular the history of back-end invocations does
  not grow: the back-end is not invoked. The second call is answered by the record that
  the first one left in the context (or found there).
\<close>

theorem CompileFunction_idempotent:
  assumes first: "PyJIT_CompileFunction h func s = Some (PYJIT_RESULT_OK, s')"
  shows "PyJIT_CompileFunction h func s' = Some (PYJIT_RESULT_OK, s')"
proof -
  from first have
    run: "CompileFunction_fuel (Suc kMaxCompileDepth) h func s = Some (PYJIT_RESULT_OK, s')"
    by (simp only: PyJIT_CompileFunction_def)
  from run have "jit_ctx s' \<noteq> None \<and> CompileFunction_skips h s' func = Some PYJIT_RESULT_OK"
  proof (cases rule: CompileFunction_fuel_cases)
    case not_initialized
    then show ?thesis by simp
  next
    case skipped
    then show ?thesis by simp
  next
    case refused
    then show ?thesis by simp
  next
    case (compiled s1)
    have "\<exists>c. jit_ctx s1 = Some c \<and> compiled_records c func \<noteq> None"
    proof (rule backend_records [where compile = "CompileFunction_fuel kMaxCompileDepth h"])
      show "jit_ctx t' \<noteq> None"
        if "CompileFunction_fuel kMaxCompileDepth h g t = Some (r, t')" "jit_ctx t \<noteq> None"
        for g t r t'
        using that by (rule CompileFunction_fuel_ctx)
      show "PyJITContext_CompileFunction (CompileFunction_fuel kMaxCompileDepth h) h func
              (s\<lparr>jit_reg_functions := jit_reg_functions s - {func},
                 active_compiles := active_compiles s @ [func_code func]\<rparr>) =
            Some (PYJIT_RESULT_OK, s1)"
        by (rule compiled(5))
      show "jit_ctx (s\<lparr>jit_reg_functions := jit_reg_functions s - {func},
                       active_compiles := active_compiles s @ [func_code func]\<rparr>) \<noteq> None"
        using compiled(1) by simp
    qed
    then obtain c where "jit_ctx s1 = Some c" "compiled_records c func \<noteq> None"
      by blast
    with compiled(6) show ?thesis
      by (simp add: CompileFunction_skips_def PyJIT_IsCompiled_def PyJITContext_DidCompile_def)
  qed
  then show ?thesis
    by (simp add: PyJIT_CompileFunction_def)
qed


theorem CompileFunction_idempotent_witness:
  "PyJIT_CompileFunction example_host (example_func 1) example_ready =
     Some (PYJIT_RESULT_OK, example_compiled) \<and>
   PyJIT_CompileFunction example_host (example_func 1) example_compiled =
     Some (PYJIT_RESULT_OK, example_compiled)"
proof -
  have first: "PyJIT_CompileFunction example_host (example_func 1) example_ready =
     Some (PYJIT_RESULT_OK, example_compiled)"
    unfolding PyJIT_CompileFunction_def CompileFunction_fuel.simps
    by (simp add: kMaxCompileDepth_def CompileFunction_skips_def
      PyJIT_IsCompiled_def PyJITContext_DidCompile_def PyJIT_OnJitList_def
      PyJITContext_CompileFunction_def CompilationTimer_destroy_def example_compiled_def
      example_defs Let_def)
  from CompileFunction_idempotent [OF first] first show ?thesis by simp
qed

subsection \<open>Eligibility without a JIT list\<close>

lemma Initialize_commit_jit_list:
  "Initialize_commit h jit_list s = Inr (rc, s') \<Longrightarrow> g_jit_list s' = jit_list"
  by (auto simp: Initialize_commit_def Let_def split: if_splits)

lemma Initialize_context_jit_list:
  "Initialize_context h jit_list s = Inr (0, s') \<Longrightarrow> g_jit_list s' = jit_list"
  by (auto simp: Initialize_context_def Let_def Initialize_commit_jit_list split: if_splits)

text \<open>
  Claim C10. When the list pointer \<open>g_jit_list\<close> is null, \<open>_PyJIT_OnJitList\<close> returns 1 for
  every function, so when the JIT is enabled \<open>_PyJIT_RegisterFunction\<close> returns 1 and the
  function is in the registration set afterwards. An initialization that enabled the JIT
  with no jit-list-file configured leaves the pointer null.
\<close>

theorem no_jit_list_accepts_every_function:
  "(g_jit_list s = None \<longrightarrow>
      PyJIT_OnJitList h s func = 1 \<and>
      (PyJIT_IsEnabled s \<noteq> 0 \<longrightarrow>
         fst (PyJIT_RegisterFunction h func s) = 1 \<and>
         func \<in> jit_reg_functions (snd (PyJIT_RegisterFunction h func s)))) \<and>
   (flag_string h ''jit-list-file'' ''PYTHONJITLISTFILE'' = None \<and>
    init_state (jit_config s0) \<noteq> JIT_INITIALIZED \<and>
    PyJIT_Initialize h s0 = Inr (0, s1) \<and> PyJIT_IsEnabled s1 \<noteq> 0 \<longrightarrow>
      g_jit_list s1 = None)"
proof (intro conjI impI)
  assume "g_jit_list s = None"
  then show on_list: "PyJIT_OnJitList h s func = 1"
    by (simp add: PyJIT_OnJitList_def Let_def)
  assume "PyJIT_IsEnabled s \<noteq> 0"
  with on_list show "fst (PyJIT_RegisterFunction h func s) = 1"
    and "func \<in> jit_reg_functions (snd (PyJIT_RegisterFunction h func s))"
    by (simp_all add: PyJIT_RegisterFunction_def Let_def)
next
  assume a: "flag_string h ''jit-list-file'' ''PYTHONJITLISTFILE'' = None \<and>
    init_state (jit_config s0) \<noteq> JIT_INITIALIZED \<and>
    PyJIT_Initialize h s0 = Inr (0, s1) \<and> PyJIT_IsEnabled s1 \<noteq> 0"
  have flags: "init_state (Initialize_list_flags h c) = init_state c" for c
    by (simp add: Initialize_list_flags_def Let_def)
  from a show "g_jit_list s1 = None"
    by (auto simp: PyJIT_Initialize_def Initialize_jit_list_def Let_def PyJIT_IsEnabled_def flags
        dest: Initialize_context_jit_list split: if_splits)
qed


lemma example_ready_reached:
  "PyJIT_Initialize example_host jit_state_at_start = Inr (0, example_ready)"
  by (simp add: Initialize_defs example_defs Let_def)

theorem no_jit_list_accepts_every_function_witness:
  "g_jit_list example_ready = None \<and>
   PyJIT_OnJitList example_host example_ready (example_func 3) = 1 \<and>
   PyJIT_IsEnabled example_ready \<noteq> 0 \<and>
   fst (PyJIT_RegisterFunction example_host (example_func 3) example_ready) = 1 \<and>
   example_func 3 \<in>
     jit_reg_functions (snd (PyJIT_RegisterFunction example_host (example_func 3) example_ready)) \<and>
   flag_string example_host ''jit-list-file'' ''PYTHONJITLISTFILE'' = None \<and>
   init_state (jit_config jit_state_at_start) \<noteq> JIT_INITIALIZED \<and>
   PyJIT_Initialize example_host jit_state_at_start = Inr (0, example_ready)"
proof -
  have no_list: "g_jit_list example_ready = None"
    by (simp add: example_defs)
  have enabled: "PyJIT_IsEnabled example_ready \<noteq> 0"
    by (simp add: PyJIT_IsEnabled_def example_defs)
  have no_file: "flag_string example_host ''jit-list-file'' ''PYTHONJITLISTFILE'' = None"
    by (simp add: flag_string_def getenv_nonempty_def example_defs)
  have fresh: "init_state (jit_config jit_state_at_start) \<noteq> JIT_INITIALIZED"
    by (simp add: example_defs)
  from no_jit_list_accepts_every_function
    [of example_ready example_host "example_func 3" jit_state_at_start example_ready]
    no_list enabled no_file fresh example_ready_reached
  show ?thesis by simp
qed

subsection \<open>Register and Unregister\<close>

text \<open>
  Claim C8, amended. \<open>Register(f)\<close> then \<open>Unregister(f)\<close> leaves the registration set with
  \<open>f\<close> removed when the JIT is enabled, and untouched when it is not. So the pair restores
  the registration set whenever \<open>f\<close> was not in it before.
\<close>

theorem Register_then_Unregister:
  "jit_reg_functions (PyJIT_UnregisterFunction func (snd (PyJIT_RegisterFunction h func s))) =
     (if PyJIT_IsEnabled s \<noteq> 0 then jit_reg_functions s - {func} else jit_reg_functions s) \<and>
   (func \<notin> jit_reg_functions s \<longrightarrow>
      jit_reg_functions (PyJIT_UnregisterFunction func (snd (PyJIT_RegisterFunction h func s))) =
        jit_reg_functions s)"
  by (auto simp: PyJIT_UnregisterFunction_def PyJIT_RegisterFunction_def PyJIT_IsEnabled_def Let_def)

theorem Register_then_Unregister_witness:
  "example_func 1 \<notin> jit_reg_functions example_ready \<and>
   PyJIT_IsEnabled example_ready \<noteq> 0 \<and>
   jit_reg_functions (snd (PyJIT_RegisterFunction example_host (example_func 1) example_ready)) =
     {example_func 1} \<and>
   jit_reg_functions
     (PyJIT_UnregisterFunction (example_func 1)
        (snd (PyJIT_RegisterFunction example_host (example_func 1) example_ready))) =
     jit_reg_functions example_ready"
proof -
  have fresh: "example_func 1 \<notin> jit_reg_functions example_ready"
    by (simp add: example_defs)
  have enabled: "PyJIT_IsEnabled example_ready \<noteq> 0"
    by (simp add: PyJIT_IsEnabled_def example_defs)
  have registered:
    "jit_reg_functions (snd (PyJIT_RegisterFunction example_host (example_func 1) example_ready)) =
       {example_func 1}"
    by (simp add: PyJIT_RegisterFunction_def PyJIT_IsEnabled_def PyJIT_OnJitList_def
        example_defs Let_def)
  from Register_then_Unregister [of "example_func 1" example_host example_ready]
    fresh enabled registered
  show ?thesis by simp
qed

text \<open>
  The claim as stated fails when \<open>f\<close> is registered already: the set holds \<open>f\<close> before the
  pair of calls and is empty after it.
\<close>

theorem Register_then_Unregister_drops_registered:
  "PyJIT_RegisterFunction example_host (example_func 1) example_ready = (1, example_registered) \<and>
   jit_reg_functions example_registered = {example_func 1} \<and>
   jit_reg_functions
     (PyJIT_UnregisterFunction (example_func 1)
        (snd (PyJIT_RegisterFunction example_host (example_func 1) example_registered))) = {} \<and>
   jit_reg_functions
     (PyJIT_UnregisterFunction (example_func 1)
        (snd (PyJIT_RegisterFunction example_host (example_func 1) example_registered))) \<noteq>
   jit_reg_functions example_registered"
  by (simp add: PyJIT_UnregisterFunction_def PyJIT_RegisterFunction_def PyJIT_IsEnabled_def
      PyJIT_OnJitList_def example_registered_def example_defs Let_def)

subsection \<open>The worker's conditions and those of the single-function path\<close>



text \<open>The state of the test mode used below is reached by the operations themselves.\<close>

lemma example_compiled_test_mode_reached:
  "PyJIT_Initialize example_host_test_mode jit_state_at_start = Inr (0, example_ready_test_mode) \<and>
   PyJIT_CompileFunction example_host_test_mode (example_func 1) example_ready_test_mode =
     Some (PYJIT_RESULT_OK, example_compiled_test_mode)"
  by (simp add: Initialize_defs CompileFunction_defs example_host_test_mode_def
      example_ready_test_mode_def example_compiled_test_mode_def example_compiled_def
      example_defs Let_def)


subsection \<open>The recursion guard\<close>

lemma reenter_each_grows:
  assumes "\<And>g t r t'. compile g t = Some (r, t') \<Longrightarrow>
             \<exists>new. backend_calls t' = backend_calls t @ new"
  shows "reenter_each compile gs s = Some (rs, s') \<Longrightarrow>
         (\<exists>new. backend_calls s' = backend_calls s @ new) \<and> length rs = length gs"
proof (induction gs arbitrary: s rs s')
  case Nil
  then show ?case by simp
next
  case (Cons g gs)
  from Cons.prems obtain r s1 rs' where
    c: "compile g s = Some (r, s1)" and
    rest: "reenter_each compile gs s1 = Some (rs', s')" and rs: "rs = r # rs'"
    by (auto split: option.splits)
  from assms [OF c] obtain new1 where "backend_calls s1 = backend_calls s @ new1" by blast
  moreover from Cons.IH [OF rest] obtain new2 where
    "backend_calls s' = backend_calls s1 @ new2" "length rs' = length gs" by blast
  ultimately show ?case using rs by simp
qed

lemma backend_grows:
  assumes nested: "\<And>g t r t'. compile g t = Some (r, t') \<Longrightarrow>
             \<exists>new. backend_calls t' = backend_calls t @ new"
    and run: "PyJITContext_CompileFunction compile h f s = Some (r, s')"
  shows "\<exists>earlier received.
           backend_calls s' = backend_calls s @ earlier @
             [\<lparr>bc_func = f, bc_stack = active_compiles s, bc_received = received\<rparr>] \<and>
           r = backend_result h f received \<and>
           length received = length (backend_reenters h f)"
proof -
  from run obtain rs s1 where
    re: "reenter_each compile (backend_reenters h f) s = Some (rs, s1)"
    by (auto simp: PyJITContext_CompileFunction_def split: option.splits)
  have "(\<exists>new. backend_calls s1 = backend_calls s @ new) \<and>
        length rs = length (backend_reenters h f)"
  proof (rule reenter_each_grows [where compile = compile])
    show "\<exists>new. backend_calls t' = backend_calls t @ new"
      if "compile g t = Some (r, t')" for g t r t'
      using that by (rule nested)
  qed (rule re)
  then obtain earlier where
    grow: "backend_calls s1 = backend_calls s @ earlier"
    and len: "length rs = length (backend_reenters h f)" by blast
  from run re have
    "backend_calls s' = backend_calls s1 @
        [\<lparr>bc_func = f, bc_stack = active_compiles s, bc_received = rs\<rparr>]"
    "r = backend_result h f rs"
    by (auto simp: PyJITContext_CompileFunction_def Let_def split: if_splits)
  with grow len show ?thesis by auto
qed

lemma CompileFunction_fuel_grows:
  "CompileFunction_fuel n h f s = Some (r, s') \<Longrightarrow>
   \<exists>new. backend_calls s' = backend_calls s @ new"
proof (induction n arbitrary: f s r s')
  case 0
  then show ?case by simp
next
  case (Suc n)
  from Suc.prems show ?case
  proof (cases rule: CompileFunction_fuel_cases)
    case not_initialized
    then show ?thesis by simp
  next
    case skipped
    then show ?thesis by simp
  next
    case refused
    then show ?thesis by simp
  next
    case (compiled s1)
    let ?s0 = "s\<lparr>jit_reg_functions := jit_reg_functions s - {f},
                 active_compiles := active_compiles s @ [func_code f]\<rparr>"
    have "\<exists>earlier received.
           backend_calls s1 = backend_calls ?s0 @ earlier @
             [\<lparr>bc_func = f, bc_stack = active_compiles ?s0, bc_received = received\<rparr>] \<and>
           r = backend_result h f received \<and>
           length received = length (backend_reenters h f)"
    proof (rule backend_grows [where compile = "CompileFunction_fuel n h"])
      show "\<exists>new. backend_calls t' = backend_calls t @ new"
        if "CompileFunction_fuel n h g t = Some (r, t')" for g t r t'
        using that by (rule Suc.IH)
    qed (rule compiled(5))
    with compiled(6) show ?thesis by auto
  qed
qed

lemma compile_chain:
  assumes ctx: "jit_ctx s \<noteq> None"
    and len: "length (active_compiles s) + length fs = Suc kMaxCompileDepth"
    and nonempty: "fs \<noteq> []"
    and codes: "distinct (active_compiles s @ map func_code fs)"
    and fresh: "\<forall>f \<in> set fs. PyJIT_IsCompiled s (PyFunction f) = 0 \<and> PyJIT_OnJitList h s f \<noteq> 0"
    and chain: "\<forall>i. Suc i < length fs \<longrightarrow> backend_reenters h (fs ! i) = [fs ! Suc i]"
    and fuel: "length fs \<le> n"
  shows "\<exists>r s' new. CompileFunction_fuel n h (hd fs) s = Some (r, s') \<and>
           backend_calls s' = backend_calls s @ new \<and>
           map bc_func new = rev (butlast fs) \<and>
           map bc_stack new =
             rev (map (\<lambda>k. active_compiles s @ take k (map func_code fs)) [1..<length fs]) \<and>
           (if new = [] then r = PYJIT_RESULT_UNKNOWN_ERROR
            else bc_received (hd new) = [PYJIT_RESULT_UNKNOWN_ERROR])"
  using assms
proof (induction fs arbitrary: s n)
  case Nil
  then show ?case by simp
next
  case (Cons f rest)
  from Cons.prems(7) obtain m where n: "n = Suc m" and m: "length rest \<le> m"
    by (cases n) simp_all
  from Cons.prems(5) have skips: "CompileFunction_skips h s f = None"
    by (simp add: CompileFunction_skips_def)
  show ?case
  proof (cases rest)
    case Nil
    with Cons.prems(2) have "length (active_compiles s) = kMaxCompileDepth" by simp
    with Cons.prems(1) skips have
      "CompileFunction_fuel (Suc m) h f s =
         Some (PYJIT_RESULT_UNKNOWN_ERROR, CompilationTimer_destroy h f (steady_clock s) s)"
      by (auto simp: Let_def)
    with Nil n show ?thesis by simp
  next
    case (Cons g gs)
    let ?s0 = "s\<lparr>jit_reg_functions := jit_reg_functions s - {f},
                 active_compiles := active_compiles s @ [func_code f]\<rparr>"
    from Cons.prems(2) Cons have short: "length (active_compiles s) \<noteq> kMaxCompileDepth"
      by simp
    from Cons.prems(4) have new_code: "func_code f \<notin> set (active_compiles s)"
      by auto
    have reenters: "backend_reenters h f = [g]"
      using Cons.prems(6) Cons by (auto dest: spec [of _ 0])
    have "\<exists>r s' new. CompileFunction_fuel m h (hd rest) ?s0 = Some (r, s') \<and>
           backend_calls s' = backend_calls ?s0 @ new \<and>
           map bc_func new = rev (butlast rest) \<and>
           map bc_stack new =
             rev (map (\<lambda>k. active_compiles ?s0 @ take k (map func_code rest)) [1..<length rest]) \<and>
           (if new = [] then r = PYJIT_RESULT_UNKNOWN_ERROR
            else bc_received (hd new) = [PYJIT_RESULT_UNKNOWN_ERROR])"
    proof (rule Cons.IH)
      show "jit_ctx ?s0 \<noteq> None" using Cons.prems(1) by simp
      show "length (active_compiles ?s0) + length rest = Suc kMaxCompileDepth"
        using Cons.prems(2) by simp
      show "rest \<noteq> []" using Cons by simp
      show "distinct (active_compiles ?s0 @ map func_code rest)"
        using Cons.prems(4) by simp
      show "\<forall>f \<in> set rest. PyJIT_IsCompiled ?s0 (PyFunction f) = 0 \<and> PyJIT_OnJitList h ?s0 f \<noteq> 0"
        using Cons.prems(5)
        by (simp add: PyJIT_IsCompiled_def PyJIT_OnJitList_def cong: option.case_cong)
      show "\<forall>i. Suc i < length rest \<longrightarrow> backend_reenters h (rest ! i) = [rest ! Suc i]"
      proof (intro allI impI)
        fix i assume "Suc i < length rest"
        with Cons.prems(6) [rule_format, of "Suc i"] show "backend_reenters h (rest ! i) = [rest ! Suc i]"
          by simp
      qed
      show "length rest \<le> m" by (rule m)
    qed
    then obtain r1 s1 new1 where
      inner: "CompileFunction_fuel m h g ?s0 = Some (r1, s1)" and
      calls1: "backend_calls s1 = backend_calls s @ new1" and
      funcs1: "map bc_func new1 = rev (butlast rest)" and
      stacks1: "map bc_stack new1 =
         rev (map (\<lambda>k. (active_compiles s @ [func_code f]) @ take k (map func_code rest))
                [1..<length rest])" and
      deepest1: "if new1 = [] then r1 = PYJIT_RESULT_UNKNOWN_ERROR
                 else bc_received (hd new1) = [PYJIT_RESULT_UNKNOWN_ERROR]"
      using Cons by auto
    let ?entry = "\<lparr>bc_func = f, bc_stack = active_compiles s @ [func_code f],
                   bc_received = [r1]\<rparr>"
    from inner reenters obtain s2 where
      backend: "PyJITContext_CompileFunction (CompileFunction_fuel m h) h f ?s0 =
                  Some (backend_result h f [r1], s2)" and
      calls2: "backend_calls s2 = backend_calls s1 @ [?entry]"
      by (simp add: PyJITContext_CompileFunction_def Let_def)
    let ?s' = "CompilationTimer_destroy h f (steady_clock s)
                 (s2\<lparr>active_compiles := butlast (active_compiles s2)\<rparr>)"
    from Cons.prems(1) skips short new_code backend have
      run: "CompileFunction_fuel (Suc m) h f s = Some (backend_result h f [r1], ?s')"
      by (auto simp: Let_def)
    have calls: "backend_calls ?s' = backend_calls s @ (new1 @ [?entry])"
      using calls1 calls2 by simp
    have funcs: "map bc_func (new1 @ [?entry]) = rev (butlast (f # rest))"
      using funcs1 Cons by simp
    have "1 < Suc (length rest)" using Cons by simp
    then have "[1..<Suc (length rest)] = 1 # [Suc 1..<Suc (length rest)]"
      by (rule upt_conv_Cons)
    then have "[1..<Suc (length rest)] = 1 # map Suc [1..<length rest]"
      by (simp only: map_Suc_upt)
    then have stacks: "map bc_stack (new1 @ [?entry]) =
        rev (map (\<lambda>k. active_compiles s @ take k (map func_code (f # rest)))
               [1..<length (f # rest)])"
      using stacks1 by (simp add: comp_def)
    have deepest: "bc_received (hd (new1 @ [?entry])) = [PYJIT_RESULT_UNKNOWN_ERROR]"
      using deepest1 by (cases new1) simp_all
    from run calls funcs stacks deepest n show ?thesis
      by (intro exI [of _ "backend_result h f [r1]"] exI [of _ ?s'] exI [of _ "new1 @ [?entry]"])
        simp
  qed
qed

lemma CompileFunction_fuel_refuses:
  assumes "jit_ctx s \<noteq> None"
    and "PyJIT_IsCompiled s (PyFunction f) = 0" and "PyJIT_OnJitList h s f \<noteq> 0"
    and "length (active_compiles s) = kMaxCompileDepth \<or> func_code f \<in> set (active_compiles s)"
  shows "CompileFunction_fuel (Suc n) h f s =
           Some (PYJIT_RESULT_UNKNOWN_ERROR, CompilationTimer_destroy h f (steady_clock s) s)"
proof -
  from assms(2,3) have "CompileFunction_skips h s f = None"
    by (simp add: CompileFunction_skips_def)
  with assms(1,4) show ?thesis by (auto simp: Let_def)
qed

lemma compile_entry_queries:
  "PyJIT_IsCompiled (s\<lparr>jit_reg_functions := x, active_compiles := y\<rparr>) obj = PyJIT_IsCompiled s obj"
  "PyJIT_OnJitList h (s\<lparr>jit_reg_functions := x, active_compiles := y\<rparr>) f = PyJIT_OnJitList h s f"
  by (simp_all add: PyJIT_IsCompiled_def PyJIT_OnJitList_def cong: option.case_cong)

text \<open>
  Claim C3, amended. For a function that is uncompiled and eligible, with a non-nil context:
  (1) if the active-compile stack has depth 10 or holds the function's code object,
  \<open>_PyJIT_CompileFunction\<close> returns \<open>PYJIT_RESULT_UNKNOWN_ERROR\<close> and the back-end is not
  invoked (the history, the context and the stack are as before); (2) if the stack has depth
  below 10 and does not hold the code object, the call returns, the back-end is invoked for
  the function with the stack one deeper, its code object on top, after the invocations
  that its re-entrant calls caused, and the call returns what the back-end answers and leaves
  the stack as it found it. So the guard refuses exactly at depth 10 or on a code object
  that is being compiled. (3) A back-end entered as in (2) whose one re-entrant call is for
  a function with the same code object (uncompiled and eligible) receives
  \<open>PYJIT_RESULT_UNKNOWN_ERROR\<close> at that first re-entry, and nothing is invoked below it.
  (4) On an empty stack, for a chain of 11 functions with pairwise different code objects,
  all uncompiled and eligible, where the back-end compiling one re-enters for the next:
  one call for the first invokes the back-end 10 times, for the first 10 functions, the
  k-th with the first k code objects on the stack, and the invocation at depth 10, whose
  re-entrant call is the one at depth 11, receives \<open>PYJIT_RESULT_UNKNOWN_ERROR\<close>.
  (5) If the stack has no duplicates and depth at most 10, and had so whenever the back-end
  was entered before, then every call of \<open>_PyJIT_CompileFunction\<close> returns, and the stack
  had no duplicates and depth at most 10 whenever the back-end was entered during the call.
\<close>

theorem recursion_guard:
  "(jit_ctx s \<noteq> None \<and> PyJIT_IsCompiled s (PyFunction func) = 0 \<and>
    PyJIT_OnJitList h s func \<noteq> 0 \<and>
    (length (active_compiles s) = kMaxCompileDepth \<or> func_code func \<in> set (active_compiles s)) \<longrightarrow>
      (\<exists>s'. PyJIT_CompileFunction h func s = Some (PYJIT_RESULT_UNKNOWN_ERROR, s') \<and>
            backend_calls s' = backend_calls s \<and> jit_ctx s' = jit_ctx s \<and>
            active_compiles s' = active_compiles s)) \<and>
   (jit_ctx s \<noteq> None \<and> PyJIT_IsCompiled s (PyFunction func) = 0 \<and>
    PyJIT_OnJitList h s func \<noteq> 0 \<and>
    length (active_compiles s) < kMaxCompileDepth \<and> func_code func \<notin> set (active_compiles s) \<longrightarrow>
      (\<exists>result s' earlier received.
         PyJIT_CompileFunction h func s = Some (result, s') \<and>
         backend_calls s' = backend_calls s @ earlier @
           [\<lparr>bc_func = func, bc_stack = active_compiles s @ [func_code func],
             bc_received = received\<rparr>] \<and>
         result = backend_result h func received \<and>
         length received = length (backend_reenters h func) \<and>
         active_compiles s' = active_compiles s)) \<and>
   (jit_ctx s \<noteq> None \<and> PyJIT_IsCompiled s (PyFunction func) = 0 \<and>
    PyJIT_OnJitList h s func \<noteq> 0 \<and>
    length (active_compiles s) < kMaxCompileDepth \<and> func_code func \<notin> set (active_compiles s) \<and>
    backend_reenters h func = [g] \<and> func_code g = func_code func \<and>
    PyJIT_IsCompiled s (PyFunction g) = 0 \<and> PyJIT_OnJitList h s g \<noteq> 0 \<longrightarrow>
      (\<exists>s'. PyJIT_CompileFunction h func s =
               Some (backend_result h func [PYJIT_RESULT_UNKNOWN_ERROR], s') \<and>
            backend_calls s' = backend_calls s @
              [\<lparr>bc_func = func, bc_stack = active_compiles s @ [func_code func],
                bc_received = [PYJIT_RESULT_UNKNOWN_ERROR]\<rparr>])) \<and>
   (jit_ctx s \<noteq> None \<and> active_compiles s = [] \<and> length rest = kMaxCompileDepth \<and>
    distinct (map func_code (func # rest)) \<and>
    list_all (\<lambda>f. PyJIT_IsCompiled s (PyFunction f) = 0 \<and> PyJIT_OnJitList h s f \<noteq> 0)
      (func # rest) \<and>
    map (backend_reenters h) (butlast (func # rest)) = map (\<lambda>g. [g]) rest \<longrightarrow>
      (\<exists>result s' new.
         PyJIT_CompileFunction h func s = Some (result, s') \<and>
         backend_calls s' = backend_calls s @ new \<and>
         map bc_func new = rev (butlast (func # rest)) \<and>
         map bc_stack new =
           rev (map (\<lambda>k. take k (map func_code (func # rest))) [1..<Suc kMaxCompileDepth]) \<and>
         bc_received (hd new) = [PYJIT_RESULT_UNKNOWN_ERROR])) \<and>
   (stack_ok (active_compiles s) \<and> compile_inv stack_ok (active_compiles s) s \<longrightarrow>
      (\<exists>r s'. PyJIT_CompileFunction h func s = Some (r, s') \<and>
              compile_inv stack_ok (active_compiles s) s'))"
proof (intro conjI impI)
  assume a: "jit_ctx s \<noteq> None \<and> PyJIT_IsCompiled s (PyFunction func) = 0 \<and>
    PyJIT_OnJitList h s func \<noteq> 0 \<and>
    (length (active_compiles s) = kMaxCompileDepth \<or> func_code func \<in> set (active_compiles s))"
  then have
    "PyJIT_CompileFunction h func s =
       Some (PYJIT_RESULT_UNKNOWN_ERROR, CompilationTimer_destroy h func (steady_clock s) s)"
    unfolding PyJIT_CompileFunction_def
    by (intro CompileFunction_fuel_refuses) simp_all
  then show "\<exists>s'. PyJIT_CompileFunction h func s = Some (PYJIT_RESULT_UNKNOWN_ERROR, s') \<and>
            backend_calls s' = backend_calls s \<and> jit_ctx s' = jit_ctx s \<and>
            active_compiles s' = active_compiles s"
    by simp
next
  assume c: "jit_ctx s \<noteq> None \<and> PyJIT_IsCompiled s (PyFunction func) = 0 \<and>
    PyJIT_OnJitList h s func \<noteq> 0 \<and>
    length (active_compiles s) < kMaxCompileDepth \<and> func_code func \<notin> set (active_compiles s)"
  then have skips: "CompileFunction_skips h s func = None"
    by (simp add: CompileFunction_skips_def)
  from c have "length (active_compiles s) \<le> kMaxCompileDepth" by simp
  from PyJIT_CompileFunction_returns [OF this] obtain result s' where
    run: "PyJIT_CompileFunction h func s = Some (result, s')" by blast
  then have fuel: "CompileFunction_fuel (Suc kMaxCompileDepth) h func s = Some (result, s')"
    by (simp only: PyJIT_CompileFunction_def)
  from fuel have
    "\<exists>earlier received.
       backend_calls s' = backend_calls s @ earlier @
         [\<lparr>bc_func = func, bc_stack = active_compiles s @ [func_code func],
           bc_received = received\<rparr>] \<and>
       result = backend_result h func received \<and>
       length received = length (backend_reenters h func)"
  proof (cases rule: CompileFunction_fuel_cases)
    case not_initialized
    with c show ?thesis by simp
  next
    case skipped
    with skips show ?thesis by simp
  next
    case refused
    with c show ?thesis by auto
  next
    case (compiled s1)
    let ?s0 = "s\<lparr>jit_reg_functions := jit_reg_functions s - {func},
                 active_compiles := active_compiles s @ [func_code func]\<rparr>"
    have "\<exists>earlier received.
           backend_calls s1 = backend_calls ?s0 @ earlier @
             [\<lparr>bc_func = func, bc_stack = active_compiles ?s0, bc_received = received\<rparr>] \<and>
           result = backend_result h func received \<and>
           length received = length (backend_reenters h func)"
    proof (rule backend_grows [where compile = "CompileFunction_fuel kMaxCompileDepth h"])
      show "\<exists>new. backend_calls t' = backend_calls t @ new"
        if "CompileFunction_fuel kMaxCompileDepth h g t = Some (r, t')" for g t r t'
        using that by (rule CompileFunction_fuel_grows)
    qed (rule compiled(5))
    with compiled(6) show ?thesis by auto
  qed
  moreover from CompileFunction_fuel_stack [OF fuel]
  have "active_compiles s' = active_compiles s" .
  ultimately show "\<exists>result s' earlier received.
         PyJIT_CompileFunction h func s = Some (result, s') \<and>
         backend_calls s' = backend_calls s @ earlier @
           [\<lparr>bc_func = func, bc_stack = active_compiles s @ [func_code func],
             bc_received = received\<rparr>] \<and>
         result = backend_result h func received \<and>
         length received = length (backend_reenters h func) \<and>
         active_compiles s' = active_compiles s"
    using run by blast
next
  assume d: "jit_ctx s \<noteq> None \<and> PyJIT_IsCompiled s (PyFunction func) = 0 \<and>
    PyJIT_OnJitList h s func \<noteq> 0 \<and>
    length (active_compiles s) < kMaxCompileDepth \<and> func_code func \<notin> set (active_compiles s) \<and>
    backend_reenters h func = [g] \<and> func_code g = func_code func \<and>
    PyJIT_IsCompiled s (PyFunction g) = 0 \<and> PyJIT_OnJitList h s g \<noteq> 0"
  let ?s0 = "s\<lparr>jit_reg_functions := jit_reg_functions s - {func},
               active_compiles := active_compiles s @ [func_code func]\<rparr>"
  let ?t = "CompilationTimer_destroy h g (steady_clock ?s0) ?s0"
  let ?entry = "\<lparr>bc_func = func, bc_stack = active_compiles s @ [func_code func],
                 bc_received = [PYJIT_RESULT_UNKNOWN_ERROR]\<rparr>"
  from d have skips: "CompileFunction_skips h s func = None"
    by (simp add: CompileFunction_skips_def)
  have depth: "kMaxCompileDepth = Suc 9"
    by (simp add: kMaxCompileDepth_def)
  have "CompileFunction_fuel (Suc 9) h g ?s0 = Some (PYJIT_RESULT_UNKNOWN_ERROR, ?t)"
  proof (rule CompileFunction_fuel_refuses)
    show "jit_ctx ?s0 \<noteq> None" using d by simp
    show "PyJIT_IsCompiled ?s0 (PyFunction g) = 0"
      using d by (simp add: compile_entry_queries)
    show "PyJIT_OnJitList h ?s0 g \<noteq> 0"
      using d by (simp add: compile_entry_queries)
    show "length (active_compiles ?s0) = kMaxCompileDepth \<or>
          func_code g \<in> set (active_compiles ?s0)"
      using d by simp
  qed
  with depth have inner:
    "CompileFunction_fuel kMaxCompileDepth h g ?s0 = Some (PYJIT_RESULT_UNKNOWN_ERROR, ?t)"
    by simp
  with d obtain s2 where
    backend: "PyJITContext_CompileFunction (CompileFunction_fuel kMaxCompileDepth h) h func ?s0 =
                Some (backend_result h func [PYJIT_RESULT_UNKNOWN_ERROR], s2)" and
    calls: "backend_calls s2 = backend_calls s @ [?entry]"
    by (simp add: PyJITContext_CompileFunction_def Let_def)
  let ?s' = "CompilationTimer_destroy h func (steady_clock s)
               (s2\<lparr>active_compiles := butlast (active_compiles s2)\<rparr>)"
  from d skips backend have
    "PyJIT_CompileFunction h func s =
       Some (backend_result h func [PYJIT_RESULT_UNKNOWN_ERROR], ?s')"
    unfolding PyJIT_CompileFunction_def CompileFunction_fuel.simps
    by (auto simp: Let_def)
  moreover from calls have "backend_calls ?s' = backend_calls s @ [?entry]" by simp
  ultimately show "\<exists>s'. PyJIT_CompileFunction h func s =
               Some (backend_result h func [PYJIT_RESULT_UNKNOWN_ERROR], s') \<and>
            backend_calls s' = backend_calls s @
              [\<lparr>bc_func = func, bc_stack = active_compiles s @ [func_code func],
                bc_received = [PYJIT_RESULT_UNKNOWN_ERROR]\<rparr>]"
    by blast
next
  assume e: "jit_ctx s \<noteq> None \<and> active_compiles s = [] \<and> length rest = kMaxCompileDepth \<and>
    distinct (map func_code (func # rest)) \<and>
    list_all (\<lambda>f. PyJIT_IsCompiled s (PyFunction f) = 0 \<and> PyJIT_OnJitList h s f \<noteq> 0)
      (func # rest) \<and>
    map (backend_reenters h) (butlast (func # rest)) = map (\<lambda>g. [g]) rest"
  have "\<exists>r s' new. CompileFunction_fuel (Suc kMaxCompileDepth) h (hd (func # rest)) s =
             Some (r, s') \<and>
           backend_calls s' = backend_calls s @ new \<and>
           map bc_func new = rev (butlast (func # rest)) \<and>
           map bc_stack new =
             rev (map (\<lambda>k. active_compiles s @ take k (map func_code (func # rest)))
                    [1..<length (func # rest)]) \<and>
           (if new = [] then r = PYJIT_RESULT_UNKNOWN_ERROR
            else bc_received (hd new) = [PYJIT_RESULT_UNKNOWN_ERROR])"
  proof (rule compile_chain)
    show "jit_ctx s \<noteq> None" using e by simp
    show "length (active_compiles s) + length (func # rest) = Suc kMaxCompileDepth"
      using e by simp
    show "func # rest \<noteq> []" by simp
    show "distinct (active_compiles s @ map func_code (func # rest))"
      using e by simp
    show "\<forall>f \<in> set (func # rest).
            PyJIT_IsCompiled s (PyFunction f) = 0 \<and> PyJIT_OnJitList h s f \<noteq> 0"
      using e by (simp add: list_all_iff)
    show "\<forall>i. Suc i < length (func # rest) \<longrightarrow>
            backend_reenters h ((func # rest) ! i) = [(func # rest) ! Suc i]"
    proof (intro allI impI)
      fix i
      assume "Suc i < length (func # rest)"
      then have i: "i < length rest" by simp
      from e have "map (backend_reenters h) (butlast (func # rest)) ! i = map (\<lambda>g. [g]) rest ! i"
        by simp
      moreover from i have
        "map (backend_reenters h) (butlast (func # rest)) ! i =
           backend_reenters h (butlast (func # rest) ! i)"
        by (intro nth_map) auto
      moreover from i have "butlast (func # rest) ! i = (func # rest) ! i"
        by (intro nth_butlast) auto
      moreover from i have "map (\<lambda>g. [g]) rest ! i = [rest ! i]"
        by simp
      ultimately show "backend_reenters h ((func # rest) ! i) = [(func # rest) ! Suc i]"
        by simp
    qed
    show "length (func # rest) \<le> Suc kMaxCompileDepth" using e by simp
  qed
  then obtain r s' new where
    run: "CompileFunction_fuel (Suc kMaxCompileDepth) h func s = Some (r, s')" and
    calls: "backend_calls s' = backend_calls s @ new" and
    funcs: "map bc_func new = rev (butlast (func # rest))" and
    stacks: "map bc_stack new =
       rev (map (\<lambda>k. active_compiles s @ take k (map func_code (func # rest)))
              [1..<length (func # rest)])" and
    deepest: "if new = [] then r = PYJIT_RESULT_UNKNOWN_ERROR
              else bc_received (hd new) = [PYJIT_RESULT_UNKNOWN_ERROR]"
    by auto
  from e have "rest \<noteq> []" by (auto simp: kMaxCompileDepth_def)
  with funcs have "new \<noteq> []" by auto
  with deepest have received: "bc_received (hd new) = [PYJIT_RESULT_UNKNOWN_ERROR]" by simp
  from stacks e have stacks':
    "map bc_stack new =
       rev (map (\<lambda>k. take k (map func_code (func # rest))) [1..<Suc kMaxCompileDepth])"
    by simp
  from run calls funcs stacks' received
  show "\<exists>result s' new.
         PyJIT_CompileFunction h func s = Some (result, s') \<and>
         backend_calls s' = backend_calls s @ new \<and>
         map bc_func new = rev (butlast (func # rest)) \<and>
         map bc_stack new =
           rev (map (\<lambda>k. take k (map func_code (func # rest))) [1..<Suc kMaxCompileDepth]) \<and>
         bc_received (hd new) = [PYJIT_RESULT_UNKNOWN_ERROR]"
    unfolding PyJIT_CompileFunction_def by blast
next
  assume b: "stack_ok (active_compiles s) \<and> compile_inv stack_ok (active_compiles s) s"
  then have "length (active_compiles s) \<le> kMaxCompileDepth"
    by (simp add: stack_ok_def)
  from PyJIT_CompileFunction_returns [OF this] obtain r s' where
    run: "PyJIT_CompileFunction h func s = Some (r, s')" by blast
  then have "CompileFunction_fuel (Suc kMaxCompileDepth) h func s = Some (r, s')"
    by (simp only: PyJIT_CompileFunction_def)
  from CompileFunction_fuel_inv [where Q = stack_ok, OF stack_ok_push this] b
  have "compile_inv stack_ok (active_compiles s) s'" by blast
  with run show "\<exists>r s'. PyJIT_CompileFunction h func s = Some (r, s') \<and>
              compile_inv stack_ok (active_compiles s) s'"
    by blast
qed

lemma example_self_compiled_reached:
  "PyJIT_CompileFunction example_host_self (example_func 0) example_ready =
     Some (PYJIT_RESULT_OK, example_self_compiled)"
  by (simp add: CompileFunction_defs example_self_compiled_def example_host_self_def
      example_defs Let_def)

theorem recursion_guard_witness:
  "jit_ctx example_compiling \<noteq> None \<and>
   PyJIT_IsCompiled example_compiling (PyFunction (example_func 0)) = 0 \<and>
   PyJIT_OnJitList example_host_self example_compiling (example_func 0) \<noteq> 0 \<and>
   func_code (example_func 0) \<in> set (active_compiles example_compiling) \<and>
   (\<exists>s'. PyJIT_CompileFunction example_host_self (example_func 0) example_compiling =
           Some (PYJIT_RESULT_UNKNOWN_ERROR, s') \<and>
         backend_calls s' = backend_calls example_compiling \<and>
         jit_ctx s' = jit_ctx example_compiling \<and>
         active_compiles s' = active_compiles example_compiling) \<and>
   jit_ctx example_ready \<noteq> None \<and>
   PyJIT_IsCompiled example_ready (PyFunction (example_func 0)) = 0 \<and>
   PyJIT_OnJitList example_host_self example_ready (example_func 0) \<noteq> 0 \<and>
   length (active_compiles example_ready) < kMaxCompileDepth \<and>
   func_code (example_func 0) \<notin> set (active_compiles example_ready) \<and>
   backend_reenters example_host_self (example_func 0) = [example_func 0] \<and>
   stack_ok (active_compiles example_ready) \<and>
   compile_inv stack_ok (active_compiles example_ready) example_ready \<and>
   PyJIT_CompileFunction example_host_self (example_func 0) example_ready =
     Some (PYJIT_RESULT_OK, example_self_compiled) \<and>
   (\<exists>earlier received.
      backend_calls example_self_compiled = backend_calls example_ready @ earlier @
        [\<lparr>bc_func = example_func 0,
          bc_stack = active_compiles example_ready @ [func_code (example_func 0)],
          bc_received = received\<rparr>] \<and>
      PYJIT_RESULT_OK = backend_result example_host_self (example_func 0) received \<and>
      length received = length (backend_reenters example_host_self (example_func 0))) \<and>
   backend_calls example_self_compiled = backend_calls example_ready @
     [\<lparr>bc_func = example_func 0,
       bc_stack = active_compiles example_ready @ [func_code (example_func 0)],
       bc_received = [PYJIT_RESULT_UNKNOWN_ERROR]\<rparr>] \<and>
   compile_inv stack_ok (active_compiles example_ready) example_self_compiled \<and>
   active_compiles example_ready = [] \<and>
   length example_chain = kMaxCompileDepth \<and>
   distinct (map func_code (example_func 0 # example_chain)) \<and>
   list_all (\<lambda>f. PyJIT_IsCompiled example_ready (PyFunction f) = 0 \<and>
                 PyJIT_OnJitList example_host_chain example_ready f \<noteq> 0)
     (example_func 0 # example_chain) \<and>
   map (backend_reenters example_host_chain) (butlast (example_func 0 # example_chain)) =
     map (\<lambda>g. [g]) example_chain \<and>
   (\<exists>result s' new.
      PyJIT_CompileFunction example_host_chain (example_func 0) example_ready =
        Some (result, s') \<and>
      backend_calls s' = backend_calls example_ready @ new \<and>
      map bc_func new = rev (butlast (example_func 0 # example_chain)) \<and>
      map bc_stack new =
        rev (map (\<lambda>k. take k (map func_code (example_func 0 # example_chain)))
               [1..<Suc kMaxCompileDepth]) \<and>
      bc_received (hd new) = [PYJIT_RESULT_UNKNOWN_ERROR])"
proof -
  note on_stack = recursion_guard [where s = example_compiling and func = "example_func 0"
      and h = example_host_self and g = "example_func 0" and rest = "[]"]
  note self = recursion_guard [where s = example_ready and func = "example_func 0"
      and h = example_host_self and g = "example_func 0" and rest = "[]"]
  note chain = recursion_guard [where s = example_ready and func = "example_func 0"
      and h = example_host_chain and g = "example_func 0" and rest = example_chain]
  have ctx: "jit_ctx example_compiling \<noteq> None"
    by (simp add: example_compiling_def example_defs)
  have uncompiled: "PyJIT_IsCompiled example_compiling (PyFunction (example_func 0)) = 0"
    by (simp add: PyJIT_IsCompiled_def PyJITContext_DidCompile_def example_compiling_def
        example_defs)
  have eligible: "PyJIT_OnJitList example_host_self example_compiling (example_func 0) \<noteq> 0"
    by (simp add: PyJIT_OnJitList_def example_compiling_def example_defs Let_def)
  have active: "func_code (example_func 0) \<in> set (active_compiles example_compiling)"
    by (simp add: example_compiling_def)
  have refused:
    "\<exists>s'. PyJIT_CompileFunction example_host_self (example_func 0) example_compiling =
           Some (PYJIT_RESULT_UNKNOWN_ERROR, s') \<and>
         backend_calls s' = backend_calls example_compiling \<and>
         jit_ctx s' = jit_ctx example_compiling \<and>
         active_compiles s' = active_compiles example_compiling"
    using ctx uncompiled eligible active
    by (intro on_stack [THEN conjunct1, THEN mp]) simp
  have ctx': "jit_ctx example_ready \<noteq> None"
    by (simp add: example_defs)
  have uncompiled': "PyJIT_IsCompiled example_ready (PyFunction (example_func 0)) = 0"
    by (simp add: PyJIT_IsCompiled_def PyJITContext_DidCompile_def example_defs)
  have eligible': "PyJIT_OnJitList example_host_self example_ready (example_func 0) \<noteq> 0"
    by (simp add: PyJIT_OnJitList_def example_defs Let_def)
  have empty: "active_compiles example_ready = []"
    by (simp add: example_defs)
  have short: "length (active_compiles example_ready) < kMaxCompileDepth"
    by (simp add: empty kMaxCompileDepth_def)
  have fresh: "func_code (example_func 0) \<notin> set (active_compiles example_ready)"
    by (simp add: empty)
  have reenters: "backend_reenters example_host_self (example_func 0) = [example_func 0]"
    by (simp add: example_host_self_def)
  have ok: "stack_ok (active_compiles example_ready)"
    by (simp add: stack_ok_def example_defs)
  have inv: "compile_inv stack_ok (active_compiles example_ready) example_ready"
    by (simp add: compile_inv_def example_defs)
  note reached = example_self_compiled_reached
  have "\<exists>result s' earlier received.
         PyJIT_CompileFunction example_host_self (example_func 0) example_ready =
           Some (result, s') \<and>
         backend_calls s' = backend_calls example_ready @ earlier @
           [\<lparr>bc_func = example_func 0,
             bc_stack = active_compiles example_ready @ [func_code (example_func 0)],
             bc_received = received\<rparr>] \<and>
         result = backend_result example_host_self (example_func 0) received \<and>
         length received = length (backend_reenters example_host_self (example_func 0)) \<and>
         active_compiles s' = active_compiles example_ready"
    using ctx' uncompiled' eligible' short fresh
    by (intro self [THEN conjunct2, THEN conjunct1, THEN mp]) simp
  with reached have entered:
    "\<exists>earlier received.
      backend_calls example_self_compiled = backend_calls example_ready @ earlier @
        [\<lparr>bc_func = example_func 0,
          bc_stack = active_compiles example_ready @ [func_code (example_func 0)],
          bc_received = received\<rparr>] \<and>
      PYJIT_RESULT_OK = backend_result example_host_self (example_func 0) received \<and>
      length received = length (backend_reenters example_host_self (example_func 0))"
    by auto
  have "\<exists>s'. PyJIT_CompileFunction example_host_self (example_func 0) example_ready =
               Some (backend_result example_host_self (example_func 0)
                       [PYJIT_RESULT_UNKNOWN_ERROR], s') \<and>
            backend_calls s' = backend_calls example_ready @
              [\<lparr>bc_func = example_func 0,
                bc_stack = active_compiles example_ready @ [func_code (example_func 0)],
                bc_received = [PYJIT_RESULT_UNKNOWN_ERROR]\<rparr>]"
    using ctx' uncompiled' eligible' short fresh reenters
    by (intro self [THEN conjunct2, THEN conjunct2, THEN conjunct1, THEN mp]) simp
  with reached have same_code:
    "backend_calls example_self_compiled = backend_calls example_ready @
       [\<lparr>bc_func = example_func 0,
         bc_stack = active_compiles example_ready @ [func_code (example_func 0)],
         bc_received = [PYJIT_RESULT_UNKNOWN_ERROR]\<rparr>]"
    by auto
  have "\<exists>r s'. PyJIT_CompileFunction example_host_self (example_func 0) example_ready =
                Some (r, s') \<and>
              compile_inv stack_ok (active_compiles example_ready) s'"
    using ok inv
    by (intro self [THEN conjunct2, THEN conjunct2, THEN conjunct2, THEN conjunct2, THEN mp])
      simp
  with reached have inv':
    "compile_inv stack_ok (active_compiles example_ready) example_self_compiled"
    by auto
  have links: "length example_chain = kMaxCompileDepth"
    by (simp add: example_chain_def kMaxCompileDepth_def)
  have codes: "distinct (map func_code (example_func 0 # example_chain))"
    by (simp add: example_chain_def example_func_def)
  have all_fresh:
    "list_all (\<lambda>f. PyJIT_IsCompiled example_ready (PyFunction f) = 0 \<and>
                  PyJIT_OnJitList example_host_chain example_ready f \<noteq> 0)
       (example_func 0 # example_chain)"
    by (simp add: example_chain_def PyJIT_IsCompiled_def PyJITContext_DidCompile_def
        PyJIT_OnJitList_def example_host_chain_def example_defs Let_def)
  have next_one:
    "map (backend_reenters example_host_chain) (butlast (example_func 0 # example_chain)) =
       map (\<lambda>g. [g]) example_chain"
    by (simp add: example_chain_def example_host_chain_def example_defs)
  have at_eleven:
    "\<exists>result s' new.
      PyJIT_CompileFunction example_host_chain (example_func 0) example_ready =
        Some (result, s') \<and>
      backend_calls s' = backend_calls example_ready @ new \<and>
      map bc_func new = rev (butlast (example_func 0 # example_chain)) \<and>
      map bc_stack new =
        rev (map (\<lambda>k. take k (map func_code (example_func 0 # example_chain)))
               [1..<Suc kMaxCompileDepth]) \<and>
      bc_received (hd new) = [PYJIT_RESULT_UNKNOWN_ERROR]"
  proof (rule chain [THEN conjunct2, THEN conjunct2, THEN conjunct2, THEN conjunct1, THEN mp])
    from ctx' empty links codes all_fresh next_one
    show "jit_ctx example_ready \<noteq> None \<and> active_compiles example_ready = [] \<and>
      length example_chain = kMaxCompileDepth \<and>
      distinct (map func_code (example_func 0 # example_chain)) \<and>
      list_all (\<lambda>f. PyJIT_IsCompiled example_ready (PyFunction f) = 0 \<and>
                    PyJIT_OnJitList example_host_chain example_ready f \<noteq> 0)
        (example_func 0 # example_chain) \<and>
      map (backend_reenters example_host_chain) (butlast (example_func 0 # example_chain)) =
        map (\<lambda>g. [g]) example_chain"
      by (intro conjI)
  qed
  from ctx uncompiled eligible active refused ctx' uncompiled' eligible' short fresh reenters
    ok inv reached entered same_code inv' empty links codes all_fresh next_one at_eleven
  show ?thesis by (intro conjI)
qed

text \<open>
  The claim as stated has the back-end that re-enters with the same code receive the error
  at depth 11. It receives it at depth 2: the history shows one invocation of the back-end,
  entered with one code object on the stack, and the error as the answer to its call.
\<close>

theorem same_code_refused_at_depth_two:
  "PyJIT_CompileFunction example_host_self (example_func 0) example_ready =
     Some (PYJIT_RESULT_OK, example_self_compiled) \<and>
   backend_calls example_self_compiled =
     [\<lparr>bc_func = example_func 0, bc_stack = [func_code (example_func 0)],
       bc_received = [PYJIT_RESULT_UNKNOWN_ERROR]\<rparr>] \<and>
   Suc (length [func_code (example_func 0)]) \<noteq> 11"
  using example_self_compiled_reached
  by (simp add: example_self_compiled_def)



text \<open>
  The depth of the stack at each invocation of the back-end and what the invocation received,
  for one call on a chain of functions with different code objects (innermost first).
\<close>

lemma distinct_codes_refused_at_depth_eleven:
  "depths_and_results (PyJIT_CompileFunction example_host_chain (example_func 0) example_ready) =
     [(10, [PYJIT_RESULT_UNKNOWN_ERROR]), (9, [PYJIT_RESULT_OK]), (8, [PYJIT_RESULT_OK]),
      (7, [PYJIT_RESULT_OK]), (6, [PYJIT_RESULT_OK]), (5, [PYJIT_RESULT_OK]),
      (4, [PYJIT_RESULT_OK]), (3, [PYJIT_RESULT_OK]), (2, [PYJIT_RESULT_OK]),
      (1, [PYJIT_RESULT_OK])]"
  by code_simp

subsection \<open>Finalization\<close>

text \<open>
  Claim C2, amended. Whenever \<open>_PyJIT_Finalize\<close> returns, it returns 0, \<open>_PyJIT_IsEnabled\<close>
  is false afterwards, and \<open>get_compilation_time\<close> and \<open>get_function_compilation_time\<close>
  return what they returned before: the timers are not reset. When the controller was
  Initialized, afterwards \<open>get_jit_list\<close> returns None, \<open>get_compiled_size\<close>,
  \<open>get_compiled_stack_size\<close> and \<open>get_compiled_spill_stack_size\<close> return 0,
  \<open>is_jit_compiled\<close> returns False, and \<open>get_compiled_functions\<close> is what the back-end
  answers for a nil context. On an Initialized controller with a context the call returns.
\<close>

theorem after_Finalize:
  "(PyJIT_Finalize s = Inr (rc, s') \<longrightarrow>
      rc = 0 \<and> PyJIT_IsEnabled s' = 0 \<and>
      get_compilation_time h s' = get_compilation_time h s \<and>
      get_function_compilation_time h s' f = get_function_compilation_time h s f) \<and>
   (init_state (jit_config s) = JIT_INITIALIZED \<and> PyJIT_Finalize s = Inr (rc, s') \<longrightarrow>
      get_jit_list s' = Py_None \<and>
      get_compiled_size h s' func = PyLong 0 \<and>
      get_compiled_stack_size h s' func = PyLong 0 \<and>
      get_compiled_spill_stack_size h s' func = PyLong 0 \<and>
      is_jit_compiled s' func = Some Py_False \<and>
      get_compiled_functions h s' = PyJITContext_GetCompiledFunctions h None) \<and>
   (init_state (jit_config s) = JIT_INITIALIZED \<and> jit_ctx s \<noteq> None \<longrightarrow>
      PyJIT_Finalize s =
        Inr (0, s\<lparr>g_jit_list := None,
                  jit_config := (jit_config s)\<lparr>init_state := JIT_FINALIZED\<rparr>,
                  jit_ctx := None\<rparr>))"
  by (auto simp: PyJIT_Finalize_def PyJIT_IsEnabled_def get_compilation_time_def
      get_function_compilation_time_def get_jit_list_def get_compiled_size_def
      get_compiled_stack_size_def get_compiled_spill_stack_size_def is_jit_compiled_def
      PyJIT_IsCompiled_def get_compiled_functions_def Let_def split: if_splits)

lemma example_finalized_reached:
  "PyJIT_Finalize example_compiled = Inr (0, example_finalized)"
  by (simp add: PyJIT_Finalize_def example_finalized_def example_compiled_def example_defs Let_def)

theorem after_Finalize_witness:
  "init_state (jit_config example_compiled) = JIT_INITIALIZED \<and>
   jit_ctx example_compiled \<noteq> None \<and>
   PyJIT_Finalize example_compiled = Inr (0, example_finalized) \<and>
   PyJIT_IsEnabled example_finalized = 0 \<and>
   get_jit_list example_finalized = Py_None \<and>
   get_compiled_size example_host example_finalized (PyFunction (example_func 1)) = PyLong 0 \<and>
   is_jit_compiled example_finalized (PyFunction (example_func 1)) = Some Py_False \<and>
   get_compilation_time example_host example_finalized =
     get_compilation_time example_host example_compiled"
proof -
  have initialized: "init_state (jit_config example_compiled) = JIT_INITIALIZED"
    by (simp add: example_compiled_def example_defs)
  have ctx: "jit_ctx example_compiled \<noteq> None"
    by (simp add: example_compiled_def)
  from after_Finalize [where s = example_compiled and rc = 0 and s' = example_finalized
      and f = "example_func 1" and func = "PyFunction (example_func 1)" and h = example_host]
    initialized ctx example_finalized_reached
  show ?thesis by simp
qed

text \<open>
  The claim as stated fails for the two timing queries: after a compile that took two
  seconds and a \<open>_PyJIT_Finalize\<close>, both still answer 2000 milliseconds.
\<close>

theorem timers_survive_Finalize:
  "PyJIT_Finalize example_compiled = Inr (0, example_finalized) \<and>
   get_compilation_time example_host example_finalized = PyLong 2000 \<and>
   get_function_compilation_time example_host example_finalized (example_func 1) = PyLong 2000"
  using example_finalized_reached
  by (simp add: get_compilation_time_def get_function_compilation_time_def double_to_long_def
      example_finalized_def example_compiled_def example_host_def)

subsection \<open>A failed initialization\<close>

lemma Initialize_commit_initialized:
  "Initialize_commit h jit_list s = Inr (rc, s') \<Longrightarrow>
   rc = 0 \<and> init_state (jit_config s') = JIT_INITIALIZED"
  by (auto simp: Initialize_commit_def Let_def split: if_splits)

lemma Initialize_context_cases:
  assumes "Initialize_context h jit_list s = Inr (rc, s')"
  shows "(rc = 0 \<and> init_state (jit_config s') = JIT_INITIALIZED) \<or>
         (rc = - 1 \<and> (\<exists>c. s' = s\<lparr>jit_ctx := c\<rparr>))"
proof (cases "PyJITContext_Init h = - 1")
  case True
  with assms have "rc = - 1" "s' = s\<lparr>jit_ctx := jit_ctx s\<rparr>"
    by (simp_all add: Initialize_context_def)
  then show ?thesis by blast
next
  case False
  let ?s1 = "s\<lparr>jit_ctx := (if PyJITContext_New_ok h
                              then Some \<lparr>compiled_records = Map.empty\<rparr> else None)\<rparr>"
  show ?thesis
  proof (cases "Initialize_context h jit_list s = Initialize_commit h jit_list ?s1")
    case True
    with assms Initialize_commit_initialized [of h jit_list ?s1 rc s']
    show ?thesis by simp
  next
    case False
    with assms \<open>PyJITContext_Init h \<noteq> - 1\<close> have "rc = - 1" "s' = ?s1"
      by (auto simp: Initialize_context_def Let_def split: if_splits)
    then show ?thesis by blast
  qed
qed

lemma Initialize_list_flags_keeps [simp]:
  "init_state (Initialize_list_flags h c) = init_state c"
  "is_enabled (Initialize_list_flags h c) = is_enabled c"
  "frame_mode (Initialize_list_flags h c) = frame_mode c"
  "are_type_slots_enabled (Initialize_list_flags h c) = are_type_slots_enabled c"
  "batch_compile_workers (Initialize_list_flags h c) = batch_compile_workers c"
  "test_multithreaded_compile (Initialize_list_flags h c) = test_multithreaded_compile c"
  by (simp_all add: Initialize_list_flags_def Let_def)

lemma Initialize_cases:
  assumes "init_state (jit_config s) \<noteq> JIT_INITIALIZED"
    and "PyJIT_Initialize h s = Inr (rc, s')"
  shows "(rc = 0 \<and> init_state (jit_config s') = JIT_INITIALIZED) \<or>
         ((rc = 0 \<or> rc = - 1) \<and>
          (\<exists>c. s' = s\<lparr>log_globals := Initialize_debug_flags h (Initialize_log_file h (log_globals s)),
                       jit_config := Initialize_list_flags h (jit_config s),
                       jit_ctx := c\<rparr>))"
proof -
  let ?s1 = "s\<lparr>log_globals := Initialize_debug_flags h (Initialize_log_file h (log_globals s)),
               jit_config := Initialize_list_flags h (jit_config s)\<rparr>"
  let ?use = "if is_flag_set h ''jit'' ''PYTHONJIT'' \<noteq> 0 then 1 else 0 :: int"
  have keep: "?s1 = ?s1\<lparr>jit_ctx := jit_ctx s\<rparr>" by simp
  show ?thesis
  proof (cases "Initialize_jit_list h (jit_config ?s1) ?use")
    case (Inl early)
    then have "early = 0 \<or> early = - 1"
      by (auto simp: Initialize_jit_list_def split: option.splits)
    moreover from assms Inl have "rc = early" "s' = ?s1"
      by (simp_all add: PyJIT_Initialize_def Let_def)
    moreover from this keep have "\<exists>c. s' = ?s1\<lparr>jit_ctx := c\<rparr>"
      by (intro exI [of _ "jit_ctx s"]) simp
    ultimately show ?thesis by simp
  next
    case (Inr p)
    obtain use_jit jit_list where p: "p = (use_jit, jit_list)" by (cases p)
    show ?thesis
    proof (cases "use_jit \<noteq> 0")
      case True
      with assms Inr p have "Initialize_context h jit_list ?s1 = Inr (rc, s')"
        by (simp add: PyJIT_Initialize_def Let_def)
      from Initialize_context_cases [OF this] show ?thesis by auto
    next
      case False
      with assms Inr p have "rc = 0" "s' = ?s1"
        by (simp_all add: PyJIT_Initialize_def Let_def)
      moreover from this keep have "\<exists>c. s' = ?s1\<lparr>jit_ctx := c\<rparr>"
        by (intro exI [of _ "jit_ctx s"]) simp
      ultimately show ?thesis by simp
    qed
  qed
qed

text \<open>
  Claim C1, amended. If \<open>_PyJIT_Initialize\<close>, called on a controller that is not Initialized,
  returns -1, or returns without making the controller Initialized, then the lifecycle state,
  the enabled flag, the frame mode, the type-slot flag, the worker count, the test flag, the
  JIT list, the registration set, the test list, the timers and the active-compile stack are
  as before, and \<open>_PyJIT_IsEnabled\<close> is false. The two list flags of lines 625-633 and the
  logging globals keep what the call wrote to them before it failed. (Nothing is said here
  about \<open>jit_ctx\<close>.)
\<close>

theorem failed_Initialize_keeps:
  assumes "init_state (jit_config s) \<noteq> JIT_INITIALIZED"
    and "PyJIT_Initialize h s = Inr (rc, s')"
    and "rc = - 1 \<or> init_state (jit_config s') \<noteq> JIT_INITIALIZED"
  shows "init_state (jit_config s') = init_state (jit_config s) \<and>
         is_enabled (jit_config s') = is_enabled (jit_config s) \<and>
         frame_mode (jit_config s') = frame_mode (jit_config s) \<and>
         are_type_slots_enabled (jit_config s') = are_type_slots_enabled (jit_config s) \<and>
         batch_compile_workers (jit_config s') = batch_compile_workers (jit_config s) \<and>
         test_multithreaded_compile (jit_config s') = test_multithreaded_compile (jit_config s) \<and>
         g_jit_list s' = g_jit_list s \<and>
         jit_reg_functions s' = jit_reg_functions s \<and>
         test_multithreaded_funcs s' = test_multithreaded_funcs s \<and>
         jit_time_functions s' = jit_time_functions s \<and>
         total_compliation_time s' = total_compliation_time s \<and>
         active_compiles s' = active_compiles s \<and>
         PyJIT_IsEnabled s' = 0 \<and>
         jit_config s' = Initialize_list_flags h (jit_config s) \<and>
         log_globals s' = Initialize_debug_flags h (Initialize_log_file h (log_globals s))"
proof -
  from Initialize_cases [OF assms(1,2)] assms(3) obtain c where
    "s' = s\<lparr>log_globals := Initialize_debug_flags h (Initialize_log_file h (log_globals s)),
            jit_config := Initialize_list_flags h (jit_config s),
            jit_ctx := c\<rparr>"
    by auto
  with assms(1) show ?thesis
    by (simp add: PyJIT_IsEnabled_def)
qed


lemma example_half_initialized_reached:
  "PyJIT_Initialize example_host_module_fails jit_state_at_start =
     Inr (- 1, example_half_initialized)"
  by (simp add: Initialize_defs example_host_module_fails_def example_half_initialized_def
      example_defs Let_def)

theorem failed_Initialize_keeps_witness:
  "init_state (jit_config jit_state_at_start) \<noteq> JIT_INITIALIZED \<and>
   PyJIT_Initialize example_host_module_fails jit_state_at_start =
     Inr (- 1, example_half_initialized) \<and>
   init_state (jit_config example_half_initialized) = JIT_NOT_INITIALIZED \<and>
   is_enabled (jit_config example_half_initialized) = 0 \<and>
   g_jit_list example_half_initialized = None \<and>
   jit_reg_functions example_half_initialized = {} \<and>
   PyJIT_IsEnabled example_half_initialized = 0"
proof -
  have fresh: "init_state (jit_config jit_state_at_start) \<noteq> JIT_INITIALIZED"
    by (simp add: example_defs)
  from failed_Initialize_keeps [OF fresh example_half_initialized_reached] fresh
    example_half_initialized_reached
  show ?thesis by (simp add: example_defs)
qed

text \<open>
  The claim as stated fails: when \<open>PyModule_Create\<close> fails the call returns -1 and the
  controller stays Uninitialized, but the flag \<open>compile_all_static_functions\<close> and the
  context stored at line 666 remain, and a later \<open>_PyJIT_CompileFunction\<close> compiles the
  function where it answered \<open>PYJIT_NOT_INITIALIZED\<close> before.
\<close>

theorem failed_Initialize_leaves_context:
  "PyJIT_Initialize example_host_module_fails jit_state_at_start =
     Inr (- 1, example_half_initialized) \<and>
   init_state (jit_config example_half_initialized) = JIT_NOT_INITIALIZED \<and>
   compile_all_static_functions (jit_config jit_state_at_start) = 0 \<and>
   compile_all_static_functions (jit_config example_half_initialized) = 1 \<and>
   jit_ctx jit_state_at_start = None \<and>
   jit_ctx example_half_initialized \<noteq> None \<and>
   PyJIT_CompileFunction example_host_module_fails (example_func 1) jit_state_at_start =
     Some (PYJIT_NOT_INITIALIZED, jit_state_at_start) \<and>
   PyJIT_CompileFunction example_host_module_fails (example_func 1) example_half_initialized =
     Some (PYJIT_RESULT_OK, example_half_initialized_compiled)"
  using example_half_initialized_reached
  by (simp add: CompileFunction_defs example_half_initialized_compiled_def
      example_half_initialized_def example_host_module_fails_def example_defs Let_def)

subsection \<open>Every operation returns and keeps the configuration\<close>


lemma PyJIT_CompileFunction_keeps:
  assumes "PyJIT_CompileFunction h f s = Some (r, s')"
  shows "jit_config s' = jit_config s \<and> active_compiles s' = active_compiles s"
  using assms CompileFunction_fuel_config CompileFunction_fuel_stack
  unfolding PyJIT_CompileFunction_def by blast

lemma backend_direct_keeps:
  assumes "PyJITContext_CompileFunction (PyJIT_CompileFunction h) h f s = Some (r, s')"
  shows "jit_config s' = jit_config s \<and> active_compiles s' = active_compiles s"
proof (rule backend_frame [where P = "\<lambda>t. jit_config t = jit_config s \<and>
      active_compiles t = active_compiles s" and compile = "PyJIT_CompileFunction h"])
  show "jit_config t' = jit_config s \<and> active_compiles t' = active_compiles s"
    if "PyJIT_CompileFunction h g t = Some (r, t')"
      "jit_config t = jit_config s \<and> active_compiles t = active_compiles s" for g t r t'
    using PyJIT_CompileFunction_keeps [OF that(1)] that(2) by simp
  show "PyJITContext_CompileFunction (PyJIT_CompileFunction h) h f s = Some (r, s')"
    by (rule assms)
qed simp_all

lemma backend_direct_returns:
  assumes "length (active_compiles s) \<le> kMaxCompileDepth"
  shows "\<exists>r s'. PyJITContext_CompileFunction (PyJIT_CompileFunction h) h f s = Some (r, s')"
proof (rule backend_returns [where st = "active_compiles s"])
  show "\<exists>r s'. PyJIT_CompileFunction h g t = Some (r, s') \<and> active_compiles s' = active_compiles s"
    if "active_compiles t = active_compiles s" for g t
  proof -
    from that assms have "length (active_compiles t) \<le> kMaxCompileDepth" by simp
    from PyJIT_CompileFunction_returns [OF this] obtain r s' where
      run: "PyJIT_CompileFunction h g t = Some (r, s')" by blast
    with PyJIT_CompileFunction_keeps [OF run] that show ?thesis by simp
  qed
qed simp

lemma compile_worker_step_keeps:
  assumes "compile_worker_step h f s = Some s'"
  shows "jit_config s' = jit_config s \<and> active_compiles s' = active_compiles s"
proof (cases "worker_skips h s f")
  case True
  with assms show ?thesis by (auto simp: compile_worker_step_def Let_def)
next
  case False
  let ?s1 = "s\<lparr>g_compile_workers_attempted := g_compile_workers_attempted s + 1\<rparr>"
  from assms False obtain r s2 where
    run: "PyJITContext_CompileFunction (PyJIT_CompileFunction h) h f ?s1 = Some (r, s2)"
    and s': "jit_config s' = jit_config s2 \<and> active_compiles s' = active_compiles s2"
    by (auto simp: compile_worker_step_def Let_def split: option.splits if_splits)
  from backend_direct_keeps [OF run] s' show ?thesis by simp
qed

lemma compile_worker_step_returns:
  assumes "length (active_compiles s) \<le> kMaxCompileDepth"
  shows "\<exists>s'. compile_worker_step h f s = Some s'"
proof (cases "worker_skips h s f")
  case True
  then show ?thesis by (simp add: compile_worker_step_def Let_def)
next
  case False
  let ?s1 = "s\<lparr>g_compile_workers_attempted := g_compile_workers_attempted s + 1\<rparr>"
  from assms have "length (active_compiles ?s1) \<le> kMaxCompileDepth" by simp
  from backend_direct_returns [OF this, of h f] obtain r s2 where
    "PyJITContext_CompileFunction (PyJIT_CompileFunction h) h f ?s1 = Some (r, s2)" by blast
  with False show ?thesis by (simp add: compile_worker_step_def Let_def)
qed

lemma compile_worker_loop_keeps:
  "compile_worker_loop h fs s = Some s' \<Longrightarrow>
   jit_config s' = jit_config s \<and> active_compiles s' = active_compiles s"
proof (induction fs arbitrary: s)
  case Nil
  then show ?case by simp
next
  case (Cons f fs)
  let ?s0 = "s\<lparr>g_threaded_compile_context := snd (nextFunction (g_threaded_compile_context s))\<rparr>"
  from Cons.prems obtain s1 where
    step: "compile_worker_step h f ?s0 = Some s1" and rest: "compile_worker_loop h fs s1 = Some s'"
    by (auto split: option.splits)
  from compile_worker_step_keeps [OF step] Cons.IH [OF rest] show ?case by simp
qed

lemma compile_worker_loop_returns:
  "length (active_compiles s) \<le> kMaxCompileDepth \<Longrightarrow> \<exists>s'. compile_worker_loop h fs s = Some s'"
proof (induction fs arbitrary: s)
  case Nil
  then show ?case by simp
next
  case (Cons f fs)
  let ?s0 = "s\<lparr>g_threaded_compile_context := snd (nextFunction (g_threaded_compile_context s))\<rparr>"
  from Cons.prems have "length (active_compiles ?s0) \<le> kMaxCompileDepth" by simp
  from compile_worker_step_returns [OF this, of h f] obtain s1 where
    step: "compile_worker_step h f ?s0 = Some s1" by blast
  from compile_worker_step_keeps [OF step] Cons.prems
  have "length (active_compiles s1) \<le> kMaxCompileDepth" by simp
  from Cons.IH [OF this] step show ?case by simp
qed

lemma run_workers_keeps:
  "run_workers n h s = Some s' \<Longrightarrow>
   jit_config s' = jit_config s \<and> active_compiles s' = active_compiles s"
proof (induction n arbitrary: s)
  case 0
  then show ?case by simp
next
  case (Suc n)
  from Suc.prems obtain s1 where
    w: "compile_worker_thread h s = Some s1" and rest: "run_workers n h s1 = Some s'"
    by (auto split: option.splits)
  from w compile_worker_loop_keeps [of h _ s s1] Suc.IH [OF rest] show ?case
    by (simp add: compile_worker_thread_def)
qed

lemma run_workers_returns:
  "length (active_compiles s) \<le> kMaxCompileDepth \<Longrightarrow> \<exists>s'. run_workers n h s = Some s'"
proof (induction n arbitrary: s)
  case 0
  then show ?case by simp
next
  case (Suc n)
  from compile_worker_loop_returns [OF Suc.prems] obtain s1 where
    w: "compile_worker_thread h s = Some s1"
    unfolding compile_worker_thread_def by blast
  with compile_worker_loop_keeps [of h _ s s1] Suc.prems
  have "length (active_compiles s1) \<le> kMaxCompileDepth"
    by (simp add: compile_worker_thread_def)
  from Suc.IH [OF this] w show ?case by simp
qed

lemma compile_each_keeps:
  "compile_each h fs s = Some s' \<Longrightarrow>
   jit_config s' = jit_config s \<and> active_compiles s' = active_compiles s"
proof (induction fs arbitrary: s)
  case Nil
  then show ?case by simp
next
  case (Cons f fs)
  from Cons.prems obtain r s1 where
    c: "PyJIT_CompileFunction h f s = Some (r, s1)" and rest: "compile_each h fs s1 = Some s'"
    by (auto split: option.splits)
  from PyJIT_CompileFunction_keeps [OF c] Cons.IH [OF rest] show ?case by simp
qed

lemma compile_each_returns:
  "length (active_compiles s) \<le> kMaxCompileDepth \<Longrightarrow> \<exists>s'. compile_each h fs s = Some s'"
proof (induction fs arbitrary: s)
  case Nil
  then show ?case by simp
next
  case (Cons f fs)
  from PyJIT_CompileFunction_returns [OF Cons.prems] obtain r s1 where
    c: "PyJIT_CompileFunction h f s = Some (r, s1)" by blast
  from PyJIT_CompileFunction_keeps [OF c] Cons.prems
  have "length (active_compiles s1) \<le> kMaxCompileDepth" by simp
  from Cons.IH [OF this] c show ?case by simp
qed

lemma multithread_compile_all_keeps:
  assumes "multithread_compile_all h s = Some (Inr s')"
  shows "jit_config s' = jit_config s \<and> active_compiles s' = active_compiles s"
proof -
  let ?s3 = "s\<lparr>PyGILState_check_enabled := 0,
               g_threaded_compile_context :=
                 startCompile (iteration_order h (jit_reg_functions s))
                   (g_threaded_compile_context s),
               jit_reg_functions := {}\<rparr>"
  from assms obtain s4 s5 where
    w: "run_workers (unat (batch_compile_workers (jit_config s))) h ?s3 = Some s4"
    and e: "compile_each h (fst (endCompile (g_threaded_compile_context s4)))
              (s4\<lparr>g_threaded_compile_context := snd (endCompile (g_threaded_compile_context s4))\<rparr>)
            = Some s5"
    and s': "s' = s5\<lparr>PyGILState_check_enabled := PyGILState_check_enabled s\<rparr>"
    by (auto simp: multithread_compile_all_def Let_def split: if_splits option.splits prod.splits)
  from run_workers_keeps [OF w] compile_each_keeps [OF e] s' show ?thesis by simp
qed

lemma multithread_compile_all_returns:
  assumes "length (active_compiles s) \<le> kMaxCompileDepth"
  shows "\<exists>out. multithread_compile_all h s = Some out"
proof -
  let ?s3 = "s\<lparr>PyGILState_check_enabled := 0,
               g_threaded_compile_context :=
                 startCompile (iteration_order h (jit_reg_functions s))
                   (g_threaded_compile_context s),
               jit_reg_functions := {}\<rparr>"
  from assms have "length (active_compiles ?s3) \<le> kMaxCompileDepth" by simp
  from run_workers_returns [OF this] obtain s4 where
    w: "run_workers (unat (batch_compile_workers (jit_config s))) h ?s3 = Some s4" by blast
  let ?s4 = "s4\<lparr>g_threaded_compile_context := snd (endCompile (g_threaded_compile_context s4))\<rparr>"
  from run_workers_keeps [OF w] assms have "length (active_compiles ?s4) \<le> kMaxCompileDepth"
    by simp
  from compile_each_returns [OF this] obtain s5 where
    "compile_each h (fst (endCompile (g_threaded_compile_context s4))) ?s4 = Some s5" by blast
  with w show ?thesis
    by (auto simp: multithread_compile_all_def Let_def split: prod.splits)
qed


lemma test_multithreaded_compile_method_keeps:
  assumes "test_multithreaded_compile_method h s = Some (Inr (res, s'))"
  shows "jit_config s' = jit_config s \<and> active_compiles s' = active_compiles s"
proof (cases "test_multithreaded_compile (jit_config s) = 0")
  case True
  with assms show ?thesis by (simp add: test_multithreaded_compile_method_def)
next
  case False
  let ?s2 = "s\<lparr>jit_reg_functions := set (test_multithreaded_funcs s),
               g_compile_workers_attempted := 0, g_compile_workers_retries := 0\<rparr>"
  from assms False obtain s3 where
    m: "multithread_compile_all h ?s2 = Some (Inr s3)"
    and s': "jit_config s' = jit_config s3 \<and> active_compiles s' = active_compiles s3"
    by (auto simp: test_multithreaded_compile_method_def Let_def
        split: option.splits sum.splits)
  from multithread_compile_all_keeps [OF m] s' show ?thesis by simp
qed

lemma test_multithreaded_compile_method_returns:
  assumes "length (active_compiles s) \<le> kMaxCompileDepth"
  shows "\<exists>out. test_multithreaded_compile_method h s = Some out"
proof -
  let ?s2 = "s\<lparr>jit_reg_functions := set (test_multithreaded_funcs s),
               g_compile_workers_attempted := 0, g_compile_workers_retries := 0\<rparr>"
  from assms have "length (active_compiles ?s2) \<le> kMaxCompileDepth" by simp
  from multithread_compile_all_returns [OF this] obtain out where
    "multithread_compile_all h ?s2 = Some out" by blast
  then show ?thesis
    by (cases out) (simp_all add: test_multithreaded_compile_method_def Let_def)
qed

lemma disable_jit_keeps:
  assumes "disable_jit h args s = Some (Inr (res, s'))"
  shows "frame_mode (jit_config s') = frame_mode (jit_config s) \<and>
         init_state (jit_config s') = init_state (jit_config s) \<and>
         active_compiles s' = active_compiles s"
proof -
  from assms consider
    (error) "s' = s"
  | (batch) s1 where "multithread_compile_all h s = Some (Inr s1)" "s' = PyJIT_Disable s1"
  | (serial) s1 where "compile_each h (iteration_order h (jit_reg_functions s)) s = Some s1"
      "s' = PyJIT_Disable s1"
  | (plain) "s' = PyJIT_Disable s"
    by (auto simp: disable_jit_def split: if_splits option.splits sum.splits)
  then show ?thesis
  proof cases
    case error
    then show ?thesis by simp
  next
    case (batch s1)
    with multithread_compile_all_keeps [OF batch(1)] show ?thesis
      by (simp add: PyJIT_Disable_def)
  next
    case (serial s1)
    with compile_each_keeps [OF serial(1)] show ?thesis
      by (simp add: PyJIT_Disable_def)
  next
    case plain
    then show ?thesis by (simp add: PyJIT_Disable_def)
  qed
qed

lemma disable_jit_returns:
  assumes "length (active_compiles s) \<le> kMaxCompileDepth"
  shows "\<exists>out. disable_jit h args s = Some out"
proof -
  from multithread_compile_all_returns [OF assms] obtain out1 where
    m: "multithread_compile_all h s = Some out1" by blast
  from compile_each_returns [OF assms] obtain s1 where
    c: "compile_each h (iteration_order h (jit_reg_functions s)) s = Some s1" by blast
  from m c show ?thesis
    by (cases out1) (simp_all add: disable_jit_def)
qed

lemma force_compile_keeps:
  assumes "force_compile h func s = Some (res, s')"
  shows "jit_config s' = jit_config s \<and> active_compiles s' = active_compiles s"
proof (cases func)
  case (PyFunction f)
  show ?thesis
  proof (cases "f \<in> jit_reg_functions s")
    case True
    with assms PyFunction obtain r where "PyJIT_CompileFunction h f s = Some (r, s')"
      by (auto simp: force_compile_def split: option.splits)
    from PyJIT_CompileFunction_keeps [OF this] show ?thesis .
  next
    case False
    with assms PyFunction show ?thesis by (simp add: force_compile_def)
  qed
qed (use assms in \<open>simp_all add: force_compile_def\<close>)

lemma force_compile_returns:
  assumes "length (active_compiles s) \<le> kMaxCompileDepth"
  shows "\<exists>out. force_compile h func s = Some out"
proof (cases func)
  case (PyFunction f)
  from PyJIT_CompileFunction_returns [OF assms] obtain r s1 where
    "PyJIT_CompileFunction h f s = Some (r, s1)" by blast
  with PyFunction show ?thesis by (simp add: force_compile_def)
qed (simp_all add: force_compile_def)

lemma map_sum_snd_Inr:
  assumes "map_option (map_sum id snd) x = Some (Inr s')"
  obtains res where "x = Some (Inr (res, s'))"
proof (cases x)
  case None
  with assms show ?thesis by simp
next
  case (Some y)
  with assms that show ?thesis by (cases y) auto
qed

lemma run_op_returns:
  assumes "length (active_compiles s) \<le> kMaxCompileDepth"
  shows "\<exists>out. run_op h op s = Some out"
proof (cases op)
  case (Op_CompileFunction f)
  from PyJIT_CompileFunction_returns [OF assms] obtain r s1 where
    "PyJIT_CompileFunction h f s = Some (r, s1)" by blast
  with Op_CompileFunction show ?thesis by simp
next
  case (Op_disable args)
  with disable_jit_returns [OF assms] show ?thesis by auto
next
  case (Op_force_compile func)
  with force_compile_returns [OF assms] show ?thesis by auto
next
  case Op_test_multithreaded_compile
  with test_multithreaded_compile_method_returns [OF assms] show ?thesis by auto
qed simp_all

subsection \<open>Who writes the frame mode and the type-slot flag\<close>

text \<open>
  Claim C6, amended. An operation of the public surface other than \<open>_PyJIT_Initialize\<close>,
  \<open>_PyJIT_Disable\<close>, the module's \<open>disable\<close> and \<open>_PyJIT_EnableTypeSlots\<close> leaves the frame
  mode and the type-slot flag as they were; every operation other than \<open>_PyJIT_Initialize\<close>
  leaves the frame mode as it was; \<open>_PyJIT_EnableTypeSlots\<close> sets the type-slot flag when the
  JIT is enabled and does nothing otherwise. From a state whose active-compile stack has
  depth at most 10 every operation returns or aborts on a \<open>JIT_CHECK\<close>.
\<close>

theorem frame_mode_and_type_slots_writers:
  "(\<not> writes_type_slots op \<and> run_op h op s = Some (Inr s') \<longrightarrow>
      frame_mode (jit_config s') = frame_mode (jit_config s) \<and>
      are_type_slots_enabled (jit_config s') = are_type_slots_enabled (jit_config s)) \<and>
   (op \<noteq> Op_Initialize \<and> run_op h op s = Some (Inr s') \<longrightarrow>
      frame_mode (jit_config s') = frame_mode (jit_config s)) \<and>
   (run_op h Op_EnableTypeSlots s =
      Some (Inr (if PyJIT_IsEnabled s = 0 then s
                 else s\<lparr>jit_config := (jit_config s)\<lparr>are_type_slots_enabled := 1\<rparr>\<rparr>))) \<and>
   (length (active_compiles s) \<le> kMaxCompileDepth \<longrightarrow> run_op h op s \<noteq> None)"
proof (intro conjI impI)
  assume a: "\<not> writes_type_slots op \<and> run_op h op s = Some (Inr s')"
  then have "jit_config s' = jit_config s \<or>
             (\<exists>st. jit_config s' = (jit_config s)\<lparr>init_state := st\<rparr>) \<or>
             (\<exists>e. jit_config s' = (jit_config s)\<lparr>is_enabled := e\<rparr>)"
  proof (cases op)
    case Op_Finalize
    with a show ?thesis
      by (auto simp: PyJIT_Finalize_def Let_def split: if_splits)
  next
    case Op_Enable
    with a show ?thesis by (auto simp: PyJIT_Enable_def split: if_splits)
  next
    case (Op_RegisterFunction f)
    with a show ?thesis by (auto simp: PyJIT_RegisterFunction_def Let_def split: if_splits)
  next
    case (Op_UnregisterFunction f)
    with a show ?thesis by (auto simp: PyJIT_UnregisterFunction_def split: if_splits)
  next
    case (Op_CompileFunction f)
    with a obtain r where "PyJIT_CompileFunction h f s = Some (r, s')" by auto
    from PyJIT_CompileFunction_keeps [OF this] show ?thesis by simp
  next
    case (Op_force_compile func)
    with a obtain res where "force_compile h func s = Some (res, s')" by auto
    from force_compile_keeps [OF this] show ?thesis by simp
  next
    case Op_test_multithreaded_compile
    with a have "map_option (map_sum id snd) (test_multithreaded_compile_method h s) = Some (Inr s')"
      by simp
    then obtain res where "test_multithreaded_compile_method h s = Some (Inr (res, s'))"
      by (rule map_sum_snd_Inr)
    from test_multithreaded_compile_method_keeps [OF this] show ?thesis by simp
  qed auto
  then show "frame_mode (jit_config s') = frame_mode (jit_config s)"
    and "are_type_slots_enabled (jit_config s') = are_type_slots_enabled (jit_config s)"
    by auto
next
  assume b: "op \<noteq> Op_Initialize \<and> run_op h op s = Some (Inr s')"
  show "frame_mode (jit_config s') = frame_mode (jit_config s)"
  proof (cases op)
    case Op_Finalize
    with b show ?thesis
      by (auto simp: PyJIT_Finalize_def Let_def split: if_splits)
  next
    case Op_Enable
    with b show ?thesis by (auto simp: PyJIT_Enable_def split: if_splits)
  next
    case Op_Disable
    with b show ?thesis by (auto simp: PyJIT_Disable_def)
  next
    case Op_EnableTypeSlots
    with b show ?thesis by (auto simp: PyJIT_EnableTypeSlots_def split: if_splits)
  next
    case (Op_RegisterFunction f)
    with b show ?thesis by (auto simp: PyJIT_RegisterFunction_def Let_def split: if_splits)
  next
    case (Op_UnregisterFunction f)
    with b show ?thesis by (auto simp: PyJIT_UnregisterFunction_def split: if_splits)
  next
    case (Op_CompileFunction f)
    with b obtain r where "PyJIT_CompileFunction h f s = Some (r, s')" by auto
    from PyJIT_CompileFunction_keeps [OF this] show ?thesis by simp
  next
    case (Op_disable args)
    with b have "map_option (map_sum id snd) (disable_jit h args s) = Some (Inr s')"
      by simp
    then obtain res where "disable_jit h args s = Some (Inr (res, s'))"
      by (rule map_sum_snd_Inr)
    from disable_jit_keeps [OF this] show ?thesis by simp
  next
    case (Op_force_compile func)
    with b obtain res where "force_compile h func s = Some (res, s')" by auto
    from force_compile_keeps [OF this] show ?thesis by simp
  next
    case Op_test_multithreaded_compile
    with b have "map_option (map_sum id snd) (test_multithreaded_compile_method h s) = Some (Inr s')"
      by simp
    then obtain res where "test_multithreaded_compile_method h s = Some (Inr (res, s'))"
      by (rule map_sum_snd_Inr)
    from test_multithreaded_compile_method_keeps [OF this] show ?thesis by simp
  qed (use b in auto)
next
  show "run_op h Op_EnableTypeSlots s =
      Some (Inr (if PyJIT_IsEnabled s = 0 then s
                 else s\<lparr>jit_config := (jit_config s)\<lparr>are_type_slots_enabled := 1\<rparr>\<rparr>))"
    by (simp add: PyJIT_EnableTypeSlots_def)
next
  assume "length (active_compiles s) \<le> kMaxCompileDepth"
  from run_op_returns [OF this] show "run_op h op s \<noteq> None" by auto
qed


lemma example_no_type_slots_reached:
  "PyJIT_Initialize example_host_no_type_slots jit_state_at_start = Inr (0, example_no_type_slots)"
  by (simp add: Initialize_defs example_host_no_type_slots_def example_no_type_slots_def
      example_defs Let_def)

theorem frame_mode_and_type_slots_writers_witness:
  "\<not> writes_type_slots (Op_CompileFunction (example_func 1)) \<and>
   Op_CompileFunction (example_func 1) \<noteq> Op_Initialize \<and>
   length (active_compiles example_ready) \<le> kMaxCompileDepth \<and>
   run_op example_host (Op_CompileFunction (example_func 1)) example_ready =
     Some (Inr example_compiled) \<and>
   frame_mode (jit_config example_compiled) = frame_mode (jit_config example_ready) \<and>
   are_type_slots_enabled (jit_config example_compiled) =
     are_type_slots_enabled (jit_config example_ready)"
proof -
  have run: "run_op example_host (Op_CompileFunction (example_func 1)) example_ready =
     Some (Inr example_compiled)"
    by (simp add: CompileFunction_defs example_compiled_def example_defs Let_def)
  have bound: "length (active_compiles example_ready) \<le> kMaxCompileDepth"
    by (simp add: example_defs)
  from frame_mode_and_type_slots_writers
    [of "Op_CompileFunction (example_func 1)" example_host example_ready example_compiled]
    run bound
  show ?thesis by simp
qed

text \<open>
  The claim as stated fails for \<open>_PyJIT_EnableTypeSlots\<close>: after an initialization with
  \<open>-X jit-no-type-slots\<close> the flag is 0, and the operation sets it to 1.
\<close>

theorem EnableTypeSlots_writes_type_slots:
  "PyJIT_Initialize example_host_no_type_slots jit_state_at_start =
     Inr (0, example_no_type_slots) \<and>
   are_type_slots_enabled (jit_config example_no_type_slots) = 0 \<and>
   run_op example_host_no_type_slots Op_EnableTypeSlots example_no_type_slots =
     Some (Inr example_ready) \<and>
   are_type_slots_enabled (jit_config example_ready) = 1"
  using example_no_type_slots_reached
  by (simp add: PyJIT_EnableTypeSlots_def PyJIT_IsEnabled_def example_no_type_slots_def
      example_defs)

subsection \<open>A JIT list that does not parse\<close>

text \<open>
  Line 640 selects the variant of the list by the flag \<open>allow_jit_list_wildcards\<close> as the
  option parsing of lines 625-629 leaves it; parsing the options again selects the same.
\<close>

lemma Initialize_list_flags_wildcards:
  "allow_jit_list_wildcards (Initialize_list_flags h c) =
     (if is_flag_set h ''jit-enable-jit-list-wildcards'' ''PYTHONJITENABLEJITLISTWILDCARDS'' \<noteq> 0
      then 1 else allow_jit_list_wildcards c)"
  by (simp add: Initialize_list_flags_def Let_def)

lemma Initialize_list_flags_wildcards_again:
  "allow_jit_list_wildcards (Initialize_list_flags h (Initialize_list_flags h c)) =
     allow_jit_list_wildcards (Initialize_list_flags h c)"
  by (simp add: Initialize_list_flags_wildcards)

lemma Initialize_parse_failure:
  assumes listed: "flag_string h ''jit-list-file'' ''PYTHONJITLISTFILE'' = Some jl_fn"
    and created: "JITList_create h
                    (allow_jit_list_wildcards (Initialize_list_flags h (jit_config s)) \<noteq> 0) =
                  Some jit_list"
    and fails: "parseFile h jit_list jl_fn = None"
    and state: "init_state (jit_config s) \<noteq> JIT_INITIALIZED"
  shows "PyJIT_Initialize h s =
     Inr (0, s\<lparr>log_globals := Initialize_debug_flags h (Initialize_log_file h (log_globals s)),
               jit_config := Initialize_list_flags h (jit_config s)\<rparr>)"
proof -
  have "Initialize_jit_list h (Initialize_list_flags h (jit_config s)) use_jit = Inl 0"
    for use_jit
    using listed created fails by (simp add: Initialize_jit_list_def)
  with state show ?thesis
    by (simp add: PyJIT_Initialize_def Let_def)
qed

lemma PyJIT_CompileFunction_no_ctx:
  "jit_ctx s = None \<Longrightarrow> PyJIT_CompileFunction h f s = Some (PYJIT_NOT_INITIALIZED, s)"
  by (simp add: PyJIT_CompileFunction_def)

lemma compile_each_no_ctx:
  "jit_ctx s = None \<Longrightarrow> compile_each h fs s = Some s"
  by (induction fs) (simp_all add: PyJIT_CompileFunction_no_ctx)

lemma multithread_compile_all_no_ctx:
  "jit_ctx s = None \<Longrightarrow>
   multithread_compile_all h s = Some (Inl (JIT_CHECK_failed ''JIT not initialized''))"
  by (simp add: multithread_compile_all_def)

lemma run_op_unactivated:
  assumes listed: "flag_string h ''jit-list-file'' ''PYTHONJITLISTFILE'' = Some jl_fn"
    and created: "JITList_create h
                    (allow_jit_list_wildcards (Initialize_list_flags h (jit_config s)) \<noteq> 0) =
                  Some jit_list"
    and fails: "parseFile h jit_list jl_fn = None"
    and ctx: "jit_ctx s = None" and state: "init_state (jit_config s) \<noteq> JIT_INITIALIZED"
  shows "\<exists>out. run_op h op s = Some out \<and>
           (\<forall>s'. out = Inr s' \<longrightarrow>
              jit_ctx s' = None \<and> init_state (jit_config s') \<noteq> JIT_INITIALIZED \<and>
              backend_calls s' = backend_calls s \<and>
              allow_jit_list_wildcards (Initialize_list_flags h (jit_config s')) =
                allow_jit_list_wildcards (Initialize_list_flags h (jit_config s)))"
proof (cases op)
  case Op_Initialize
  with Initialize_parse_failure [OF listed created fails state] ctx state show ?thesis
    by (simp add: Initialize_list_flags_wildcards)
next
  case Op_Finalize
  with ctx state show ?thesis by (simp add: PyJIT_Finalize_def)
next
  case Op_Enable
  with ctx state show ?thesis by (simp add: PyJIT_Enable_def)
next
  case Op_Disable
  with ctx state show ?thesis
    by (simp add: PyJIT_Disable_def Initialize_list_flags_wildcards)
next
  case Op_EnableTypeSlots
  with ctx state show ?thesis by (simp add: PyJIT_EnableTypeSlots_def PyJIT_IsEnabled_def)
next
  case (Op_RegisterFunction f)
  with ctx state show ?thesis by (simp add: PyJIT_RegisterFunction_def PyJIT_IsEnabled_def)
next
  case (Op_UnregisterFunction f)
  with ctx state show ?thesis by (simp add: PyJIT_UnregisterFunction_def PyJIT_IsEnabled_def)
next
  case (Op_CompileFunction f)
  with ctx state show ?thesis by (simp add: PyJIT_CompileFunction_no_ctx)
next
  case (Op_disable args)
  with ctx state show ?thesis
    by (simp add: disable_jit_def multithread_compile_all_no_ctx compile_each_no_ctx
        PyJIT_Disable_def Initialize_list_flags_wildcards)
next
  case (Op_force_compile func)
  with ctx state show ?thesis
    by (cases func) (simp_all add: force_compile_def PyJIT_CompileFunction_no_ctx)
next
  case Op_test_multithreaded_compile
  with ctx state show ?thesis
    by (simp add: test_multithreaded_compile_method_def multithread_compile_all_no_ctx)
qed (use ctx state in simp_all)

lemma run_ops_unactivated:
  assumes listed: "flag_string h ''jit-list-file'' ''PYTHONJITLISTFILE'' = Some jl_fn"
    and fails: "parseFile h jit_list jl_fn = None"
  shows "JITList_create h
           (allow_jit_list_wildcards (Initialize_list_flags h (jit_config s)) \<noteq> 0) =
         Some jit_list \<Longrightarrow>
         jit_ctx s = None \<Longrightarrow> init_state (jit_config s) \<noteq> JIT_INITIALIZED \<Longrightarrow>
         \<exists>out. run_ops h ops s = Some out \<and>
           (\<forall>s'. out = Inr s' \<longrightarrow>
              jit_ctx s' = None \<and> init_state (jit_config s') \<noteq> JIT_INITIALIZED \<and>
              backend_calls s' = backend_calls s)"
proof (induction ops arbitrary: s)
  case Nil
  then show ?case by simp
next
  case (Cons op ops)
  from run_op_unactivated [OF listed Cons.prems(1) fails Cons.prems(2,3), of op] obtain out where
    step: "run_op h op s = Some out" and
    keeps: "\<And>s'. out = Inr s' \<Longrightarrow>
              jit_ctx s' = None \<and> init_state (jit_config s') \<noteq> JIT_INITIALIZED \<and>
              backend_calls s' = backend_calls s \<and>
              allow_jit_list_wildcards (Initialize_list_flags h (jit_config s')) =
                allow_jit_list_wildcards (Initialize_list_flags h (jit_config s))"
    by blast
  show ?case
  proof (cases out)
    case (Inl abort)
    with step show ?thesis by simp
  next
    case (Inr s1)
    from keeps [OF Inr] Cons.prems(1) have
      "JITList_create h
         (allow_jit_list_wildcards (Initialize_list_flags h (jit_config s1)) \<noteq> 0) =
       Some jit_list"
      by simp
    from Cons.IH [OF this] keeps [OF Inr] step Inr show ?thesis by auto
  qed
qed

text \<open>
  Claim C7. Let a jit-list-file be configured, and let the list that line 640 selects
  (the wildcard list when wildcards are enabled, the plain list otherwise) be allocated but
  fail to parse the file. Then \<open>_PyJIT_Initialize\<close>, on a controller that is not Initialized
  and has no context, returns 0 and leaves the lifecycle state as it was;
  \<open>_PyJIT_IsEnabled\<close> is false and there is no context. After that, whatever operations the
  same host runs, in any number and order (another \<open>_PyJIT_Initialize\<close> among them), each
  returns or aborts, the controller never becomes Initialized, the back-end is never
  invoked, and no object is compiled.
\<close>

theorem jit_list_parse_failure:
  assumes listed: "flag_string h ''jit-list-file'' ''PYTHONJITLISTFILE'' = Some jl_fn"
    and created: "JITList_create h
                    (allow_jit_list_wildcards (Initialize_list_flags h (jit_config s)) \<noteq> 0) =
                  Some jit_list"
    and fails: "parseFile h jit_list jl_fn = None"
    and ctx: "jit_ctx s = None" and state: "init_state (jit_config s) \<noteq> JIT_INITIALIZED"
  shows "\<exists>s'. PyJIT_Initialize h s = Inr (0, s') \<and>
           init_state (jit_config s') = init_state (jit_config s) \<and>
           PyJIT_IsEnabled s' = 0 \<and> jit_ctx s' = None \<and>
           (\<forall>ops. \<exists>out. run_ops h ops s' = Some out \<and>
              (\<forall>s''. out = Inr s'' \<longrightarrow>
                 init_state (jit_config s'') \<noteq> JIT_INITIALIZED \<and>
                 jit_ctx s'' = None \<and>
                 backend_calls s'' = backend_calls s \<and>
                 (\<forall>func. PyJIT_IsCompiled s'' func = 0)))"
proof -
  let ?s' = "s\<lparr>log_globals := Initialize_debug_flags h (Initialize_log_file h (log_globals s)),
               jit_config := Initialize_list_flags h (jit_config s)\<rparr>"
  have init: "PyJIT_Initialize h s = Inr (0, ?s')"
    by (rule Initialize_parse_failure [OF listed created fails state])
  have ctx': "jit_ctx ?s' = None" and state': "init_state (jit_config ?s') \<noteq> JIT_INITIALIZED"
    using ctx state by simp_all
  from created have created':
    "JITList_create h
       (allow_jit_list_wildcards (Initialize_list_flags h (jit_config ?s')) \<noteq> 0) =
     Some jit_list"
    by (simp add: Initialize_list_flags_wildcards_again)
  have "\<exists>out. run_ops h ops ?s' = Some out \<and>
              (\<forall>s''. out = Inr s'' \<longrightarrow>
                 init_state (jit_config s'') \<noteq> JIT_INITIALIZED \<and>
                 jit_ctx s'' = None \<and>
                 backend_calls s'' = backend_calls s \<and>
                 (\<forall>func. PyJIT_IsCompiled s'' func = 0))" for ops
    using run_ops_unactivated [OF listed fails created' ctx' state', of ops]
    by (auto simp: PyJIT_IsCompiled_def)
  with init ctx' state' state show ?thesis
    by (intro exI [of _ ?s']) (simp add: PyJIT_IsEnabled_def)
qed

lemma example_parse_failed_reached:
  "PyJIT_Initialize example_host_bad_list jit_state_at_start = Inr (0, example_parse_failed)"
  by (simp add: Initialize_defs example_host_bad_list_def example_parse_failed_def
      example_plain_list_def example_wildcard_list_def example_defs Let_def)

theorem jit_list_parse_failure_witness:
  "flag_string example_host_bad_list ''jit-list-file'' ''PYTHONJITLISTFILE'' = Some ''jitlist.txt'' \<and>
   JITList_create example_host_bad_list
     (allow_jit_list_wildcards
        (Initialize_list_flags example_host_bad_list (jit_config jit_state_at_start)) \<noteq> 0) =
     Some example_plain_list \<and>
   parseFile example_host_bad_list example_plain_list ''jitlist.txt'' = None \<and>
   parseFile example_host_bad_list example_wildcard_list ''jitlist.txt'' = Some example_list \<and>
   jit_ctx jit_state_at_start = None \<and>
   init_state (jit_config jit_state_at_start) \<noteq> JIT_INITIALIZED \<and>
   PyJIT_Initialize example_host_bad_list jit_state_at_start = Inr (0, example_parse_failed) \<and>
   run_ops example_host_bad_list
     [Op_RegisterFunction (example_func 1), Op_CompileFunction (example_func 1),
      Op_force_compile (PyFunction (example_func 1)), Op_Enable, Op_Initialize, Op_disable []]
     example_parse_failed = Some (Inr example_parse_failed) \<and>
   PyJIT_IsCompiled example_parse_failed (PyFunction (example_func 1)) = 0"
proof -
  have listed:
    "flag_string example_host_bad_list ''jit-list-file'' ''PYTHONJITLISTFILE'' = Some ''jitlist.txt''"
    by (simp add: flag_string_def example_host_bad_list_def example_defs)
  have created: "JITList_create example_host_bad_list
     (allow_jit_list_wildcards
        (Initialize_list_flags example_host_bad_list (jit_config jit_state_at_start)) \<noteq> 0) =
     Some example_plain_list"
    by (simp add: Initialize_list_flags_wildcards is_flag_set_def is_env_truthy_def
        example_host_bad_list_def example_defs)
  have fails: "parseFile example_host_bad_list example_plain_list ''jitlist.txt'' = None"
    by (simp add: example_host_bad_list_def example_plain_list_def example_defs)
  have other:
    "parseFile example_host_bad_list example_wildcard_list ''jitlist.txt'' = Some example_list"
    by (simp add: example_host_bad_list_def example_wildcard_list_def example_defs)
  have ctx: "jit_ctx jit_state_at_start = None"
    and state: "init_state (jit_config jit_state_at_start) \<noteq> JIT_INITIALIZED"
    by (simp_all add: example_defs)
  have ops: "run_ops example_host_bad_list
     [Op_RegisterFunction (example_func 1), Op_CompileFunction (example_func 1),
      Op_force_compile (PyFunction (example_func 1)), Op_Enable, Op_Initialize, Op_disable []]
     example_parse_failed = Some (Inr example_parse_failed)"
    by (simp add: PyJIT_RegisterFunction_def PyJIT_IsEnabled_def PyJIT_CompileFunction_no_ctx
        force_compile_def PyJIT_Enable_def Initialize_defs disable_jit_def compile_each_no_ctx
        PyJIT_Disable_def example_parse_failed_def example_host_bad_list_def
        example_plain_list_def example_wildcard_list_def example_defs Let_def)
  from jit_list_parse_failure [OF listed created fails ctx state]
    listed created fails other ctx state example_parse_failed_reached ops
  show ?thesis by (simp add: PyJIT_IsCompiled_def example_parse_failed_def example_defs)
qed

subsection \<open>Resuming a generator\<close>

lemma GenSend_prepare_footer:
  "gen_footer (snd (GenSend_prepare w arg exc f)) =
     (gen_footer w)\<lparr>state := PyJitGenState_Running\<rparr>"
  by (simp add: GenSend_prepare_def Let_def split: option.splits)

lemma GenSend_prepare_arg:
  "fst (GenSend_prepare w arg exc f) =
     (if exc \<noteq> 0 then None else if arg = None then Some Py_None else arg)"
  by (simp add: GenSend_prepare_def Let_def split: option.splits)

text \<open>
  Claim C9, amended. Let the continuation state be JustStarted or Running, the sent value
  None when an exception is injected, and the yield point not nil. Then \<open>_PyJIT_GenSend\<close>
  returns; the resume entry is entered with the state Running; when no exception is
  injected and the sent value is nil, the entry is given None; when the entry returns nil
  the state is Completed afterwards, and when it returns a value the continuation block is
  as the entry left it. So, when the entry leaves the state Running, the state is Completed
  afterwards if and only if the entry returned nil.
\<close>

theorem GenSend_resumes:
  assumes "state (gen_footer w) = PyJitGenState_JustStarted \<or>
           state (gen_footer w) = PyJitGenState_Running"
    and "exc \<noteq> 0 \<longrightarrow> arg = Some Py_None"
    and "yieldPoint (gen_footer w) \<noteq> None"
    and "GenSend_prepare w arg exc f = (arg1, w3)"
    and "resumeEntry w3 arg1 finish_yield_from = (result, w4)"
  shows "state (gen_footer w3) = PyJitGenState_Running \<and>
         (exc = 0 \<and> arg = None \<longrightarrow> arg1 = Some Py_None) \<and>
         PyJIT_GenSend dchecks resumeEntry w arg exc f finish_yield_from =
           Inr (result,
                if result = None
                then w4\<lparr>gen_footer := (gen_footer w4)\<lparr>state := PyJitGenState_Completed\<rparr>\<rparr>
                else w4) \<and>
         (state (gen_footer w4) = PyJitGenState_Running \<longrightarrow>
            (state (gen_footer
                      (if result = None
                       then w4\<lparr>gen_footer := (gen_footer w4)\<lparr>state := PyJitGenState_Completed\<rparr>\<rparr>
                       else w4)) = PyJitGenState_Completed \<longleftrightarrow> result = None))"
proof -
  from GenSend_prepare_footer [of w arg exc f] assms(4)
  have footer: "gen_footer w3 = (gen_footer w)\<lparr>state := PyJitGenState_Running\<rparr>" by simp
  from GenSend_prepare_arg [of w arg exc f] assms(4)
  have arg1: "arg1 = (if exc \<noteq> 0 then None else if arg = None then Some Py_None else arg)"
    by simp
  from assms footer have
    "PyJIT_GenSend dchecks resumeEntry w arg exc f finish_yield_from =
           Inr (result,
                if result = None
                then w4\<lparr>gen_footer := (gen_footer w4)\<lparr>state := PyJitGenState_Completed\<rparr>\<rparr>
                else w4)"
    by (auto simp: PyJIT_GenSend_def)
  with footer arg1 show ?thesis by simp
qed

theorem GenSend_resumes_witness:
  "state (gen_footer example_gen) = PyJitGenState_JustStarted \<and>
   yieldPoint (gen_footer example_gen) \<noteq> None \<and>
   PyJIT_GenSend True example_resume_yield example_gen None 0 None 0 =
     Inr (Some (PyLong 5),
          example_gen\<lparr>gen_footer := \<lparr> state = PyJitGenState_Running, yieldPoint = Some 1 \<rparr>,
                      ob_refcnt := (\<lambda>obj. 1)(Py_None := 2)\<rparr>)"
proof -
  have started: "state (gen_footer example_gen) = PyJitGenState_JustStarted \<or>
           state (gen_footer example_gen) = PyJitGenState_Running"
    by (simp add: example_gen_def)
  have no_exc: "(0::int) \<noteq> 0 \<longrightarrow> None = Some Py_None" by simp
  have yp: "yieldPoint (gen_footer example_gen) \<noteq> None"
    by (simp add: example_gen_def)
  have prepared: "GenSend_prepare example_gen None 0 None =
      (Some Py_None,
       example_gen\<lparr>gen_footer := \<lparr> state = PyJitGenState_Running, yieldPoint = Some 1 \<rparr>,
                   ob_refcnt := (\<lambda>obj. 1)(Py_None := 2)\<rparr>)"
    by (simp add: GenSend_prepare_def example_gen_def Let_def)
  have entry: "example_resume_yield
      (example_gen\<lparr>gen_footer := \<lparr> state = PyJitGenState_Running, yieldPoint = Some 1 \<rparr>,
                   ob_refcnt := (\<lambda>obj. 1)(Py_None := 2)\<rparr>) (Some Py_None) 0 =
      (Some (PyLong 5),
       example_gen\<lparr>gen_footer := \<lparr> state = PyJitGenState_Running, yieldPoint = Some 1 \<rparr>,
                   ob_refcnt := (\<lambda>obj. 1)(Py_None := 2)\<rparr>)"
    by (simp add: example_resume_yield_def)
  from GenSend_resumes [where resumeEntry = example_resume_yield and dchecks = True,
      OF started no_exc yp prepared entry] started yp
  show ?thesis by (simp add: example_gen_def)
qed

text \<open>
  The claim as stated fails for a resume entry that writes the state itself: the generated
  code shares the continuation block with the controller (it is what sets \<open>yieldPoint\<close>,
  which this file only reads). When it marks the generator Completed and returns a value,
  the state is Completed although the entry did not return nil.
\<close>

theorem GenSend_completed_with_result:
  "state (gen_footer example_gen) = PyJitGenState_JustStarted \<and>
   PyJIT_GenSend True example_resume_return example_gen (Some (PyLong 3)) 0 None 0 =
     Inr (Some (PyLong 5),
          example_gen\<lparr>gen_footer := \<lparr> state = PyJitGenState_Completed, yieldPoint = Some 1 \<rparr>\<rparr>) \<and>
   Some (PyLong 5) \<noteq> None"
  by (simp add: PyJIT_GenSend_def GenSend_prepare_def example_resume_return_def example_gen_def
      Let_def)

end
